(* ===== verification/Prelude.thy ===== *)
theory Prelude
  imports Main "HOL-Library.Word"
begin

text \<open>
  Shared vocabulary of the development. The scripts of the repository are
  asynchronous TypeScript functions: each \<open>await\<close> suspends until a promise settles,
  a rejected promise or a \<open>throw\<close> propagates to the caller unless a
  \<open>try\<close>/\<open>catch\<close> intercepts it, and \<open>process.exit\<close> ends the process.
  An async function of the program is modelled as a state transformer with an abrupt
  outcome, \<open>('s, 'a) prog = 's \<Rightarrow> (abrupt + 'a) \<times> 's\<close>: the state is the world the
  program touches (the RPC endpoint, the file system, the consoles), \<open>Inr\<close> is a
  settled value and \<open>Inl\<close> an exception or an exit. This theory holds the combinators
  (\<open>ret\<close>, \<open>throw\<close>, \<open>bind_p\<close>, \<open>catch_p\<close>), their algebra, the collection
  \<open>prog_simps\<close> that evaluates programs, and the byte and string types.
\<close>

named_theorems prog_simps "equations that evaluate programs of the async model"
named_theorems writes_intros "rules of the logic writes for the operations of the model"
named_theorems emits_intros "rules of the logic emits for the operations of the model"
named_theorems bound_intros "rules of the logic appends_at_most for the operations of the model"

type_synonym byte = "8 word"
type_synonym bytes = "byte list"

subsection \<open>JavaScript errors and abrupt completion\<close>

text \<open>
  The errors the scripts create are \<open>new Error(msg)\<close>; the runtime and the SDK also
  raise \<open>TypeError\<close>s. \<open>process.exit(n)\<close> is not an exception: no \<open>catch\<close>
  intercepts it, so it is a separate kind of abrupt outcome.
\<close>

datatype js_error = Error string | TypeError string

datatype abrupt = Thrown js_error | Exit nat

text \<open>\<open>String(e)\<close> of an error object, as \<open>Error.prototype.toString\<close> computes it:
  the name, then \<open>": "\<close> and the message when the message is not empty.\<close>

fun js_error_to_string :: "js_error \<Rightarrow> string" where
  "js_error_to_string (Error m) = (if m = [] then ''Error'' else ''Error: '' @ m)"
| "js_error_to_string (TypeError m) = (if m = [] then ''TypeError'' else ''TypeError: '' @ m)"

text \<open>A destructured parameter with a default, \<open>{x = d}\<close>: \<open>d\<close> when the
  argument is \<open>undefined\<close>.\<close>

definition js_default :: "'a \<Rightarrow> 'a option \<Rightarrow> 'a" where
  "js_default d x = (case x of None \<Rightarrow> d | Some v \<Rightarrow> v)"

subsection \<open>The async program model\<close>

type_synonym ('s, 'a) prog = "'s \<Rightarrow> (abrupt + 'a) \<times> 's"

definition ret :: "'a \<Rightarrow> ('s, 'a) prog" where
  "ret x = (\<lambda>s. (Inr x, s))"

definition throw :: "abrupt \<Rightarrow> ('s, 'a) prog" where
  "throw e = (\<lambda>s. (Inl e, s))"

text \<open>\<open>await m\<close> followed by the rest of the function body.\<close>

definition bind_p :: "('s, 'a) prog \<Rightarrow> ('a \<Rightarrow> ('s, 'b) prog) \<Rightarrow> ('s, 'b) prog" where
  "bind_p m f = (\<lambda>s. case m s of (Inl e, s') \<Rightarrow> (Inl e, s') | (Inr x, s') \<Rightarrow> f x s')"

text \<open>\<open>try { m } catch (error) { h(error) }\<close>: only thrown errors are caught.\<close>

definition catch_p :: "('s, 'a) prog \<Rightarrow> (js_error \<Rightarrow> ('s, 'a) prog) \<Rightarrow> ('s, 'a) prog" where
  "catch_p m h = (\<lambda>s. case m s of (Inl (Thrown e), s') \<Rightarrow> h e s' | r \<Rightarrow> r)"

text \<open>A synchronous computation that may throw, run inside an async body.\<close>

definition lift_sync :: "js_error + 'a \<Rightarrow> ('s, 'a) prog" where
  "lift_sync r = (case r of Inl e \<Rightarrow> throw (Thrown e) | Inr x \<Rightarrow> ret x)"

text \<open>The result of a program, without its final state, and the final state alone.\<close>

abbreviation result_of :: "('s, 'a) prog \<Rightarrow> 's \<Rightarrow> abrupt + 'a" where
  "result_of m s \<equiv> fst (m s)"

abbreviation state_of :: "('s, 'a) prog \<Rightarrow> 's \<Rightarrow> 's" where
  "state_of m s \<equiv> snd (m s)"


subsection \<open>Output and request traces\<close>

text \<open>
  Two program logics over a list the program appends to (a console, the log of
  requests), for properties of whole scripts that are proved step by step.
  \<open>writes out P Q m\<close>: on every outcome, \<open>m\<close> only appends elements satisfying \<open>P\<close> to
  \<open>out\<close>, and every value it returns satisfies \<open>Q\<close>. \<open>emits out E m\<close>: whenever \<open>m\<close>
  returns \<open>x\<close>, it has appended some \<open>new\<close> with \<open>E x new\<close>.
\<close>

definition writes :: "('s \<Rightarrow> 'l list) \<Rightarrow> ('l \<Rightarrow> bool) \<Rightarrow> ('a \<Rightarrow> bool) \<Rightarrow> ('s, 'a) prog \<Rightarrow> bool" where
  "writes out P Q m =
     (\<forall>s. (\<exists>new. out (state_of m s) = out s @ new \<and> list_all P new) \<and>
          (\<forall>x. result_of m s = Inr x \<longrightarrow> Q x))"

definition emits :: "('s \<Rightarrow> 'l list) \<Rightarrow> ('a \<Rightarrow> 'l list \<Rightarrow> bool) \<Rightarrow> ('s, 'a) prog \<Rightarrow> bool" where
  "emits out E m = (\<forall>s x s'. m s = (Inr x, s') \<longrightarrow> (\<exists>new. out s' = out s @ new \<and> E x new))"

text \<open>\<open>appends_at_most out n m\<close>: whatever the outcome, \<open>m\<close> appends at most \<open>n\<close>
  elements to \<open>out\<close>.\<close>

definition appends_at_most :: "('s \<Rightarrow> 'l list) \<Rightarrow> nat \<Rightarrow> ('s, 'a) prog \<Rightarrow> bool" where
  "appends_at_most out n m = (\<forall>s. \<exists>new. out (state_of m s) = out s @ new \<and> length new \<le> n)"

subsection \<open>Algebra and evaluation of programs\<close>

lemma js_default_simps [simp]: "js_default d None = d" "js_default d (Some v) = v"
  by (simp_all add: js_default_def)

lemma ret_apply [prog_simps]: "ret x s = (Inr x, s)"
  by (simp add: ret_def)

lemma throw_apply [prog_simps]: "throw e s = (Inl e, s)"
  by (simp add: throw_def)

lemma bind_p_apply [prog_simps]:
  "bind_p m f s = (case m s of (Inl e, s') \<Rightarrow> (Inl e, s') | (Inr x, s') \<Rightarrow> f x s')"
  by (simp add: bind_p_def)

lemma catch_p_apply [prog_simps]:
  "catch_p m h s = (case m s of (Inl (Thrown e), s') \<Rightarrow> h e s' | r \<Rightarrow> r)"
  by (simp add: catch_p_def)

lemma lift_sync_Inl [simp]: "lift_sync (Inl e) = throw (Thrown e)"
  by (simp add: lift_sync_def)

lemma lift_sync_Inr [simp]: "lift_sync (Inr x) = ret x"
  by (simp add: lift_sync_def)

lemma lift_sync_apply [prog_simps]: "lift_sync r s = (map_sum Thrown id r, s)"
  by (cases r) (simp_all add: lift_sync_def ret_def throw_def)

lemma bind_p_ret [simp]: "bind_p (ret x) f = f x"
  by (simp add: bind_p_def ret_def)

lemma bind_p_throw [simp]: "bind_p (throw e) f = throw e"
  by (simp add: bind_p_def throw_def)

lemma bind_p_right_unit [simp]: "bind_p m ret = m"
  by (rule ext) (simp add: bind_p_def ret_def split: prod.splits sum.splits)

lemma bind_p_assoc:
  "bind_p (bind_p m f) g = bind_p m (\<lambda>x. bind_p (f x) g)"
  by (rule ext) (simp add: bind_p_def split: prod.splits sum.splits)

lemma catch_p_ret [simp]: "catch_p (ret x) h = ret x"
  by (simp add: catch_p_def ret_def)

lemma catch_p_thrown [simp]: "catch_p (throw (Thrown e)) h = h e"
  by (simp add: catch_p_def throw_def)

lemma catch_p_exit [simp]: "catch_p (throw (Exit n)) h = throw (Exit n)"
  by (simp add: catch_p_def throw_def)

text \<open>A rejected request is a thrown error, never an exit.\<close>

lemma map_sum_Thrown_not_Exit [simp]: "map_sum Thrown id r \<noteq> Inl (Exit n)"
  by (cases r) simp_all

text \<open>
  A program that succeeds has a successful first step: the fact used to take a
  successful pipeline apart into its stages.
\<close>

lemma bind_p_Inr_E:
  assumes "bind_p m f s = (Inr y, t)"
  obtains x s' where "m s = (Inr x, s')" and "f x s' = (Inr y, t)"
  using assms by (auto simp: bind_p_def split: prod.splits sum.splits)

lemma bind_p_Inl_cases:
  assumes "bind_p m f s = (Inl e, t)"
  shows "m s = (Inl e, t) \<or> (\<exists>x s'. m s = (Inr x, s') \<and> f x s' = (Inl e, t))"
  using assms by (auto simp: bind_p_def split: prod.splits sum.splits)

text \<open>A continuation that leaves the state alone leaves the final state to the
  first program.\<close>

lemma bind_p_state_pure:
  assumes "\<And>x s. state_of (f x) s = s"
  shows "state_of (bind_p m f) w = state_of m w"
  using assms by (simp add: bind_p_def split: prod.splits sum.splits)

text \<open>A thrown error is never an exit, and \<open>catch_p\<close> turns every thrown error into
  whatever its handler does.\<close>

lemma catch_p_result:
  "catch_p m h s =
     (case m s of (Inl (Thrown e), s') \<Rightarrow> h e s' | (Inl (Exit n), s') \<Rightarrow> (Inl (Exit n), s')
      | (Inr x, s') \<Rightarrow> (Inr x, s'))"
  by (simp add: catch_p_def split: prod.splits sum.splits abrupt.splits)


subsection \<open>Rules of the trace logics\<close>

lemma writes_ret [writes_intros]: "Q x \<Longrightarrow> writes out P Q (ret x)"
  by (simp add: writes_def ret_def)

lemma writes_throw [writes_intros]: "writes out P Q (throw e)"
  by (simp add: writes_def throw_def)

lemma writes_lift_sync: "(\<And>x. r = Inr x \<Longrightarrow> Q x) \<Longrightarrow> writes out P Q (lift_sync r)"
  by (cases r) (simp_all add: writes_ret writes_throw)

lemma writes_bind:
  assumes m: "writes out P R m" and f: "\<And>x. R x \<Longrightarrow> writes out P Q (f x)"
  shows "writes out P Q (bind_p m f)"
  unfolding writes_def
proof
  fix s
  obtain r s' where run: "m s = (r, s')" by fastforce
  from m run obtain n1 where n1: "out s' = out s @ n1" "list_all P n1" and R: "\<And>x. r = Inr x \<Longrightarrow> R x"
    unfolding writes_def by (metis fst_conv snd_conv)
  show "(\<exists>new. out (state_of (bind_p m f) s) = out s @ new \<and> list_all P new) \<and>
        (\<forall>x. result_of (bind_p m f) s = Inr x \<longrightarrow> Q x)"
  proof (cases r)
    case (Inl e)
    with run n1 show ?thesis by (simp add: bind_p_def)
  next
    case (Inr x)
    from f [OF R [OF Inr]] obtain n2 where
      "out (state_of (f x) s') = out s' @ n2" "list_all P n2" "\<forall>y. result_of (f x) s' = Inr y \<longrightarrow> Q y"
      unfolding writes_def by blast
    with run Inr n1 show ?thesis by (simp add: bind_p_def)
  qed
qed

lemma writes_catch:
  assumes m: "writes out P Q m" and h: "\<And>e. writes out P Q (h e)"
  shows "writes out P Q (catch_p m h)"
  unfolding writes_def
proof
  fix s
  obtain r s' where run: "m s = (r, s')" by fastforce
  from m run obtain n1 where n1: "out s' = out s @ n1" "list_all P n1" and R: "\<And>x. r = Inr x \<Longrightarrow> Q x"
    unfolding writes_def by (metis fst_conv snd_conv)
  show "(\<exists>new. out (state_of (catch_p m h) s) = out s @ new \<and> list_all P new) \<and>
        (\<forall>x. result_of (catch_p m h) s = Inr x \<longrightarrow> Q x)"
  proof (cases "\<exists>e. r = Inl (Thrown e)")
    case True
    then obtain e where e: "r = Inl (Thrown e)" by blast
    from h [of e] obtain n2 where
      "out (state_of (h e) s') = out s' @ n2" "list_all P n2" "\<forall>y. result_of (h e) s' = Inr y \<longrightarrow> Q y"
      unfolding writes_def by blast
    with run e n1 show ?thesis by (simp add: catch_p_def)
  next
    case False
    then have "catch_p m h s = (r, s')" using run
      by (auto simp: catch_p_def split: sum.splits abrupt.splits)
    with n1 R show ?thesis by simp
  qed
qed

lemma writes_mono: "writes out P Q m \<Longrightarrow> (\<And>x. Q x \<Longrightarrow> Q' x) \<Longrightarrow> writes out P Q' m"
  by (simp add: writes_def)

lemma emits_ret [emits_intros]: "E x [] \<Longrightarrow> emits out E (ret x)"
  by (simp add: emits_def ret_def)

lemma emits_throw [emits_intros]: "emits out E (throw e)"
  by (simp add: emits_def throw_def)

lemma emits_lift_sync: "(\<And>x. r = Inr x \<Longrightarrow> E x []) \<Longrightarrow> emits out E (lift_sync r)"
  by (cases r) (simp_all add: emits_ret emits_throw)

lemma emits_bind:
  assumes m: "emits out E1 m" and f: "\<And>x. emits out (E2 x) (f x)"
    and comp: "\<And>x y n1 n2. E1 x n1 \<Longrightarrow> E2 x y n2 \<Longrightarrow> E y (n1 @ n2)"
  shows "emits out E (bind_p m f)"
  unfolding emits_def
proof (intro allI impI)
  fix s y t
  assume "bind_p m f s = (Inr y, t)"
  then obtain x s' where run1: "m s = (Inr x, s')" and run2: "f x s' = (Inr y, t)"
    by (rule bind_p_Inr_E)
  from m run1 obtain n1 where "out s' = out s @ n1" "E1 x n1" unfolding emits_def by blast
  moreover from f [of x] run2 obtain n2 where "out t = out s' @ n2" "E2 x y n2" unfolding emits_def by blast
  ultimately show "\<exists>new. out t = out s @ new \<and> E y new" using comp by auto
qed

lemma emits_mono: "emits out E m \<Longrightarrow> (\<And>x new. E x new \<Longrightarrow> E' x new) \<Longrightarrow> emits out E' m"
  unfolding emits_def by blast


lemma writes_if [writes_intros]: "writes out P Q a \<Longrightarrow> writes out P Q b \<Longrightarrow> writes out P Q (if c then a else b)"
  by simp

lemma writes_case_option [writes_intros]:
  "writes out P Q a \<Longrightarrow> (\<And>x. writes out P Q (b x)) \<Longrightarrow> writes out P Q (case v of None \<Rightarrow> a | Some x \<Rightarrow> b x)"
  by (simp split: option.split)

lemma emits_if [emits_intros]: "emits out E a \<Longrightarrow> emits out E b \<Longrightarrow> emits out E (if c then a else b)"
  by simp

lemma emits_case_option [emits_intros]:
  "emits out E a \<Longrightarrow> (\<And>x. emits out E (b x)) \<Longrightarrow> emits out E (case v of None \<Rightarrow> a | Some x \<Rightarrow> b x)"
  by (simp split: option.split)


text \<open>Strongest-postcondition forms, for chains of known steps.\<close>

lemma emits_bind_sp:
  assumes "emits out E1 m" and "\<And>x. emits out (E2 x) (f x)"
  shows "emits out (\<lambda>y n. \<exists>x n1 n2. n = n1 @ n2 \<and> E1 x n1 \<and> E2 x y n2) (bind_p m f)"
  by (rule emits_bind [OF assms]) auto

lemma emits_ret_sp: "emits out (\<lambda>y n. y = x \<and> n = []) (ret x)"
  by (rule emits_ret) simp

lemma emits_lift_sync_sp: "emits out (\<lambda>x n. r = Inr x \<and> n = []) (lift_sync r)"
  by (rule emits_lift_sync) simp


lemma bound_ret [bound_intros]: "appends_at_most out 0 (ret x)"
  by (simp add: appends_at_most_def ret_def)

lemma bound_throw [bound_intros]: "appends_at_most out 0 (throw e)"
  by (simp add: appends_at_most_def throw_def)

lemma bound_lift_sync [bound_intros]: "appends_at_most out 0 (lift_sync r)"
  by (cases r) (simp_all add: bound_ret bound_throw)

lemma bound_mono: "appends_at_most out n m \<Longrightarrow> n \<le> n' \<Longrightarrow> appends_at_most out n' m"
  unfolding appends_at_most_def by (meson order_trans)

lemma bound_bind [bound_intros]:
  assumes m: "appends_at_most out n1 m" and f: "\<And>x. appends_at_most out n2 (f x)"
  shows "appends_at_most out (n1 + n2) (bind_p m f)"
  unfolding appends_at_most_def
proof
  fix s
  obtain r s' where run: "m s = (r, s')" by fastforce
  from m run obtain a where a: "out s' = out s @ a" "length a \<le> n1"
    unfolding appends_at_most_def by (metis snd_conv)
  show "\<exists>new. out (state_of (bind_p m f) s) = out s @ new \<and> length new \<le> n1 + n2"
  proof (cases r)
    case (Inl e)
    with run a show ?thesis by (auto simp: bind_p_def)
  next
    case (Inr x)
    from f [of x] obtain b where "out (state_of (f x) s') = out s' @ b" "length b \<le> n2"
      unfolding appends_at_most_def by blast
    with run Inr a show ?thesis by (auto simp: bind_p_def)
  qed
qed

lemma bound_catch [bound_intros]:
  assumes m: "appends_at_most out n1 m" and h: "\<And>e. appends_at_most out n2 (h e)"
  shows "appends_at_most out (n1 + n2) (catch_p m h)"
  unfolding appends_at_most_def
proof
  fix s
  obtain r s' where run: "m s = (r, s')" by fastforce
  from m run obtain a where a: "out s' = out s @ a" "length a \<le> n1"
    unfolding appends_at_most_def by (metis snd_conv)
  show "\<exists>new. out (state_of (catch_p m h) s) = out s @ new \<and> length new \<le> n1 + n2"
  proof (cases "\<exists>e. r = Inl (Thrown e)")
    case True
    then obtain e where e: "r = Inl (Thrown e)" by blast
    from h [of e] obtain b where "out (state_of (h e) s') = out s' @ b" "length b \<le> n2"
      unfolding appends_at_most_def by blast
    with run e a show ?thesis by (auto simp: catch_p_def)
  next
    case False
    then have "catch_p m h s = (r, s')" using run
      by (auto simp: catch_p_def split: sum.splits abrupt.splits)
    with a show ?thesis by auto
  qed
qed

lemma bound_if [bound_intros]:
  "appends_at_most out n1 a \<Longrightarrow> appends_at_most out n2 b \<Longrightarrow> appends_at_most out (max n1 n2) (if c then a else b)"
  using bound_mono [of out n1 a "max n1 n2"] bound_mono [of out n2 b "max n1 n2"] by simp

lemma bound_case_option [bound_intros]:
  assumes "appends_at_most out n1 a" and "\<And>x. appends_at_most out n2 (b x)"
  shows "appends_at_most out (max n1 n2) (case v of None \<Rightarrow> a | Some x \<Rightarrow> b x)"
  using bound_mono [OF assms(1) max.cobounded1] bound_mono [OF assms(2) max.cobounded2]
  by (simp split: option.split)

end
