(* ===== verification/Stellar.thy ===== *)
theory Stellar
  imports Prelude
begin

text \<open>
  The part of \<open>@stellar/stellar-sdk\<close> and of the Node runtime that the scripts call,
  modelled from the spec (sections 3, 4.1 and 6) and from the SDK's documented
  behaviour: addresses and contract values (\<open>xdr.ScVal\<close>), operations
  (\<open>Contract.call\<close>, \<open>Operation.uploadContractWasm\<close>,
  \<open>Operation.createCustomContract\<close>), accounts and transactions, the
  \<open>TransactionBuilder\<close> chain, signing, and the RPC endpoint \<open>rpc.Server\<close>.
  The endpoint is an interface: a record \<open>'n rpc_server\<close> of functions over an
  arbitrary network state \<open>'n\<close>. Every lemma about the scripts holds for every
  server; a concrete scripted server (the fake client of the spec's section 8) is
  in \<open>Fake_Net\<close>. The world an async script runs in, \<open>'n world\<close>, holds the
  network state, the files, the consoles, and the log of the RPC requests issued in
  order (the observable traffic). \<open>rpc.Server.pollTransaction\<close>, the SDK's bounded
  polling loop that the scripts rely on, is \<open>pollTransaction\<close> here.
\<close>

subsection \<open>Addresses, key pairs and contract values\<close>

text \<open>An address is a 32-byte key of an account (\<open>G...\<close>) or of a contract
  (\<open>C...\<close>); the StrKey text form is left abstract.\<close>

datatype address = AccountAddress bytes | ContractAddress bytes

text \<open>\<open>Address.toBuffer()\<close>: the raw key of either kind.\<close>

fun address_toBuffer :: "address \<Rightarrow> bytes" where
  "address_toBuffer (AccountAddress k) = k"
| "address_toBuffer (ContractAddress k) = k"

text \<open>\<open>StrKey.encodeContract(buf)\<close>: the buffer read as a contract key.\<close>

definition encodeContract :: "bytes \<Rightarrow> address" where
  "encodeContract k = ContractAddress k"

text \<open>A key pair: its public key, and its secret seed when it has one
  (\<open>Keypair.fromPublicKey\<close> makes one without).\<close>

record keypair =
  kp_public :: address
  kp_secret :: "string option"

text \<open>\<open>Keypair.fromSecret(kp.secret())\<close>: \<open>secret()\<close> throws for a key pair without
  a seed; otherwise the seed determines the public key, so the rebuilt key pair is
  \<open>kp\<close> again.\<close>

definition keypair_fromSecret_secret :: "keypair \<Rightarrow> js_error + keypair" where
  "keypair_fromSecret_secret kp =
     (case kp_secret kp of
        None \<Rightarrow> Inl (Error ''no secret key available'')
      | Some _ \<Rightarrow> Inr kp)"

text \<open>Contract values (\<open>xdr.ScVal\<close>), with the arms the scripts meet.\<close>

datatype scval =
    ScvVoid
  | ScvBool bool
  | ScvU32 "32 word"
  | ScvI32 "32 word"
  | ScvBytes bytes
  | ScvString string
  | ScvSymbol string
  | ScvAddress address

text \<open>The union accessors \<open>v.bytes()\<close> and \<open>v.address()\<close> of the XDR library
  throw when \<open>v\<close> holds another arm.\<close>

fun scval_bytes :: "scval \<Rightarrow> js_error + bytes" where
  "scval_bytes (ScvBytes b) = Inr b"
| "scval_bytes _ = Inl (Error ''bytes not set'')"

fun scval_address :: "scval \<Rightarrow> js_error + address" where
  "scval_address (ScvAddress a) = Inr a"
| "scval_address _ = Inl (Error ''address not set'')"

subsection \<open>Operations\<close>

text \<open>The three host-function invocations the scripts build.\<close>

datatype operation =
    InvokeContract address string "scval list"
  | CreateContract address bytes bytes \<comment> \<open>deployer, salt, WASM hash\<close>
  | UploadContractWasm bytes

text \<open>\<open>new Contract(id).call(functionName, ...args)\<close>.\<close>

definition contract_call :: "address \<Rightarrow> string \<Rightarrow> scval list \<Rightarrow> operation" where
  "contract_call c f args = InvokeContract c f args"

text \<open>\<open>Operation.uploadContractWasm({wasm})\<close>.\<close>

definition uploadContractWasm :: "bytes \<Rightarrow> operation" where
  "uploadContractWasm wasm = UploadContractWasm wasm"

text \<open>\<open>Operation.createCustomContract({wasmHash, address, salt})\<close> checks that the hash
  and the salt are 32 bytes long.\<close>

definition createCustomContract :: "bytes \<Rightarrow> address \<Rightarrow> bytes \<Rightarrow> js_error + operation" where
  "createCustomContract wasmHash addr salt =
     (if length wasmHash \<noteq> 32 then Inl (TypeError ''expected hash(contract WASM) in opts.wasmHash'')
      else if length salt \<noteq> 32 then Inl (TypeError ''expected 32-byte salt in opts.salt'')
      else Inr (CreateContract addr salt wasmHash))"

subsection \<open>Accounts, transactions and the builder\<close>

record account =
  acc_id :: address
  acc_seq :: int

record transaction =
  tx_source :: address
  tx_seq :: int
  tx_fee :: nat
  tx_network :: string
  tx_timeout :: nat
  tx_ops :: "operation list"
  tx_signatures :: "address list"

text \<open>\<open>Networks.TESTNET\<close> and \<open>BASE_FEE\<close> (stroops).\<close>

definition TESTNET :: string where
  "TESTNET = ''Test SDF Network ; September 2015''"

definition BASE_FEE :: nat where
  "BASE_FEE = 100"

text \<open>
  The builder's state. The time bounds are kept as the relative timeout given to
  \<open>setTimeout\<close> (the absolute bound adds the clock, which is not modelled).
  \<open>build()\<close> also increments the sequence number of the \<open>account\<close> object it was
  given; the scripts never reuse that object (every build follows a fresh
  \<open>getAccount\<close>), so the mutation is not observable and the model returns the
  transaction only.
\<close>

record tx_builder =
  tb_source :: account
  tb_fee :: nat
  tb_network :: "string option"
  tb_timeout :: "nat option"
  tb_ops :: "operation list"

definition new_TransactionBuilder :: "account \<Rightarrow> nat \<Rightarrow> string option \<Rightarrow> tx_builder" where
  "new_TransactionBuilder acc fee np =
     \<lparr>tb_source = acc, tb_fee = fee, tb_network = np, tb_timeout = None, tb_ops = []\<rparr>"

definition setNetworkPassphrase :: "tx_builder \<Rightarrow> string \<Rightarrow> tx_builder" where
  "setNetworkPassphrase b np = b\<lparr>tb_network := Some np\<rparr>"

definition addOperation :: "tx_builder \<Rightarrow> operation \<Rightarrow> tx_builder" where
  "addOperation b op = b\<lparr>tb_ops := tb_ops b @ [op]\<rparr>"

definition setTimeout :: "tx_builder \<Rightarrow> nat \<Rightarrow> js_error + tx_builder" where
  "setTimeout b t =
     (case tb_timeout b of
        Some t0 \<Rightarrow> if 0 < t0
          then Inl (Error ''TimeBounds.max_time has been already set - setting timeout would overwrite it.'')
          else Inr (b\<lparr>tb_timeout := Some t\<rparr>)
      | None \<Rightarrow> Inr (b\<lparr>tb_timeout := Some t\<rparr>))"

definition build :: "tx_builder \<Rightarrow> js_error + transaction" where
  "build b =
     (case tb_timeout b of
        None \<Rightarrow> Inl (Error ''TimeBounds has to be set or you must call setTimeout(TimeoutInfinite).'')
      | Some t \<Rightarrow>
          (case tb_network b of
             None \<Rightarrow> Inl (Error ''Invalid passphrase provided to Transaction'')
           | Some np \<Rightarrow> Inr
               \<lparr>tx_source = acc_id (tb_source b), tx_seq = acc_seq (tb_source b) + 1,
                tx_fee = tb_fee b * length (tb_ops b), tx_network = np, tx_timeout = t,
                tx_ops = tb_ops b, tx_signatures = []\<rparr>))"

text \<open>\<open>tx.sign(keypair)\<close> attaches the key pair's signature (identified by its public
  key; the signature bytes are not modelled).\<close>

definition tx_sign :: "keypair \<Rightarrow> transaction \<Rightarrow> transaction" where
  "tx_sign kp tx = tx\<lparr>tx_signatures := tx_signatures tx @ [kp_public kp]\<rparr>"

subsection \<open>Responses of the RPC endpoint\<close>

datatype send_status = SEND_PENDING | SEND_DUPLICATE | SEND_TRY_AGAIN_LATER | SEND_ERROR

record send_response =
  sr_status :: send_status
  sr_hash :: string

text \<open>\<open>getTransaction\<close> answers \<open>NOT_FOUND\<close> while the transaction is pending.\<close>

datatype tx_status = SUCCESS | FAILED | NOT_FOUND

record get_tx_response =
  gt_status :: tx_status
  gt_txHash :: string
  gt_returnValue :: "scval option"

text \<open>A simulation answers with a result (whose return value is present when the
  simulation produced results) or with an error message.\<close>

datatype sim_response = SimSuccess "scval option" | SimError string

record event =
  ev_contract :: address
  ev_topic :: "scval list"
  ev_value :: scval

subsection \<open>The endpoint interface and the world\<close>

record 'n rpc_server =
  srv_getAccount :: "'n \<Rightarrow> address \<Rightarrow> (js_error + account) \<times> 'n"
  srv_prepareTransaction :: "'n \<Rightarrow> transaction \<Rightarrow> (js_error + transaction) \<times> 'n"
  srv_sendTransaction :: "'n \<Rightarrow> transaction \<Rightarrow> (js_error + send_response) \<times> 'n"
  srv_getTransaction :: "'n \<Rightarrow> string \<Rightarrow> (js_error + get_tx_response) \<times> 'n"
  srv_simulateTransaction :: "'n \<Rightarrow> transaction \<Rightarrow> (js_error + sim_response) \<times> 'n"
  srv_getLatestLedger :: "'n \<Rightarrow> (js_error + nat) \<times> 'n"
  srv_getEvents :: "'n \<Rightarrow> int \<Rightarrow> address list \<Rightarrow> nat \<Rightarrow> (js_error + event list) \<times> 'n"

text \<open>The requests a script sends, in the order it sends them.\<close>

datatype rpc_call =
    GetAccount address
  | PrepareTransaction transaction
  | SendTransaction transaction
  | GetTransaction string
  | SimulateTransaction transaction
  | GetLatestLedger
  | GetEvents int "address list" nat

text \<open>A line printed by \<open>console.log\<close> or \<open>console.error\<close>, kept as the parts of its
  template literal: literal text, and the interpolated values (an address, the
  native form \<open>scValToNative(v)\<close> of a contract value, a number), whose text
  rendering (StrKey, \<open>String()\<close>) is not modelled.\<close>

datatype out_part = OText string | OAddress address | ONative scval | ONumber int

type_synonym out_line = "out_part list"

record 'n world =
  net :: 'n
  files :: "string \<rightharpoonup> bytes"
  calls :: "rpc_call list"
  stdout :: "out_line list"
  stderr :: "out_line list"

text \<open>One request: the server answers from the network state, the request is logged,
  and a rejected request becomes a thrown error.\<close>

definition rpc :: "rpc_call \<Rightarrow> ('n \<Rightarrow> (js_error + 'a) \<times> 'n) \<Rightarrow> ('n world, 'a) prog" where
  "rpc c f = (\<lambda>w. case f (net w) of (r, n') \<Rightarrow>
                 (map_sum Thrown id r, w\<lparr>net := n', calls := calls w @ [c]\<rparr>))"

definition rpc_getAccount :: "'n rpc_server \<Rightarrow> address \<Rightarrow> ('n world, account) prog" where
  "rpc_getAccount srv a = rpc (GetAccount a) (\<lambda>n. srv_getAccount srv n a)"

definition rpc_prepareTransaction :: "'n rpc_server \<Rightarrow> transaction \<Rightarrow> ('n world, transaction) prog" where
  "rpc_prepareTransaction srv tx = rpc (PrepareTransaction tx) (\<lambda>n. srv_prepareTransaction srv n tx)"

definition rpc_sendTransaction :: "'n rpc_server \<Rightarrow> transaction \<Rightarrow> ('n world, send_response) prog" where
  "rpc_sendTransaction srv tx = rpc (SendTransaction tx) (\<lambda>n. srv_sendTransaction srv n tx)"

definition rpc_getTransaction :: "'n rpc_server \<Rightarrow> string \<Rightarrow> ('n world, get_tx_response) prog" where
  "rpc_getTransaction srv h = rpc (GetTransaction h) (\<lambda>n. srv_getTransaction srv n h)"

definition rpc_simulateTransaction :: "'n rpc_server \<Rightarrow> transaction \<Rightarrow> ('n world, sim_response) prog" where
  "rpc_simulateTransaction srv tx = rpc (SimulateTransaction tx) (\<lambda>n. srv_simulateTransaction srv n tx)"

definition rpc_getLatestLedger :: "'n rpc_server \<Rightarrow> ('n world, nat) prog" where
  "rpc_getLatestLedger srv = rpc GetLatestLedger (\<lambda>n. srv_getLatestLedger srv n)"

definition rpc_getEvents :: "'n rpc_server \<Rightarrow> int \<Rightarrow> address list \<Rightarrow> nat \<Rightarrow> ('n world, event list) prog" where
  "rpc_getEvents srv start ids lim = rpc (GetEvents start ids lim) (\<lambda>n. srv_getEvents srv n start ids lim)"

text \<open>\<open>console.log\<close> and \<open>console.error\<close>.\<close>

definition console_log :: "out_line \<Rightarrow> ('n world, unit) prog" where
  "console_log m = (\<lambda>w. (Inr (), w\<lparr>stdout := stdout w @ [m]\<rparr>))"

definition console_error :: "out_line \<Rightarrow> ('n world, unit) prog" where
  "console_error m = (\<lambda>w. (Inr (), w\<lparr>stderr := stderr w @ [m]\<rparr>))"

subsection \<open>Polling: \<open>rpc.Server.pollTransaction\<close>\<close>

text \<open>
  \<^verbatim>\<open>
  const maxAttempts = (opts?.attempts ?? 0) < 1 ? DEFAULT_GET_TRANSACTION_TIMEOUT : opts.attempts;
  let foundInfo;
  for (let attempt = 1; attempt < maxAttempts; attempt++) {
    foundInfo = await this.getTransaction(hash);
    if (foundInfo.status !== NOT_FOUND) return foundInfo;
    await sleep(...);
  }
  return foundInfo;
  \<close>
  The loop runs \<open>maxAttempts - 1\<close> times at most; \<open>poll_loop\<close> recurses on the
  attempts left, so it is total. \<open>None\<close> is \<open>undefined\<close>, returned only when the
  loop never ran. The sleep between attempts does not touch the modelled state.
\<close>

definition DEFAULT_GET_TRANSACTION_TIMEOUT :: nat where
  "DEFAULT_GET_TRANSACTION_TIMEOUT = 30"

fun poll_loop :: "'n rpc_server \<Rightarrow> string \<Rightarrow> nat \<Rightarrow> get_tx_response option \<Rightarrow>
    ('n world, get_tx_response option) prog" where
  "poll_loop srv h 0 found = ret found"
| "poll_loop srv h (Suc k) found =
     bind_p (rpc_getTransaction srv h) (\<lambda>info.
       if gt_status info \<noteq> NOT_FOUND then ret (Some info) else poll_loop srv h k (Some info))"

definition pollTransaction :: "'n rpc_server \<Rightarrow> string \<Rightarrow> nat option \<Rightarrow>
    ('n world, get_tx_response option) prog" where
  "pollTransaction srv h attempts =
     (let maxAttempts = (case attempts of None \<Rightarrow> DEFAULT_GET_TRANSACTION_TIMEOUT
                         | Some a \<Rightarrow> if a < 1 then DEFAULT_GET_TRANSACTION_TIMEOUT else a)
      in poll_loop srv h (maxAttempts - 1) None)"

subsection \<open>Projections of the request log\<close>

text \<open>The operations of the transactions sent to preparation, and to simulation, in
  the order of the requests: what a script asked the network to do.\<close>

fun prepared_ops :: "rpc_call list \<Rightarrow> operation list" where
  "prepared_ops [] = []"
| "prepared_ops (PrepareTransaction tx # cs) = tx_ops tx @ prepared_ops cs"
| "prepared_ops (_ # cs) = prepared_ops cs"

fun simulated_ops :: "rpc_call list \<Rightarrow> operation list" where
  "simulated_ops [] = []"
| "simulated_ops (SimulateTransaction tx # cs) = tx_ops tx @ simulated_ops cs"
| "simulated_ops (_ # cs) = simulated_ops cs"

text \<open>The transactions the scripts build (the spec's section 4.1): the base fee for
  one operation, the test network, the 30-second timeout, no signature yet. A request
  is well formed when the transaction it carries for preparation or simulation is.\<close>

definition tx_wf :: "transaction \<Rightarrow> bool" where
  "tx_wf tx = (tx_fee tx = BASE_FEE \<and> tx_network tx = TESTNET \<and> tx_timeout tx = 30 \<and>
               length (tx_ops tx) = 1 \<and> tx_signatures tx = [])"

fun request_wf :: "rpc_call \<Rightarrow> bool" where
  "request_wf (PrepareTransaction tx) = tx_wf tx"
| "request_wf (SimulateTransaction tx) = tx_wf tx"
| "request_wf _ = True"

subsection \<open>Evaluation lemmas\<close>

lemma rpc_apply [prog_simps]:
  "rpc c f w = (case f (net w) of (r, n') \<Rightarrow>
                 (map_sum Thrown id r, w\<lparr>net := n', calls := calls w @ [c]\<rparr>))"
  by (simp add: rpc_def)

lemmas rpc_ops_defs [prog_simps] =
  rpc_getAccount_def rpc_prepareTransaction_def rpc_sendTransaction_def
  rpc_getTransaction_def rpc_simulateTransaction_def rpc_getLatestLedger_def rpc_getEvents_def

lemma console_log_apply [prog_simps]:
  "console_log m w = (Inr (), w\<lparr>stdout := stdout w @ [m]\<rparr>)"
  by (simp add: console_log_def)

lemma console_error_apply [prog_simps]:
  "console_error m w = (Inr (), w\<lparr>stderr := stderr w @ [m]\<rparr>)"
  by (simp add: console_error_def)

text \<open>The loop at a numeral number of attempts, for evaluation.\<close>

lemma poll_loop_numeral [prog_simps]:
  "poll_loop srv h (numeral k) found =
     bind_p (rpc_getTransaction srv h) (\<lambda>info.
       if gt_status info \<noteq> NOT_FOUND then ret (Some info) else poll_loop srv h (pred_numeral k) (Some info))"
  by (simp add: numeral_eq_Suc)

lemmas builder_defs [prog_simps] =
  new_TransactionBuilder_def setNetworkPassphrase_def addOperation_def setTimeout_def build_def
  tx_sign_def contract_call_def uploadContractWasm_def


lemma prepared_ops_append [simp]: "prepared_ops (xs @ ys) = prepared_ops xs @ prepared_ops ys"
  by (induction xs rule: prepared_ops.induct) simp_all

lemma simulated_ops_append [simp]: "simulated_ops (xs @ ys) = simulated_ops xs @ simulated_ops ys"
  by (induction xs rule: simulated_ops.induct) simp_all

lemma ops_replicate_GetTransaction [simp]:
  "prepared_ops (replicate j (GetTransaction h)) = []"
  "simulated_ops (replicate j (GetTransaction h)) = []"
  by (induction j) simp_all

subsection \<open>Requests and console lines in the trace logics\<close>

text \<open>A request never prints; console output never sends a request.\<close>

lemma writes_rpc [writes_intros]: "writes stdout P (\<lambda>_. True) (rpc c f)"
  by (auto simp: writes_def rpc_def split: prod.splits)

lemma writes_console_log [writes_intros]: "P l \<Longrightarrow> writes stdout P (\<lambda>_. True) (console_log l)"
  by (simp add: writes_def console_log_def)

lemma writes_console_error [writes_intros]: "writes stdout P (\<lambda>_. True) (console_error l)"
  by (simp add: writes_def console_error_def)

lemma emits_rpc [emits_intros]: "emits calls (\<lambda>_ new. new = [c]) (rpc c f)"
  by (auto simp: emits_def rpc_def split: prod.splits)

text \<open>A request whose every answer satisfies \<open>P\<close> returns a value satisfying \<open>P\<close>.\<close>

lemma emits_rpc_answer:
  assumes "\<And>n x n'. f n = (Inr x, n') \<Longrightarrow> P x"
  shows "emits calls (\<lambda>x new. P x \<and> new = [c]) (rpc c f)"
  unfolding emits_def
proof (intro allI impI)
  fix s x s'
  assume run: "rpc c f s = (Inr x, s')"
  obtain r n' where f: "f (net s) = (r, n')" by fastforce
  with run have "r = Inr x" and "s' = s\<lparr>net := n', calls := calls s @ [c]\<rparr>"
    by (cases r; simp add: rpc_def)+
  with f assms show "\<exists>new. calls s' = calls s @ new \<and> P x \<and> new = [c]" by simp
qed

lemma emits_console_log [emits_intros]: "emits calls (\<lambda>_ new. new = []) (console_log l)"
  by (simp add: emits_def console_log_def)

lemma emits_console_error [emits_intros]: "emits calls (\<lambda>_ new. new = []) (console_error l)"
  by (simp add: emits_def console_error_def)

lemma bound_rpc [bound_intros]: "appends_at_most calls 1 (rpc c f)"
  by (auto simp: appends_at_most_def rpc_def split: prod.splits)

lemma bound_console [bound_intros]:
  "appends_at_most calls 0 (console_log l)" "appends_at_most calls 0 (console_error l)"
  by (simp_all add: appends_at_most_def console_log_def console_error_def)

lemma writes_rpc_calls: "P c \<Longrightarrow> writes calls P (\<lambda>_. True) (rpc c f)"
  by (auto simp: writes_def rpc_def split: prod.splits)

lemma writes_console_calls:
  "writes calls P (\<lambda>_. True) (console_log l)" "writes calls P (\<lambda>_. True) (console_error l)"
  by (simp_all add: writes_def console_log_def console_error_def)

end
