(* ===== verification/Helpers.thy ===== *)
theory Helpers
  imports Fake_Net
begin

text \<open>
  \<open>src/src/utils/helpers.ts\<close>: the submission pipeline of contract calls.
  \<open>submitTransaction\<close> builds the operation \<open>contract.call(functionName, ...args)\<close>
  and hands it to \<open>submitStellarTransaction\<close>, which fetches the signer's account,
  builds, prepares, signs and sends the transaction, then waits for it with
  \<open>getPollingTransaction\<close>. The lemmas show what the poller returns on every
  branch (every failure becomes the one generic error), that it sends a bounded
  number of status queries, what transaction the builder chain produces, and the
  order of the requests the pipeline sends, including that a failed step stops it.
\<close>

subsection \<open>\<open>getPollingTransaction\<close>\<close>

definition getPollingTransaction :: "'n rpc_server \<Rightarrow> string \<Rightarrow> ('n world, get_tx_response) prog" where
  "getPollingTransaction server hash =
     catch_p
       (bind_p (pollTransaction server hash None) (\<lambda>tx.
          case tx of
            None \<Rightarrow> throw (Thrown (TypeError ''Cannot read properties of undefined (reading status)''))
          | Some tx \<Rightarrow>
              if gt_status tx = SUCCESS then
                (if gt_returnValue tx \<noteq> None then ret tx
                 else throw (Thrown (Error ''Transaction has no return value'')))
              else if gt_status tx = FAILED then throw (Thrown (Error ''Transaction failed''))
              else throw (Thrown (Error ''Unknown status''))))
       (\<lambda>error. throw (Thrown (Error ''Error fetching transaction'')))"

subsection \<open>\<open>submitStellarTransaction\<close> and \<open>submitTransaction\<close>\<close>

text \<open>What the spec's Transaction Builder promises (section 4.1): the next sequence
  number of the freshly read account, the fee, the network, the 30-second timeout,
  exactly one operation and no signature yet.\<close>

definition built_tx :: "account \<Rightarrow> nat \<Rightarrow> string \<Rightarrow> operation \<Rightarrow> transaction" where
  "built_tx acct fee np op =
     \<lparr>tx_source = acc_id acct, tx_seq = acc_seq acct + 1, tx_fee = fee, tx_network = np,
      tx_timeout = 30, tx_ops = [op], tx_signatures = []\<rparr>"

record 'n SubmitStellarTransactionParams =
  sst_provider :: "'n rpc_server"
  sst_signer :: keypair
  sst_networkPassphrase :: "string option"
  sst_fee :: "nat option"
  sst_operation :: operation

record 'n SubmitTransactionParams =
  st_provider :: "'n rpc_server"
  st_signer :: keypair
  st_contract :: address
  st_functionName :: string
  st_args :: "scval list"

text \<open>The builder chain of \<open>submitStellarTransaction\<close>:
  \<open>new TransactionBuilder(signerAccount, {fee}).setNetworkPassphrase(np)
   .setTimeout(30).addOperation(operation).build()\<close>.\<close>

definition helpers_build :: "account \<Rightarrow> nat \<Rightarrow> string \<Rightarrow> operation \<Rightarrow> js_error + transaction" where
  "helpers_build signerAccount fee networkPassphrase operation =
     (case setTimeout (setNetworkPassphrase (new_TransactionBuilder signerAccount fee None) networkPassphrase) 30 of
        Inl e \<Rightarrow> Inl e
      | Inr b \<Rightarrow> build (addOperation b operation))"

definition submitStellarTransaction :: "'n SubmitStellarTransactionParams \<Rightarrow> ('n world, get_tx_response) prog" where
  "submitStellarTransaction p =
     (let provider = sst_provider p;
          signer = sst_signer p;
          networkPassphrase = js_default TESTNET (sst_networkPassphrase p);
          fee = js_default BASE_FEE (sst_fee p);
          keypair = signer
      in bind_p (rpc_getAccount provider (kp_public signer)) (\<lambda>signerAccount.
         bind_p (lift_sync (helpers_build signerAccount fee networkPassphrase (sst_operation p))) (\<lambda>transaction.
         bind_p (rpc_prepareTransaction provider transaction) (\<lambda>preparedTransaction.
         let signed = tx_sign keypair preparedTransaction in
         bind_p (rpc_sendTransaction provider signed) (\<lambda>response.
         bind_p (getPollingTransaction provider (sr_hash response)) (\<lambda>successTx.
         ret successTx))))))"

definition submitTransaction :: "'n SubmitTransactionParams \<Rightarrow> ('n world, get_tx_response) prog" where
  "submitTransaction p =
     (let operation = contract_call (st_contract p) (st_functionName p) (st_args p)
      in bind_p (submitStellarTransaction
                   \<lparr>sst_provider = st_provider p, sst_signer = st_signer p,
                    sst_networkPassphrase = Some TESTNET, sst_fee = Some BASE_FEE,
                    sst_operation = operation\<rparr>) (\<lambda>successTx.
         ret successTx))"


text \<open>The transaction \<open>submitStellarTransaction\<close> builds from the account it read.\<close>

abbreviation sst_tx :: "'n SubmitStellarTransactionParams \<Rightarrow> account \<Rightarrow> transaction" where
  "sst_tx p acct \<equiv> built_tx acct (js_default BASE_FEE (sst_fee p)) (js_default TESTNET (sst_networkPassphrase p)) (sst_operation p)"

text \<open>The submission of the spec's section 8 scenario: a call of \<open>increment\<close>
  with the default network and fee.\<close>

definition scenario_params :: "fake_net SubmitStellarTransactionParams" where
  "scenario_params = \<lparr>sst_provider = fake_server, sst_signer = signer_kp, sst_networkPassphrase = None,
     sst_fee = None, sst_operation = contract_call counter_id ''increment'' []\<rparr>"

subsection \<open>The polling loop\<close>

text \<open>The loop sends only status queries for its hash, at most one per attempt.\<close>

lemma poll_loop_calls:
  "\<exists>j \<le> k. (k = 0 \<or> 0 < j) \<and> calls (state_of (poll_loop srv h k f) w) = calls w @ replicate j (GetTransaction h)"
proof (induction k arbitrary: f w)
  case 0
  then show ?case by (simp add: prog_simps)
next
  case (Suc k)
  obtain r n' where ans: "srv_getTransaction srv (net w) h = (r, n')" by fastforce
  show ?case
  proof (cases r)
    case (Inl e)
    then show ?thesis using ans by (rule_tac x=1 in exI) (simp add: prog_simps)
  next
    case (Inr info)
    let ?w' = "w\<lparr>net := n', calls := calls w @ [GetTransaction h]\<rparr>"
    show ?thesis
    proof (cases "gt_status info = NOT_FOUND")
      case True
      from Suc.IH obtain j where "j \<le> k"
        and "calls (state_of (poll_loop srv h k (Some info)) ?w') = calls ?w' @ replicate j (GetTransaction h)"
        by blast
      with True Inr ans show ?thesis
        by (rule_tac x="Suc j" in exI) (simp add: prog_simps replicate_append_same)
    next
      case False
      with Inr ans show ?thesis by (rule_tac x=1 in exI) (simp add: prog_simps)
    qed
  qed
qed

text \<open>Only the network state and the request log change while polling.\<close>

lemma poll_loop_frame:
  "files (state_of (poll_loop srv h k f) w) = files w \<and>
   stdout (state_of (poll_loop srv h k f) w) = stdout w \<and>
   stderr (state_of (poll_loop srv h k f) w) = stderr w"
  by (induction k arbitrary: f w)
     (auto simp: prog_simps split: prod.splits sum.splits)

text \<open>The loop never exits the process, and what it returns is a found answer:
  a status other than \<open>NOT_FOUND\<close>, or the last answer once the attempts are spent.\<close>

lemma poll_loop_no_exit: "result_of (poll_loop srv h k f) w \<noteq> Inl (Exit n)"
  by (induction k arbitrary: f w) (auto simp: prog_simps split: prod.splits sum.splits)

lemma pollTransaction_no_exit: "result_of (pollTransaction srv h a) w \<noteq> Inl (Exit n)"
  by (simp add: pollTransaction_def poll_loop_no_exit)


subsection \<open>The builder chain and the stages of the pipeline\<close>

lemma helpers_build_eq: "helpers_build acct fee np op = Inr (built_tx acct fee np op)"
  by (simp add: helpers_build_def built_tx_def builder_defs)

lemma submitStellarTransaction_stages:
  "submitStellarTransaction p w =
    (case srv_getAccount (sst_provider p) (net w) (kp_public (sst_signer p)) of
       (Inl e, n1) \<Rightarrow> (Inl (Thrown e), w\<lparr>net := n1, calls := calls w @ [GetAccount (kp_public (sst_signer p))]\<rparr>)
     | (Inr acct, n1) \<Rightarrow>
        (case srv_prepareTransaction (sst_provider p) n1 (sst_tx p acct) of
           (Inl e, n2) \<Rightarrow> (Inl (Thrown e),
              w\<lparr>net := n2, calls := calls w @ [GetAccount (kp_public (sst_signer p)), PrepareTransaction (sst_tx p acct)]\<rparr>)
         | (Inr ptx, n2) \<Rightarrow>
            (case srv_sendTransaction (sst_provider p) n2 (tx_sign (sst_signer p) ptx) of
               (Inl e, n3) \<Rightarrow> (Inl (Thrown e),
                  w\<lparr>net := n3, calls := calls w @ [GetAccount (kp_public (sst_signer p)), PrepareTransaction (sst_tx p acct),
                                                 SendTransaction (tx_sign (sst_signer p) ptx)]\<rparr>)
             | (Inr resp, n3) \<Rightarrow>
                 getPollingTransaction (sst_provider p) (sr_hash resp)
                   (w\<lparr>net := n3, calls := calls w @ [GetAccount (kp_public (sst_signer p)), PrepareTransaction (sst_tx p acct),
                                                   SendTransaction (tx_sign (sst_signer p) ptx)]\<rparr>))))"
  unfolding submitStellarTransaction_def
  by (simp add: prog_simps helpers_build_eq Let_def split: prod.splits sum.splits)

lemma poll_loop_pending:
  assumes pend: "\<forall>n. P n \<longrightarrow> (\<exists>r n'. srv_getTransaction srv n h = (Inr r, n') \<and> gt_status r = NOT_FOUND \<and> P n')"
    and start: "P (net w)"
  shows "\<exists>info w'. poll_loop srv h (Suc k) f w = (Inr (Some info), w') \<and> gt_status info = NOT_FOUND \<and>
           calls w' = calls w @ replicate (Suc k) (GetTransaction h)"
  using start
proof (induction k arbitrary: f w)
  case 0
  from pend 0 obtain r n' where "srv_getTransaction srv (net w) h = (Inr r, n')" "gt_status r = NOT_FOUND"
    by blast
  then show ?case by (simp add: prog_simps)
next
  case (Suc k)
  from pend Suc.prems obtain r n' where ans: "srv_getTransaction srv (net w) h = (Inr r, n')" "gt_status r = NOT_FOUND" "P n'"
    by blast
  let ?w' = "w\<lparr>net := n', calls := calls w @ [GetTransaction h]\<rparr>"
  from Suc.IH [of ?w' "Some r"] ans(3) obtain info w' where
    "poll_loop srv h (Suc k) (Some r) ?w' = (Inr (Some info), w')" "gt_status info = NOT_FOUND"
    "calls w' = calls ?w' @ replicate (Suc k) (GetTransaction h)" by auto
  with ans show ?case
    by (simp add: prog_simps del: poll_loop.simps(2) add: poll_loop.simps(2)[of srv h "Suc k"] replicate_append_same)
qed

lemma getPollingTransaction_unfold:
  "getPollingTransaction srv h w =
     (case pollTransaction srv h None w of
        (Inr (Some tx), w') \<Rightarrow>
          (if gt_status tx = SUCCESS \<and> gt_returnValue tx \<noteq> None then Inr tx
           else Inl (Thrown (Error ''Error fetching transaction'')), w')
      | (_, w') \<Rightarrow> (Inl (Thrown (Error ''Error fetching transaction'')), w'))"
proof -
  obtain r w' where p: "pollTransaction srv h None w = (r, w')" by fastforce
  have "r \<noteq> Inl (Exit n)" for n using pollTransaction_no_exit [of srv h None w n] p by simp
  then show ?thesis using p
    by (auto simp: getPollingTransaction_def prog_simps split: sum.splits option.splits abrupt.splits)
qed

lemma getPollingTransaction_calls:
  "\<exists>j. 1 \<le> j \<and> j \<le> 29 \<and>
     calls (state_of (getPollingTransaction srv h) w) = calls w @ replicate j (GetTransaction h)"
proof -
  obtain j where "j \<le> 29" "0 < j"
    "calls (state_of (poll_loop srv h 29 None) w) = calls w @ replicate j (GetTransaction h)"
    using poll_loop_calls [of 29 srv h None w] by auto
  then show ?thesis
    by (auto simp: getPollingTransaction_unfold pollTransaction_def DEFAULT_GET_TRANSACTION_TIMEOUT_def
             split: prod.splits sum.splits option.splits)
qed

lemma getPollingTransaction_Inr:
  assumes "getPollingTransaction srv h w = (Inr r, w')"
  shows "gt_status r = SUCCESS \<and> gt_returnValue r \<noteq> None \<and>
         (\<exists>j. 1 \<le> j \<and> j \<le> 29 \<and> calls w' = calls w @ replicate j (GetTransaction h))"
  using assms getPollingTransaction_calls [of srv h w]
  by (auto simp: getPollingTransaction_unfold split: prod.splits sum.splits option.splits if_splits)

text \<open>Whatever happens after the preparation, the request log starts with the account
  read and the preparation.\<close>

lemma submitStellarTransaction_calls_prefix:
  assumes "srv_getAccount (sst_provider p) (net w) (kp_public (sst_signer p)) = (Inr acct, n1)"
  shows "\<exists>rest. calls (state_of (submitStellarTransaction p) w) =
           calls w @ GetAccount (kp_public (sst_signer p)) # PrepareTransaction (sst_tx p acct) # rest"
proof -
  obtain r2 n2 where prep: "srv_prepareTransaction (sst_provider p) n1 (sst_tx p acct) = (r2, n2)"
    by fastforce
  show ?thesis
  proof (cases r2)
    case (Inl e)
    then show ?thesis using assms prep by (simp add: submitStellarTransaction_stages)
  next
    case (Inr ptx)
    obtain r3 n3 where send: "srv_sendTransaction (sst_provider p) n2 (tx_sign (sst_signer p) ptx) = (r3, n3)"
      by fastforce
    show ?thesis
    proof (cases r3)
      case (Inl e)
      then show ?thesis using assms prep send Inr by (simp add: submitStellarTransaction_stages)
    next
      case (Inr resp)
      let ?w3 = "w\<lparr>net := n3, calls := calls w @ [GetAccount (kp_public (sst_signer p)),
                   PrepareTransaction (sst_tx p acct), SendTransaction (tx_sign (sst_signer p) ptx)]\<rparr>"
      obtain j where "calls (state_of (getPollingTransaction (sst_provider p) (sr_hash resp)) ?w3) =
                        calls ?w3 @ replicate j (GetTransaction (sr_hash resp))"
        using getPollingTransaction_calls by blast
      then show ?thesis using assms prep send \<open>r2 = Inr ptx\<close> Inr
        by (simp add: submitStellarTransaction_stages)
    qed
  qed
qed

subsection \<open>The pipeline in the trace logics\<close>

text \<open>The pipeline prints nothing; what it returns carries a return value; a
  successful submission has asked for the preparation of exactly its one
  operation and has simulated nothing.\<close>

lemma writes_poll_loop [writes_intros]: "writes stdout P (\<lambda>_. True) (poll_loop srv h k f)"
proof (induction k arbitrary: f)
  case 0 then show ?case by (simp add: writes_ret)
next
  case (Suc k) then show ?case
    unfolding poll_loop.simps rpc_ops_defs
    by (intro writes_bind [OF writes_rpc]) (simp add: writes_ret)
qed

lemma writes_pollTransaction [writes_intros]: "writes stdout P (\<lambda>_. True) (pollTransaction srv h a)"
  unfolding pollTransaction_def Let_def by (rule writes_poll_loop)

lemma writes_getPollingTransaction [writes_intros]:
  "writes stdout P (\<lambda>r. gt_status r = SUCCESS \<and> gt_returnValue r \<noteq> None) (getPollingTransaction srv h)"
  unfolding getPollingTransaction_def
  by (intro writes_catch writes_bind [OF writes_pollTransaction] writes_throw)
     (auto split: option.splits intro: writes_ret writes_throw)

lemma writes_submitStellarTransaction [writes_intros]:
  "writes stdout P (\<lambda>r. gt_returnValue r \<noteq> None) (submitStellarTransaction p)"
  unfolding submitStellarTransaction_def Let_def rpc_ops_defs
  by (intro writes_bind [OF writes_rpc] writes_bind [OF writes_lift_sync]
        writes_bind [OF writes_getPollingTransaction] writes_ret) auto

lemma writes_submitTransaction [writes_intros]:
  "writes stdout P (\<lambda>r. gt_returnValue r \<noteq> None) (submitTransaction p)"
  unfolding submitTransaction_def Let_def
  by (intro writes_bind [OF writes_submitStellarTransaction] writes_ret)

lemma emits_submitStellarTransaction:
  "emits calls (\<lambda>r new. prepared_ops new = [sst_operation p] \<and> simulated_ops new = []) (submitStellarTransaction p)"
  unfolding emits_def submitStellarTransaction_stages
  by (auto simp: built_tx_def split: prod.splits sum.splits dest!: getPollingTransaction_Inr)

lemma emits_submitTransaction [emits_intros]:
  "emits calls (\<lambda>r new. prepared_ops new = [InvokeContract (st_contract p) (st_functionName p) (st_args p)] \<and>
                         simulated_ops new = []) (submitTransaction p)"
  unfolding submitTransaction_def Let_def
  by (rule emits_bind [OF emits_submitStellarTransaction emits_ret]) (auto simp: contract_call_def)

text \<open>The number of requests: at most one per attempt of the loop, so at most 29 for
  the poller and 32 for a submission.\<close>

lemma bound_poll_loop [bound_intros]: "appends_at_most calls k (poll_loop srv h k f)"
proof (induction k arbitrary: f)
  case 0 then show ?case by (simp add: bound_ret)
next
  case (Suc k) show ?case
    unfolding poll_loop.simps rpc_ops_defs
    by (rule bound_mono, (rule bound_intros Suc.IH)+) simp
qed

lemma bound_getPollingTransaction [bound_intros]: "appends_at_most calls 29 (getPollingTransaction srv h)"
  unfolding getPollingTransaction_def pollTransaction_def DEFAULT_GET_TRANSACTION_TIMEOUT_def Let_def
  by (rule bound_mono, (rule bound_intros)+) simp

lemma bound_submitStellarTransaction [bound_intros]: "appends_at_most calls 32 (submitStellarTransaction p)"
  unfolding submitStellarTransaction_def Let_def rpc_ops_defs
  by (rule bound_mono, (rule bound_intros)+) simp

lemma bound_submitTransaction [bound_intros]: "appends_at_most calls 32 (submitTransaction p)"
  unfolding submitTransaction_def Let_def
  by (rule bound_mono, (rule bound_intros)+) simp

text \<open>Every transaction the pipeline sends for preparation is well formed when it
  is called with the default fee and network.\<close>

lemma wf_poll_loop: "writes calls request_wf (\<lambda>_. True) (poll_loop srv h k f)"
proof (induction k arbitrary: f)
  case 0 then show ?case by (simp add: writes_ret)
next
  case (Suc k) show ?case
    unfolding poll_loop.simps rpc_ops_defs
    by (intro writes_bind [OF writes_rpc_calls] writes_if writes_ret Suc.IH) simp_all
qed

lemma wf_getPollingTransaction: "writes calls request_wf (\<lambda>_. True) (getPollingTransaction srv h)"
  unfolding getPollingTransaction_def pollTransaction_def Let_def
  by (intro writes_catch writes_bind [OF wf_poll_loop] writes_throw writes_case_option writes_if writes_ret)

lemma wf_submitStellarTransaction:
  assumes "js_default BASE_FEE (sst_fee p) = BASE_FEE" and "js_default TESTNET (sst_networkPassphrase p) = TESTNET"
  shows "writes calls request_wf (\<lambda>_. True) (submitStellarTransaction p)"
  unfolding submitStellarTransaction_def Let_def rpc_ops_defs assms helpers_build_eq
  by (intro writes_bind [OF writes_rpc_calls] writes_bind [OF writes_lift_sync [where Q = tx_wf]]
        writes_bind [OF wf_getPollingTransaction] writes_ret)
     (auto simp: tx_wf_def built_tx_def)

lemma wf_submitTransaction: "writes calls request_wf (\<lambda>_. True) (submitTransaction p)"
  unfolding submitTransaction_def Let_def
  by (intro writes_bind [OF wf_submitStellarTransaction] writes_ret) simp_all

subsection \<open>Properties of the poller and of the pipeline\<close>

text \<open>C1. \<open>getPollingTransaction\<close> returns a transaction exactly when the SDK poll
  ends on a response with status \<open>SUCCESS\<close> that carries a return value; it then
  returns that response, in the state the poll left.\<close>

theorem getPollingTransaction_success:
  "getPollingTransaction srv h w = (Inr tx, w') \<longleftrightarrow>
     pollTransaction srv h None w = (Inr (Some tx), w') \<and> gt_status tx = SUCCESS \<and> gt_returnValue tx \<noteq> None"
  by (auto simp: getPollingTransaction_unfold split: prod.splits sum.splits option.splits if_splits)

theorem getPollingTransaction_success_witness:
  "getPollingTransaction fake_server ''abc'' (fake_world scenario_net) = (Inr \<lparr>gt_status = SUCCESS, gt_txHash = ''abc'', gt_returnValue = Some (ScvU32 42)\<rparr>,
     fake_world (scenario_net\<lparr>fk_polls := []\<rparr>)\<lparr>calls := replicate 3 (GetTransaction ''abc'')\<rparr>)"
proof -
  have run: "pollTransaction fake_server ''abc'' None (fake_world scenario_net) = (Inr (Some \<lparr>gt_status = SUCCESS, gt_txHash = ''abc'', gt_returnValue = Some (ScvU32 42)\<rparr>),
     fake_world (scenario_net\<lparr>fk_polls := []\<rparr>)\<lparr>calls := replicate 3 (GetTransaction ''abc'')\<rparr>)"
    by (simp add: pollTransaction_def DEFAULT_GET_TRANSACTION_TIMEOUT_def prog_simps fake_world_def numeral_3_eq_3)
  show ?thesis by (rule getPollingTransaction_success [THEN iffD2]) (simp add: run)
qed

text \<open>C2. Every other outcome of the poll (a \<open>FAILED\<close> status, a \<open>SUCCESS\<close>
  without a return value, a status still \<open>NOT_FOUND\<close> when the attempts are spent, or
  a failed request) ends in the same generic error \<open>"Error fetching transaction"\<close>:
  the \<open>catch\<close> block discards the distinct errors thrown inside the \<open>try\<close>.\<close>

theorem getPollingTransaction_collapses:
  assumes "pollTransaction srv h None w = (r, w')"
    and "\<forall>tx. r = Inr (Some tx) \<longrightarrow> gt_status tx \<noteq> SUCCESS \<or> gt_returnValue tx = None"
  shows "getPollingTransaction srv h w = (Inl (Thrown (Error ''Error fetching transaction'')), w')"
  using assms by (auto simp: getPollingTransaction_unfold split: sum.splits option.splits)

theorem getPollingTransaction_collapses_witness:
  "pollTransaction fake_server ''abc'' None (fake_world (scenario_net\<lparr>fk_polls := [(FAILED, None)]\<rparr>)) =
     (Inr (Some \<lparr>gt_status = FAILED, gt_txHash = ''abc'', gt_returnValue = None\<rparr>),
      fake_world (scenario_net\<lparr>fk_polls := []\<rparr>)\<lparr>calls := [GetTransaction ''abc'']\<rparr>) \<and>
   getPollingTransaction fake_server ''abc'' (fake_world (scenario_net\<lparr>fk_polls := [(FAILED, None)]\<rparr>)) =
     (Inl (Thrown (Error ''Error fetching transaction'')), fake_world (scenario_net\<lparr>fk_polls := []\<rparr>)\<lparr>calls := [GetTransaction ''abc'']\<rparr>)"
proof -
  have run: "pollTransaction fake_server ''abc'' None (fake_world (scenario_net\<lparr>fk_polls := [(FAILED, None)]\<rparr>)) =
     (Inr (Some \<lparr>gt_status = FAILED, gt_txHash = ''abc'', gt_returnValue = None\<rparr>),
      fake_world (scenario_net\<lparr>fk_polls := []\<rparr>)\<lparr>calls := [GetTransaction ''abc'']\<rparr>)"
    by (simp add: pollTransaction_def DEFAULT_GET_TRANSACTION_TIMEOUT_def prog_simps fake_world_def)
  show ?thesis using getPollingTransaction_collapses [OF run] run by simp
qed

text \<open>C3. If the endpoint keeps answering \<open>NOT_FOUND\<close>, \<open>getPollingTransaction\<close>
  still returns: it sends exactly 29 status queries (the SDK's default of 30
  attempts, less one) and fails with the generic error.\<close>

theorem getPollingTransaction_gives_up:
  assumes "\<forall>n. P n \<longrightarrow> (\<exists>r n'. srv_getTransaction srv n h = (Inr r, n') \<and> gt_status r = NOT_FOUND \<and> P n')"
    and "P (net w)"
  shows "result_of (getPollingTransaction srv h) w = Inl (Thrown (Error ''Error fetching transaction'')) \<and>
         calls (state_of (getPollingTransaction srv h) w) = calls w @ replicate 29 (GetTransaction h)"
proof -
  obtain info w' where "poll_loop srv h (Suc 28) None w = (Inr (Some info), w')"
    "gt_status info = NOT_FOUND" "calls w' = calls w @ replicate (Suc 28) (GetTransaction h)"
    using poll_loop_pending [OF assms, of 28 None] by blast
  then show ?thesis
    by (simp add: getPollingTransaction_unfold pollTransaction_def DEFAULT_GET_TRANSACTION_TIMEOUT_def)
qed

theorem getPollingTransaction_gives_up_witness:
  "result_of (getPollingTransaction fake_server ''abc'') (fake_world (scenario_net\<lparr>fk_polls := []\<rparr>))
     = Inl (Thrown (Error ''Error fetching transaction'')) \<and>
   length (calls (state_of (getPollingTransaction fake_server ''abc'') (fake_world (scenario_net\<lparr>fk_polls := []\<rparr>)))) = 29"
  using getPollingTransaction_gives_up [of "\<lambda>n. fk_polls n = []" fake_server "''abc''" "fake_world (scenario_net\<lparr>fk_polls := []\<rparr>)"]
  by (simp add: fake_defs)

text \<open>C4. A successful \<open>submitStellarTransaction\<close> sends its requests strictly in the
  order of the code, each built from the answer to the one before: one account read
  for the signer; the preparation of the transaction built from the account that
  read returned (next sequence number, the fee, the network, a 30-second timeout,
  the one operation); the submission of the transaction the preparation returned,
  signed by the signer; then between 1 and 29 status queries for the hash the
  submission returned. The response it returns has status \<open>SUCCESS\<close> and a return
  value.\<close>

theorem submitStellarTransaction_request_order:
  assumes "submitStellarTransaction p w = (Inr r, w')"
  shows "\<exists>acct n1 ptx n2 resp n3 j.
     srv_getAccount (sst_provider p) (net w) (kp_public (sst_signer p)) = (Inr acct, n1) \<and>
     srv_prepareTransaction (sst_provider p) n1 (sst_tx p acct) = (Inr ptx, n2) \<and>
     srv_sendTransaction (sst_provider p) n2 (tx_sign (sst_signer p) ptx) = (Inr resp, n3) \<and>
     1 \<le> j \<and> j \<le> 29 \<and> gt_status r = SUCCESS \<and> gt_returnValue r \<noteq> None \<and>
     calls w' = calls w @ [GetAccount (kp_public (sst_signer p)), PrepareTransaction (sst_tx p acct),
                           SendTransaction (tx_sign (sst_signer p) ptx)]
                         @ replicate j (GetTransaction (sr_hash resp))"
  using assms unfolding submitStellarTransaction_stages
  by (auto split: prod.splits sum.splits dest!: getPollingTransaction_Inr)

theorem submitStellarTransaction_request_order_witness:
  "\<exists>r w'. submitStellarTransaction scenario_params (fake_world scenario_net) = (Inr r, w') \<and>
     (\<exists>acct n1 ptx n2 resp n3 j.
        fake_getAccount scenario_net (kp_public signer_kp) = (Inr acct, n1) \<and>
        fake_prepare n1 (sst_tx scenario_params acct) = (Inr ptx, n2) \<and>
        fake_send n2 (tx_sign signer_kp ptx) = (Inr resp, n3) \<and>
        1 \<le> j \<and> j \<le> 29 \<and> gt_status r = SUCCESS \<and> gt_returnValue r \<noteq> None \<and>
        calls w' = [GetAccount (kp_public signer_kp), PrepareTransaction (sst_tx scenario_params acct),
                    SendTransaction (tx_sign signer_kp ptx)] @ replicate j (GetTransaction (sr_hash resp)))"
proof -
  obtain w' where run: "submitStellarTransaction scenario_params (fake_world scenario_net) =
      (Inr \<lparr>gt_status = SUCCESS, gt_txHash = ''abc'', gt_returnValue = Some (ScvU32 42)\<rparr>, w')"
    by (simp add: submitStellarTransaction_stages getPollingTransaction_unfold pollTransaction_def
       DEFAULT_GET_TRANSACTION_TIMEOUT_def scenario_params_def prog_simps built_tx_def Let_def BASE_FEE_def)
  show ?thesis using submitStellarTransaction_request_order [OF run] run
    by (auto simp: scenario_params_def fake_server_simps)
qed

text \<open>C5. When the endpoint rejects the preparation, \<open>submitStellarTransaction\<close> fails
  with that very error, unmodified, and nothing after the preparation runs: no
  signing, no submission, no status query.\<close>

theorem submitStellarTransaction_prepare_failure_aborts:
  assumes "srv_getAccount (sst_provider p) (net w) (kp_public (sst_signer p)) = (Inr acct, n1)"
    and "srv_prepareTransaction (sst_provider p) n1 (sst_tx p acct) = (Inl e, n2)"
  shows "submitStellarTransaction p w =
           (Inl (Thrown e), w\<lparr>net := n2, calls := calls w @ [GetAccount (kp_public (sst_signer p)),
                                                            PrepareTransaction (sst_tx p acct)]\<rparr>)"
  using assms by (simp add: submitStellarTransaction_stages)

theorem submitStellarTransaction_prepare_failure_aborts_witness:
  "submitStellarTransaction scenario_params (fake_world (scenario_net\<lparr>fk_prepare_error := Some ''HostError''\<rparr>)) =
     (Inl (Thrown (Error ''HostError'')),
      fake_world (scenario_net\<lparr>fk_prepare_error := Some ''HostError''\<rparr>)
        \<lparr>calls := [GetAccount (kp_public signer_kp),
                   PrepareTransaction (built_tx \<lparr>acc_id = kp_public signer_kp, acc_seq = 5\<rparr> BASE_FEE TESTNET
                                          (contract_call counter_id ''increment'' []))]\<rparr>)"
proof -
  let ?n = "scenario_net\<lparr>fk_prepare_error := Some ''HostError''\<rparr>"
  let ?acct = "\<lparr>acc_id = kp_public signer_kp, acc_seq = 5\<rparr>"
  have a: "srv_getAccount (sst_provider scenario_params) (net (fake_world ?n)) (kp_public (sst_signer scenario_params)) = (Inr ?acct, ?n)"
    by (simp add: scenario_params_def prog_simps)
  have b: "srv_prepareTransaction (sst_provider scenario_params) ?n (sst_tx scenario_params ?acct) = (Inl (Error ''HostError''), ?n)"
    by (simp add: scenario_params_def prog_simps)
  show ?thesis using submitStellarTransaction_prepare_failure_aborts [OF a b]
    by (simp add: scenario_params_def fake_world_def)
qed

text \<open>C6. Once the submission request returns, the outcome of
  \<open>submitStellarTransaction\<close> is that of polling the returned hash, whatever the
  submission status says: a submission answered \<open>ERROR\<close> (bad sequence number,
  fee too low) is not reported as such but polled like an accepted one.\<close>

theorem submitStellarTransaction_ignores_send_status:
  assumes "srv_getAccount (sst_provider p) (net w) (kp_public (sst_signer p)) = (Inr acct, n1)"
    and "srv_prepareTransaction (sst_provider p) n1 (sst_tx p acct) = (Inr ptx, n2)"
    and "srv_sendTransaction (sst_provider p) n2 (tx_sign (sst_signer p) ptx) = (Inr resp, n3)"
  shows "submitStellarTransaction p w =
           getPollingTransaction (sst_provider p) (sr_hash resp)
             (w\<lparr>net := n3, calls := calls w @ [GetAccount (kp_public (sst_signer p)), PrepareTransaction (sst_tx p acct),
                                             SendTransaction (tx_sign (sst_signer p) ptx)]\<rparr>)"
  using assms by (simp add: submitStellarTransaction_stages)

theorem submitStellarTransaction_ignores_send_status_witness:
  "\<exists>(resp :: send_response) w3. sr_status resp = SEND_ERROR \<and>
     submitStellarTransaction scenario_params (fake_world (scenario_net\<lparr>fk_min_fee := 200, fk_polls := []\<rparr>)) =
       getPollingTransaction fake_server (sr_hash resp) w3 \<and>
     result_of (submitStellarTransaction scenario_params) (fake_world (scenario_net\<lparr>fk_min_fee := 200, fk_polls := []\<rparr>)) =
       Inl (Thrown (Error ''Error fetching transaction''))"
proof -
  let ?n = "scenario_net\<lparr>fk_min_fee := 200, fk_polls := []\<rparr>"
  let ?acct = "\<lparr>acc_id = kp_public signer_kp, acc_seq = 5\<rparr>"
  let ?ptx = "sst_tx scenario_params ?acct"
  let ?n3 = "?n\<lparr>fk_hashes := []\<rparr>"
  let ?resp = "\<lparr>sr_status = SEND_ERROR, sr_hash = ''abc''\<rparr>"
  have a: "srv_getAccount (sst_provider scenario_params) (net (fake_world ?n)) (kp_public (sst_signer scenario_params)) = (Inr ?acct, ?n)"
    by (simp add: scenario_params_def prog_simps)
  have b: "srv_prepareTransaction (sst_provider scenario_params) ?n (sst_tx scenario_params ?acct) = (Inr ?ptx, ?n)"
    by (simp add: scenario_params_def prog_simps)
  have c: "srv_sendTransaction (sst_provider scenario_params) ?n (tx_sign (sst_signer scenario_params) ?ptx) = (Inr ?resp, ?n3)"
    by (simp add: scenario_params_def prog_simps built_tx_def BASE_FEE_def)
  let ?w3 = "fake_world ?n\<lparr>net := ?n3, calls := calls (fake_world ?n) @
          [GetAccount (kp_public (sst_signer scenario_params)), PrepareTransaction ?ptx,
           SendTransaction (tx_sign (sst_signer scenario_params) ?ptx)]\<rparr>"
  note eq = submitStellarTransaction_ignores_send_status [OF a b c]
  have r: "result_of (getPollingTransaction fake_server ''abc'') ?w3 = Inl (Thrown (Error ''Error fetching transaction''))"
    using getPollingTransaction_gives_up [of "\<lambda>n. fk_polls n = []" fake_server "''abc''" ?w3] by (simp add: fake_defs)
  show ?thesis
  proof (rule exI [of _ ?resp], rule exI [of _ ?w3], intro conjI)
    show "sr_status ?resp = SEND_ERROR" by simp
    show "submitStellarTransaction scenario_params (fake_world ?n) = getPollingTransaction fake_server (sr_hash ?resp) ?w3"
      using eq by (simp add: scenario_params_def)
    show "result_of (submitStellarTransaction scenario_params) (fake_world ?n) = Inl (Thrown (Error ''Error fetching transaction''))"
      using eq r by (simp add: scenario_params_def)
  qed

qed

end
