(* ===== verification/Runtime.thy ===== *)
theory Runtime
  imports Stellar
begin

text \<open>
  The Node runtime services the deployment script uses, modelled from their
  documented behaviour: \<open>fs.existsSync\<close> and \<open>fs.readFileSync\<close> over the world's
  file map, \<open>process.exit\<close> as the abrupt outcome \<open>Exit\<close>, and the hexadecimal codec
  of \<open>Buffer\<close>: \<open>Buffer.from(s, "hex")\<close> decodes pairs of hex digits and stops at
  the first pair that is not one (an odd last digit is dropped), and the lower-case
  encoding in which the RPC endpoint reports transaction hashes. The lemmas prove
  that decoding inverts encoding, so a 32-byte hash reported in hex decodes back to
  32 bytes.
\<close>

definition fs_existsSync :: "string \<Rightarrow> ('n world, bool) prog" where
  "fs_existsSync path = (\<lambda>w. (Inr (files w path \<noteq> None), w))"

definition fs_readFileSync :: "string \<Rightarrow> ('n world, bytes) prog" where
  "fs_readFileSync path =
     (\<lambda>w. case files w path of
            None \<Rightarrow> (Inl (Thrown (Error (''ENOENT: no such file or directory, open '' @ path))), w)
          | Some b \<Rightarrow> (Inr b, w))"

definition process_exit :: "nat \<Rightarrow> ('n world, 'a) prog" where
  "process_exit code = throw (Exit code)"

subsection \<open>Hexadecimal\<close>

definition hex_value :: "char \<Rightarrow> nat option" where
  "hex_value c =
     (let n = of_char c :: nat in
      if 48 \<le> n \<and> n \<le> 57 then Some (n - 48)
      else if 97 \<le> n \<and> n \<le> 102 then Some (n - 87)
      else if 65 \<le> n \<and> n \<le> 70 then Some (n - 55)
      else None)"

definition hex_char :: "nat \<Rightarrow> char" where
  "hex_char d = (if d < 10 then char_of (48 + d) else char_of (87 + d))"

fun buffer_from_hex :: "string \<Rightarrow> bytes" where
  "buffer_from_hex (a # b # rest) =
     (case (hex_value a, hex_value b) of
        (Some x, Some y) \<Rightarrow> word_of_nat (16 * x + y) # buffer_from_hex rest
      | _ \<Rightarrow> [])"
| "buffer_from_hex _ = []"

definition byte_to_hex :: "byte \<Rightarrow> string" where
  "byte_to_hex b = [hex_char (unat b div 16), hex_char (unat b mod 16)]"

definition hex_encode :: "bytes \<Rightarrow> string" where
  "hex_encode bs = concat (map byte_to_hex bs)"

lemma hex_value_hex_char [simp]: "d < 16 \<Longrightarrow> hex_value (hex_char d) = Some d"
  by (auto simp: hex_value_def hex_char_def Let_def)

lemma buffer_from_hex_byte [simp]:
  "buffer_from_hex (byte_to_hex b @ s) = b # buffer_from_hex s"
proof -
  have "unat b div 16 < 16" and "unat b mod 16 < 16"
    using unsigned_less [of b, where ?'a = nat] by simp_all
  moreover have "(word_of_nat (16 * (unat b div 16) + unat b mod 16) :: byte) = b"
    by simp
  ultimately show ?thesis by (simp add: byte_to_hex_def)
qed

lemma buffer_from_hex_encode: "buffer_from_hex (hex_encode bs) = bs"
  by (induction bs) (simp_all add: hex_encode_def)

lemma length_hex_encode: "length (hex_encode bs) = 2 * length bs"
  by (induction bs) (simp_all add: hex_encode_def byte_to_hex_def)

lemma runtime_apply [prog_simps]:
  "fs_existsSync path w = (Inr (files w path \<noteq> None), w)"
  "fs_readFileSync path w = (case files w path of
            None \<Rightarrow> (Inl (Thrown (Error (''ENOENT: no such file or directory, open '' @ path))), w)
          | Some b \<Rightarrow> (Inr b, w))"
  "process_exit code w = (Inl (Exit code), w)"
  by (simp_all add: fs_existsSync_def fs_readFileSync_def process_exit_def throw_def)


text \<open>The file system and \<open>process.exit\<close> neither print nor send requests.\<close>

lemma writes_runtime [writes_intros]:
  "writes stdout P (\<lambda>_. True) (fs_existsSync f)"
  "writes stdout P (\<lambda>_. True) (fs_readFileSync f)"
  "writes stdout P Q (process_exit n)"
  by (auto simp: writes_def fs_existsSync_def fs_readFileSync_def process_exit_def throw_def split: option.splits)

lemma emits_runtime [emits_intros]:
  "emits calls (\<lambda>_ new. new = []) (fs_existsSync f)"
  "emits calls (\<lambda>_ new. new = []) (fs_readFileSync f)"
  "emits calls E (process_exit n)"
  by (auto simp: emits_def fs_existsSync_def fs_readFileSync_def process_exit_def throw_def split: option.splits)

lemma bound_runtime [bound_intros]:
  "appends_at_most calls 0 (fs_existsSync f)"
  "appends_at_most calls 0 (fs_readFileSync f)"
  "appends_at_most calls 0 (process_exit n)"
  by (auto simp: appends_at_most_def fs_existsSync_def fs_readFileSync_def process_exit_def throw_def split: option.splits)

lemma writes_runtime_calls:
  "writes calls P (\<lambda>_. True) (fs_existsSync f)"
  "writes calls P (\<lambda>_. True) (fs_readFileSync f)"
  "writes calls P Q (process_exit n)"
  by (auto simp: writes_def fs_existsSync_def fs_readFileSync_def process_exit_def throw_def split: option.splits)

end
