(* ===== verification/Deploy.thy ===== *)
theory Deploy
  imports Helpers Runtime
begin

text \<open>
  \<open>src/src/utils/deploy.ts\<close>: contract deployment. \<open>uploadWasm\<close> reads the
  compiled contract and uploads it (or reports the missing file and exits the
  process); \<open>deployContract\<close> takes the upload's response, checks that it returned
  the WASM hash, and creates a contract instance with that hash, the signer as
  deployer and the upload's transaction hash, decoded from hex, as salt; it returns
  the new contract's address. Both send their operation with
  \<open>buildAndSendTransaction\<close>, a second copy of the submission pipeline of
  \<open>helpers.ts\<close> whose builder chain \<open>buildTransaction\<close> calls the builder's methods
  in another order. The lemmas show that the copy is equivalent to
  \<open>submitStellarTransaction\<close>, what each entry point does on every branch, and that
  the salt is the upload hash.
\<close>

text \<open>The builder chain of \<open>buildTransaction\<close>:
  \<open>new TransactionBuilder(account, {fee: BASE_FEE, networkPassphrase: Networks.TESTNET})
   .addOperation(operations).setTimeout(30).build()\<close>.\<close>

definition deploy_build :: "account \<Rightarrow> operation \<Rightarrow> js_error + transaction" where
  "deploy_build account operations =
     (case setTimeout (addOperation (new_TransactionBuilder account BASE_FEE (Some TESTNET)) operations) 30 of
        Inl e \<Rightarrow> Inl e
      | Inr b \<Rightarrow> build b)"

definition buildTransaction :: "'n rpc_server \<Rightarrow> keypair \<Rightarrow> operation \<Rightarrow> ('n world, transaction) prog" where
  "buildTransaction provider signer operations =
     bind_p (rpc_getAccount provider (kp_public signer)) (\<lambda>account.
     lift_sync (deploy_build account operations))"

definition buildAndSendTransaction :: "'n rpc_server \<Rightarrow> keypair \<Rightarrow> operation \<Rightarrow> ('n world, get_tx_response) prog" where
  "buildAndSendTransaction provider signer operations =
     bind_p (buildTransaction provider signer operations) (\<lambda>transaction.
     bind_p (rpc_prepareTransaction provider transaction) (\<lambda>prepTx.
     bind_p (lift_sync (keypair_fromSecret_secret signer)) (\<lambda>kp.
     let signed = tx_sign kp prepTx in
     bind_p (rpc_sendTransaction provider signed) (\<lambda>response.
     let hash = sr_hash response in
     bind_p (getPollingTransaction provider hash) (\<lambda>tx.
     ret tx)))))"

abbreviation nl :: string where
  "nl \<equiv> [CHR 0x0A]"

definition uploadWasm :: "'n rpc_server \<Rightarrow> keypair \<Rightarrow> string \<Rightarrow> ('n world, get_tx_response) prog" where
  "uploadWasm provider signer filePath =
     bind_p (fs_existsSync filePath) (\<lambda>exists.
     if exists then
       bind_p (fs_readFileSync filePath) (\<lambda>bytecode.
       let operation = uploadContractWasm bytecode in
       bind_p (buildAndSendTransaction provider signer operation) (\<lambda>response.
       bind_p (console_log [OText ''Uploaded Wasm: '', OText (gt_txHash response)]) (\<lambda>_.
       ret response)))
     else
       bind_p (console_error [OText (nl @ ''ERROR: Required WASM file not found at ''), OText filePath, OText ''!'']) (\<lambda>_.
       bind_p (console_error [OText (nl @ ''Please run the following command to compile contracts first:'')]) (\<lambda>_.
       bind_p (console_error [OText (nl @ ''    make build'' @ nl)]) (\<lambda>_.
       process_exit 1))))"

text \<open>\<open>response.returnValue?.bytes()\<close> is \<open>undefined\<close> when there is no return value
  and throws when the value is not a byte string; a \<open>Buffer\<close> is always truthy, so
  the guard fails only in the first case.\<close>

definition deployContract :: "'n rpc_server \<Rightarrow> keypair \<Rightarrow> get_tx_response \<Rightarrow> ('n world, address) prog" where
  "deployContract provider signer response =
     (case gt_returnValue response of
        None \<Rightarrow> throw (Thrown (Error (''Transaction failed: '' @ gt_txHash response)))
      | Some rv \<Rightarrow>
          bind_p (lift_sync (scval_bytes rv)) (\<lambda>_.
          let signerAddress = kp_public signer in
          bind_p (lift_sync (scval_bytes rv)) (\<lambda>wasmHash.
          bind_p (lift_sync (createCustomContract wasmHash signerAddress
                                (buffer_from_hex (gt_txHash response)))) (\<lambda>operation.
          bind_p (buildAndSendTransaction provider signer operation) (\<lambda>responseDeploy.
          case gt_returnValue responseDeploy of
            Some rv' \<Rightarrow>
              bind_p (lift_sync (scval_address rv')) (\<lambda>a.
              let contractAddress = encodeContract (address_toBuffer a) in
              ret contractAddress)
          | None \<Rightarrow> throw (Thrown (Error (''Transaction failed: '' @ gt_txHash response))))))))"

subsection \<open>The second pipeline is the first one\<close>

lemma deploy_build_eq: "deploy_build acct op = Inr (built_tx acct BASE_FEE TESTNET op)"
  by (simp add: deploy_build_def built_tx_def builder_defs)

lemma buildAndSendTransaction_stages:
  "kp_secret signer \<noteq> None \<Longrightarrow>
   buildAndSendTransaction srv signer op =
     submitStellarTransaction \<lparr>sst_provider = srv, sst_signer = signer,
        sst_networkPassphrase = Some TESTNET, sst_fee = Some BASE_FEE, sst_operation = op\<rparr>"
  by (rule ext)
     (auto simp: buildAndSendTransaction_def buildTransaction_def submitStellarTransaction_stages
        keypair_fromSecret_secret_def deploy_build_eq prog_simps Let_def split: prod.splits sum.splits)

text \<open>With a WASM hash of 32 bytes and an upload hash that decodes to 32 bytes,
  \<open>deployContract\<close> is the submission of the creation operation followed by the
  reading of the new address.\<close>

lemma deployContract_valid:
  assumes "gt_returnValue response = Some (ScvBytes wasmHash)" and "length wasmHash = 32"
    and "length (buffer_from_hex (gt_txHash response)) = 32" and "kp_secret signer \<noteq> None"
  shows "deployContract srv signer response =
     bind_p (submitStellarTransaction \<lparr>sst_provider = srv, sst_signer = signer,
               sst_networkPassphrase = Some TESTNET, sst_fee = Some BASE_FEE,
               sst_operation = CreateContract (kp_public signer) (buffer_from_hex (gt_txHash response)) wasmHash\<rparr>)
       (\<lambda>responseDeploy. case gt_returnValue responseDeploy of
            Some rv' \<Rightarrow> bind_p (lift_sync (scval_address rv')) (\<lambda>a.
                let contractAddress = encodeContract (address_toBuffer a) in ret contractAddress)
          | None \<Rightarrow> throw (Thrown (Error (''Transaction failed: '' @ gt_txHash response))))"
  using assms
  by (simp add: deployContract_def buildAndSendTransaction_stages createCustomContract_def Let_def)

subsection \<open>The entry points in the trace logics\<close>

text \<open>Deployment prints only the upload line; a successful upload has prepared one
  upload operation, a successful deployment one creation by the signer.\<close>

lemma writes_buildAndSendTransaction [writes_intros]:
  "writes stdout P (\<lambda>r. gt_returnValue r \<noteq> None) (buildAndSendTransaction provider signer op)"
  unfolding buildAndSendTransaction_def buildTransaction_def Let_def rpc_ops_defs bind_p_assoc
  by (intro writes_bind [OF writes_rpc] writes_bind [OF writes_lift_sync]
        writes_bind [OF writes_getPollingTransaction] writes_ret) auto

lemma emits_buildAndSendTransaction:
  "emits calls (\<lambda>r new. prepared_ops new = [op] \<and> simulated_ops new = []) (buildAndSendTransaction provider signer op)"
  unfolding emits_def buildAndSendTransaction_def buildTransaction_def
  by (auto simp: prog_simps deploy_build_eq built_tx_def keypair_fromSecret_secret_def Let_def
           split: prod.splits sum.splits option.splits dest!: getPollingTransaction_Inr)

lemma writes_uploadWasm [writes_intros]:
  assumes "\<And>h. P [OText ''Uploaded Wasm: '', OText h]"
  shows "writes stdout P (\<lambda>r. gt_returnValue r \<noteq> None) (uploadWasm provider signer filePath)"
  unfolding uploadWasm_def Let_def
  by (intro writes_bind [OF writes_runtime(1)] writes_if writes_bind [OF writes_runtime(2)]
        writes_bind [OF writes_buildAndSendTransaction] writes_bind [OF writes_console_log]
        writes_bind [OF writes_console_error] writes_runtime(3) writes_ret assms)

lemma emits_uploadWasm [emits_intros]:
  "emits calls (\<lambda>r new. \<exists>bytecode. prepared_ops new = [UploadContractWasm bytecode] \<and> simulated_ops new = [])
     (uploadWasm provider signer filePath)"
  unfolding emits_def uploadWasm_def
  by (auto simp: prog_simps Let_def uploadContractWasm_def split: prod.splits sum.splits option.splits if_splits
           dest!: emits_buildAndSendTransaction [unfolded emits_def, rule_format])

lemma writes_deployContract [writes_intros]:
  "writes stdout P (\<lambda>_. True) (deployContract provider signer response)"
  unfolding deployContract_def Let_def
  by (intro writes_case_option writes_throw writes_bind [OF writes_lift_sync] writes_lift_sync
        writes_bind [OF writes_buildAndSendTransaction] writes_ret) auto

lemma emits_deployContract [emits_intros]:
  "emits calls (\<lambda>c new. \<exists>salt wasmHash. prepared_ops new = [CreateContract (kp_public signer) salt wasmHash] \<and>
                         simulated_ops new = []) (deployContract provider signer response)"
  unfolding emits_def deployContract_def
  by (auto simp: prog_simps Let_def createCustomContract_def split: prod.splits sum.splits option.splits if_splits
           dest!: emits_buildAndSendTransaction [unfolded emits_def, rule_format])

lemma bound_buildAndSendTransaction [bound_intros]:
  "appends_at_most calls 32 (buildAndSendTransaction provider signer op)"
  unfolding buildAndSendTransaction_def buildTransaction_def Let_def rpc_ops_defs
  by (rule bound_mono, (rule bound_intros)+) simp

lemma bound_uploadWasm [bound_intros]: "appends_at_most calls 32 (uploadWasm provider signer filePath)"
  unfolding uploadWasm_def Let_def
  by (rule bound_mono, (rule bound_intros)+) simp

lemma bound_deployContract [bound_intros]: "appends_at_most calls 32 (deployContract provider signer response)"
  unfolding deployContract_def Let_def
  by (rule bound_mono, (rule bound_intros)+) simp

lemma wf_buildAndSendTransaction: "writes calls request_wf (\<lambda>_. True) (buildAndSendTransaction provider signer op)"
  unfolding buildAndSendTransaction_def buildTransaction_def Let_def rpc_ops_defs bind_p_assoc deploy_build_eq
  by (intro writes_bind [OF writes_rpc_calls] writes_bind [OF writes_lift_sync [where Q = tx_wf]]
        writes_bind [OF writes_lift_sync] writes_bind [OF wf_getPollingTransaction] writes_lift_sync writes_ret)
     (auto simp: tx_wf_def built_tx_def)

lemma wf_uploadWasm: "writes calls request_wf (\<lambda>_. True) (uploadWasm provider signer filePath)"
  unfolding uploadWasm_def Let_def
  by (intro writes_bind [OF writes_runtime_calls(1)] writes_if writes_bind [OF writes_runtime_calls(2)]
        writes_bind [OF wf_buildAndSendTransaction] writes_bind [OF writes_console_calls(1)]
        writes_bind [OF writes_console_calls(2)] writes_runtime_calls(3) writes_ret)

lemma wf_deployContract: "writes calls request_wf (\<lambda>_. True) (deployContract provider signer response)"
  unfolding deployContract_def Let_def
  by (intro writes_case_option writes_throw writes_bind [OF writes_lift_sync] writes_lift_sync
        writes_bind [OF wf_buildAndSendTransaction] writes_ret) auto

subsection \<open>Properties of the deployment entry points\<close>

text \<open>C7. For a signer that holds its secret seed, the deployment pipeline
  \<open>buildAndSendTransaction\<close> applied to a contract call is the same program as
  \<open>submitTransaction\<close> of \<open>helpers.ts\<close>: although its builder chain sets the
  network in the constructor and calls \<open>addOperation\<close> before \<open>setTimeout\<close>, and it
  re-creates the key pair from its secret before signing, it sends the same requests
  in the same order and returns the same outcome in every world.\<close>

theorem buildAndSendTransaction_eq_submitTransaction:
  assumes "kp_secret signer \<noteq> None"
  shows "buildAndSendTransaction srv signer (contract_call c f args) =
         submitTransaction \<lparr>st_provider = srv, st_signer = signer, st_contract = c,
                            st_functionName = f, st_args = args\<rparr>"
  using assms by (simp add: buildAndSendTransaction_stages submitTransaction_def)

theorem buildAndSendTransaction_eq_submitTransaction_witness:
  "buildAndSendTransaction fake_server signer_kp (contract_call counter_id ''increment'' []) =
   submitTransaction \<lparr>st_provider = fake_server, st_signer = signer_kp, st_contract = counter_id,
                      st_functionName = ''increment'', st_args = []\<rparr>"
  by (rule buildAndSendTransaction_eq_submitTransaction) (simp add: signer_kp_def)

text \<open>C8. When the WASM file does not exist, \<open>uploadWasm\<close> prints the three error
  lines to the error console and exits the process with code 1, without any RPC
  request and without touching the network state.\<close>

theorem uploadWasm_missing_file:
  assumes "files w filePath = None"
  shows "uploadWasm srv signer filePath w =
           (Inl (Exit 1), w\<lparr>stderr := stderr w @
              [[OText (nl @ ''ERROR: Required WASM file not found at ''), OText filePath, OText ''!''],
               [OText (nl @ ''Please run the following command to compile contracts first:'')],
               [OText (nl @ ''    make build'' @ nl)]]\<rparr>)"
  using assms by (simp add: uploadWasm_def prog_simps)

theorem uploadWasm_missing_file_witness:
  "result_of (uploadWasm fake_server signer_kp ''increment.wasm'') (fake_world scenario_net) = Inl (Exit 1) \<and>
   calls (state_of (uploadWasm fake_server signer_kp ''increment.wasm'') (fake_world scenario_net)) = [] \<and>
   length (stderr (state_of (uploadWasm fake_server signer_kp ''increment.wasm'') (fake_world scenario_net))) = 3"
  using uploadWasm_missing_file [of "fake_world scenario_net" "''increment.wasm''" fake_server signer_kp]
  by simp

text \<open>C9. When the file exists and the signer holds its seed, \<open>uploadWasm\<close> submits one
  \<open>uploadContractWasm\<close> operation carrying exactly the file's bytes through the
  submission pipeline; on success it logs \<open>"Uploaded Wasm: "\<close> followed by the
  transaction hash and returns the response, and on failure it propagates the
  pipeline's error unchanged.\<close>

theorem uploadWasm_uploads:
  assumes "files w filePath = Some wasm" and "kp_secret signer \<noteq> None"
  shows "uploadWasm srv signer filePath w =
           (case submitStellarTransaction \<lparr>sst_provider = srv, sst_signer = signer,
                   sst_networkPassphrase = Some TESTNET, sst_fee = Some BASE_FEE,
                   sst_operation = UploadContractWasm wasm\<rparr> w of
              (Inr r, w') \<Rightarrow> (Inr r, w'\<lparr>stdout := stdout w' @ [[OText ''Uploaded Wasm: '', OText (gt_txHash r)]]\<rparr>)
            | (Inl e, w') \<Rightarrow> (Inl e, w'))"
  using assms
  by (simp add: uploadWasm_def buildAndSendTransaction_stages uploadContractWasm_def prog_simps
           split: prod.splits sum.splits)

theorem uploadWasm_uploads_witness:
  "uploadWasm fake_server signer_kp ''increment.wasm'' ((fake_world scenario_net)\<lparr>files := [''increment.wasm'' \<mapsto> [0, 97, 115, 109]]\<rparr>) =
     (case submitStellarTransaction \<lparr>sst_provider = fake_server, sst_signer = signer_kp,
             sst_networkPassphrase = Some TESTNET, sst_fee = Some BASE_FEE,
             sst_operation = UploadContractWasm [0, 97, 115, 109]\<rparr>
             ((fake_world scenario_net)\<lparr>files := [''increment.wasm'' \<mapsto> [0, 97, 115, 109]]\<rparr>) of
        (Inr r, w') \<Rightarrow> (Inr r, w'\<lparr>stdout := stdout w' @ [[OText ''Uploaded Wasm: '', OText (gt_txHash r)]]\<rparr>)
      | (Inl e, w') \<Rightarrow> (Inl e, w'))"
  by (rule uploadWasm_uploads) (simp_all add: signer_kp_def)

text \<open>C10. When the upload returned a 32-byte WASM hash and its transaction hash is the
  hex encoding of 32 bytes, \<open>deployContract\<close> passes the guards of
  \<open>createCustomContract\<close> and prepares a transaction whose one operation creates the
  contract with that WASM hash, the signer as deployer, and as salt exactly the
  32 bytes the upload hash encodes (hex decoding inverts the endpoint's encoding).\<close>

theorem deployContract_salt_is_upload_hash:
  assumes "gt_returnValue response = Some (ScvBytes wasmHash)" and "length wasmHash = 32"
    and "gt_txHash response = hex_encode h" and "length h = 32"
    and "kp_secret signer \<noteq> None"
    and acct: "srv_getAccount srv (net w) (kp_public signer) = (Inr acct, n1)"
  shows "take 2 (drop (length (calls w)) (calls (state_of (deployContract srv signer response) w))) =
           [GetAccount (kp_public signer),
            PrepareTransaction (built_tx acct BASE_FEE TESTNET (CreateContract (kp_public signer) h wasmHash))]"
proof -
  let ?p = "\<lparr>sst_provider = srv, sst_signer = signer, sst_networkPassphrase = Some TESTNET,
             sst_fee = Some BASE_FEE, sst_operation = CreateContract (kp_public signer) h wasmHash\<rparr>"
  have len: "length (buffer_from_hex (gt_txHash response)) = 32"
    using assms by (simp add: buffer_from_hex_encode)
  have "state_of (deployContract srv signer response) w = state_of (submitStellarTransaction ?p) w"
    unfolding deployContract_valid [OF assms(1,2) len assms(5)] assms(3) buffer_from_hex_encode
    by (rule bind_p_state_pure) (simp add: prog_simps Let_def split: option.splits sum.splits)
  moreover obtain rest where "calls (state_of (submitStellarTransaction ?p) w) =
      calls w @ GetAccount (kp_public signer) # PrepareTransaction (sst_tx ?p acct) # rest"
    using submitStellarTransaction_calls_prefix [of ?p w acct n1] acct by auto
  ultimately show ?thesis by simp
qed

theorem deployContract_salt_is_upload_hash_witness:
  "take 2 (drop 0 (calls (state_of (deployContract fake_server signer_kp
       \<lparr>gt_status = SUCCESS, gt_txHash = hex_encode (replicate 32 9), gt_returnValue = Some (ScvBytes (replicate 32 7))\<rparr>)
       (fake_world scenario_net)))) =
     [GetAccount (kp_public signer_kp),
      PrepareTransaction (built_tx \<lparr>acc_id = kp_public signer_kp, acc_seq = 5\<rparr> BASE_FEE TESTNET
                            (CreateContract (kp_public signer_kp) (replicate 32 9) (replicate 32 7)))]"
  using deployContract_salt_is_upload_hash [of "\<lparr>gt_status = SUCCESS, gt_txHash = hex_encode (replicate 32 9), gt_returnValue = Some (ScvBytes (replicate 32 7))\<rparr>"
      "replicate 32 7" "replicate 32 9" signer_kp fake_server "fake_world scenario_net" "\<lparr>acc_id = kp_public signer_kp, acc_seq = 5\<rparr>" scenario_net]
  by (simp add: prog_simps)

text \<open>C11. An upload hash that does not decode to 32 bytes (for instance the short hash
  \<open>"abc"\<close> of the spec's scenario) makes \<open>deployContract\<close> throw the salt
  \<open>TypeError\<close> of \<open>createCustomContract\<close> before any request is sent.\<close>

theorem deployContract_rejects_bad_salt:
  assumes "gt_returnValue response = Some (ScvBytes wasmHash)" and "length wasmHash = 32"
    and "length (buffer_from_hex (gt_txHash response)) \<noteq> 32"
  shows "deployContract srv signer response w = (Inl (Thrown (TypeError ''expected 32-byte salt in opts.salt'')), w)"
  using assms by (simp add: deployContract_def createCustomContract_def prog_simps Let_def)

theorem deployContract_rejects_bad_salt_witness:
  "deployContract fake_server signer_kp
       \<lparr>gt_status = SUCCESS, gt_txHash = ''abc'', gt_returnValue = Some (ScvBytes (replicate 32 7))\<rparr>
       (fake_world scenario_net) =
     (Inl (Thrown (TypeError ''expected 32-byte salt in opts.salt'')), fake_world scenario_net)"
  by (rule deployContract_rejects_bad_salt [where wasmHash = "replicate 32 7"]) (simp_all add: hex_value_def)

end
