(* ===== verification/Simulate.thy ===== *)
theory Simulate
  imports Helpers
begin

text \<open>
  \<open>src/src/utils/simulate_transaction.ts\<close>: the read-only call. \<open>simulateTransaction\<close>
  reads the signer's account, builds a transaction exactly as the submission
  pipeline does (same builder chain, base fee, test network, 30-second timeout)
  around a call of the function with no arguments, and asks the endpoint to simulate
  it, never to prepare or send it. It returns the simulated return value, and
  rethrows every failure, its own included, with the prefix
  \<open>"Failed to simulate transaction "\<close> added by the outer \<open>catch\<close>. The lemmas give
  its result on every branch, the exact text of its errors, and the requests it can
  send.
\<close>

record 'n SimulateTransactionParams =
  sim_provider :: "'n rpc_server"
  sim_signer :: keypair
  sim_contract :: address
  sim_functionName :: string

text \<open>The builder chain of lines 27--31 is the one of \<open>submitStellarTransaction\<close>,
  \<open>helpers_build\<close>, at the base fee and the test network.\<close>

definition simulateTransaction :: "'n SimulateTransactionParams \<Rightarrow> ('n world, scval) prog" where
  "simulateTransaction p =
     catch_p
       (bind_p (rpc_getAccount (sim_provider p) (kp_public (sim_signer p))) (\<lambda>sourceAccount.
        let fee = BASE_FEE in
        bind_p (lift_sync (helpers_build sourceAccount fee TESTNET
                  (contract_call (sim_contract p) (sim_functionName p) []))) (\<lambda>transaction.
        bind_p (rpc_simulateTransaction (sim_provider p) transaction) (\<lambda>sim.
          case sim of
            SimSuccess (Some retval) \<Rightarrow> ret retval
          | SimError e \<Rightarrow> throw (Thrown (Error (''Failed to simulate transaction '' @ e)))
          | SimSuccess None \<Rightarrow> throw (Thrown (Error ''Failed to simulate transaction''))))))
       (\<lambda>error. throw (Thrown (Error (''Failed to simulate transaction '' @ js_error_to_string error))))"

text \<open>The transaction it simulates, built from the account it read.\<close>

abbreviation sim_tx :: "'n SimulateTransactionParams \<Rightarrow> account \<Rightarrow> transaction" where
  "sim_tx p acct \<equiv> built_tx acct BASE_FEE TESTNET (InvokeContract (sim_contract p) (sim_functionName p) [])"

text \<open>The call of the spec's scenario: \<open>get_count\<close> on the counter contract.\<close>

definition sim_params :: "fake_net SimulateTransactionParams" where
  "sim_params = \<lparr>sim_provider = fake_server, sim_signer = signer_kp, sim_contract = counter_id,
                 sim_functionName = ''get_count''\<rparr>"

subsection \<open>The stages of a simulation\<close>

lemma simulateTransaction_stages:
  "simulateTransaction p w =
     (case srv_getAccount (sim_provider p) (net w) (kp_public (sim_signer p)) of
        (Inl e, n1) \<Rightarrow>
          (Inl (Thrown (Error (''Failed to simulate transaction '' @ js_error_to_string e))),
           w\<lparr>net := n1, calls := calls w @ [GetAccount (kp_public (sim_signer p))]\<rparr>)
      | (Inr acct, n1) \<Rightarrow>
          (case srv_simulateTransaction (sim_provider p) n1 (sim_tx p acct) of
             (r, n2) \<Rightarrow>
               ((case r of
                   Inr (SimSuccess (Some v)) \<Rightarrow> Inr v
                 | Inr (SimError m) \<Rightarrow> Inl (Thrown (Error (''Failed to simulate transaction '' @
                       js_error_to_string (Error (''Failed to simulate transaction '' @ m)))))
                 | Inr (SimSuccess None) \<Rightarrow> Inl (Thrown (Error (''Failed to simulate transaction '' @
                       js_error_to_string (Error ''Failed to simulate transaction''))))
                 | Inl e \<Rightarrow> Inl (Thrown (Error (''Failed to simulate transaction '' @ js_error_to_string e)))),
                w\<lparr>net := n2, calls := calls w @ [GetAccount (kp_public (sim_signer p)),
                                                SimulateTransaction (sim_tx p acct)]\<rparr>)))"
  by (simp add: simulateTransaction_def helpers_build_eq contract_call_def prog_simps Let_def
           split: prod.splits sum.splits sim_response.splits option.splits)

subsection \<open>The simulator in the trace logics\<close>

text \<open>A simulation prints nothing, prepares nothing, and simulates one call.\<close>

lemma writes_simulateTransaction [writes_intros]:
  "writes stdout P (\<lambda>_. True) (simulateTransaction p)"
  unfolding writes_def simulateTransaction_stages
  by (auto split: prod.splits sum.splits)

lemma emits_simulateTransaction [emits_intros]:
  "emits calls (\<lambda>v new. prepared_ops new = [] \<and> simulated_ops new = [InvokeContract (sim_contract p) (sim_functionName p) []])
     (simulateTransaction p)"
  unfolding emits_def simulateTransaction_stages
  by (auto simp: built_tx_def split: prod.splits sum.splits sim_response.splits option.splits)

lemma bound_simulateTransaction [bound_intros]: "appends_at_most calls 2 (simulateTransaction p)"
  unfolding appends_at_most_def simulateTransaction_stages
  by (auto split: prod.splits sum.splits)

lemma wf_simulateTransaction: "writes calls request_wf (\<lambda>_. True) (simulateTransaction p)"
  unfolding writes_def simulateTransaction_stages
  by (auto simp: tx_wf_def built_tx_def split: prod.splits sum.splits)


subsection \<open>Properties of the simulator\<close>

text \<open>C12. \<open>simulateTransaction\<close> returns a value exactly when the account read succeeds
  and the endpoint's simulation of the transaction built from it (one call of the
  function with no arguments, base fee, test network, 30-second timeout) has a
  result; it returns that result's value, after exactly the account read and the
  simulation request.\<close>

theorem simulateTransaction_returns:
  "simulateTransaction p w = (Inr v, w') \<longleftrightarrow>
     (\<exists>acct n1 n2. srv_getAccount (sim_provider p) (net w) (kp_public (sim_signer p)) = (Inr acct, n1) \<and>
        srv_simulateTransaction (sim_provider p) n1 (sim_tx p acct) = (Inr (SimSuccess (Some v)), n2) \<and>
        w' = w\<lparr>net := n2, calls := calls w @ [GetAccount (kp_public (sim_signer p)), SimulateTransaction (sim_tx p acct)]\<rparr>)"
  by (auto simp: simulateTransaction_stages split: prod.splits sum.splits sim_response.splits option.splits)

theorem simulateTransaction_returns_witness:
  "simulateTransaction sim_params (fake_world (scenario_net\<lparr>fk_sim := SimSuccess (Some (ScvU32 0))\<rparr>)) =
     (Inr (ScvU32 0), (fake_world (scenario_net\<lparr>fk_sim := SimSuccess (Some (ScvU32 0))\<rparr>))
        \<lparr>calls := [GetAccount (kp_public signer_kp),
                   SimulateTransaction (built_tx \<lparr>acc_id = kp_public signer_kp, acc_seq = 5\<rparr> BASE_FEE TESTNET
                      (InvokeContract counter_id ''get_count'' []))]\<rparr>)"
  by (rule simulateTransaction_returns [THEN iffD2]) (simp add: sim_params_def prog_simps fake_world_def)

text \<open>C13. When the simulation answers with an error message \<open>m\<close>, the error thrown
  carries the prefix twice: the inner \<open>throw\<close> adds
  \<open>"Failed to simulate transaction "\<close>, and the outer \<open>catch\<close> adds it again in
  front of the \<open>String\<close> of that error, \<open>"Error: ..."\<close>. The message still
  contains \<open>m\<close> (the spec's scenario: \<open>"contract trapped"\<close>).\<close>

theorem simulateTransaction_error_message:
  assumes "srv_getAccount (sim_provider p) (net w) (kp_public (sim_signer p)) = (Inr acct, n1)"
    and "srv_simulateTransaction (sim_provider p) n1 (sim_tx p acct) = (Inr (SimError m), n2)"
  shows "result_of (simulateTransaction p) w =
           Inl (Thrown (Error (''Failed to simulate transaction Error: Failed to simulate transaction '' @ m)))"
  using assms by (simp add: simulateTransaction_stages)

theorem simulateTransaction_error_message_witness:
  "result_of (simulateTransaction sim_params) (fake_world scenario_net) =
     Inl (Thrown (Error (''Failed to simulate transaction Error: Failed to simulate transaction '' @ ''contract trapped'')))"
  by (rule simulateTransaction_error_message [of _ _ "\<lparr>acc_id = kp_public signer_kp, acc_seq = 5\<rparr>" scenario_net _ scenario_net])
     (simp_all add: sim_params_def prog_simps)

text \<open>C14. A simulation sends at most two requests, the account read and the
  simulation: it never prepares, signs or sends a transaction, so it cannot consume
  a sequence number or change the ledger through the script.\<close>

theorem simulateTransaction_read_only:
  "calls (state_of (simulateTransaction p) w) = calls w @ [GetAccount (kp_public (sim_signer p))] \<or>
   (\<exists>acct. calls (state_of (simulateTransaction p) w) =
            calls w @ [GetAccount (kp_public (sim_signer p)), SimulateTransaction (sim_tx p acct)])"
  by (auto simp: simulateTransaction_stages split: prod.splits sum.splits)

text \<open>C15. Every failure of \<open>simulateTransaction\<close>, of the account read, of the
  builder, of the request or of its own checks, is a thrown \<open>Error\<close> whose
  message starts with \<open>"Failed to simulate transaction "\<close>; it never exits the
  process.\<close>

theorem simulateTransaction_errors_prefixed:
  assumes "result_of (simulateTransaction p) w = Inl e"
  shows "\<exists>m. e = Thrown (Error (''Failed to simulate transaction '' @ m))"
  using assms by (auto simp: simulateTransaction_stages split: prod.splits sum.splits sim_response.splits option.splits)

theorem simulateTransaction_errors_prefixed_witness:
  "\<exists>m. result_of (simulateTransaction sim_params) (fake_world scenario_net) =
       Inl (Thrown (Error (''Failed to simulate transaction '' @ m)))"
proof -
  have r: "result_of (simulateTransaction sim_params) (fake_world scenario_net) =
     Inl (Thrown (Error (''Failed to simulate transaction Error: Failed to simulate transaction contract trapped'')))"
    by (simp add: simulateTransaction_stages sim_params_def prog_simps)
  from simulateTransaction_errors_prefixed [OF r] r show ?thesis by auto
qed

end
