(* ===== verification/Drivers.thy ===== *)
theory Drivers
  imports Deploy Simulate
begin

text \<open>
  The example scripts: \<open>src/src/increment/deploy.ts\<close> and \<open>src/src/events/deploy.ts\<close>
  (upload then deploy a contract from a fixed WASM path), and the three \<open>main\<close>
  functions of \<open>increment/index.ts\<close>, \<open>hello_world/index.ts\<close> and
  \<open>events/index.ts\<close>, which print a banner, deploy their contract, call it through
  \<open>submitTransaction\<close>, and read back a value (\<open>simulateTransaction\<close>) or the
  contract's events. The endpoint is a parameter; the outcomes of constructing the
  provider and the signer, which the scripts build from \<open>process.env\<close>, are
  parameters too, computed by the theory \<open>Config\<close> from the environment.
  \<open>hello_world/index.ts\<close> imports \<open>deployHelloWorldContract\<close> from a module that is
  not in the repository, so that script is modelled over the deploy function it is
  given. \<open>node_main\<close> is the top level \<open>main();\<close>: an unhandled rejection prints
  the error and ends the process with code 1.
\<close>

definition node_main :: "('n world, unit) prog \<Rightarrow> ('n world, unit) prog" where
  "node_main m =
     (\<lambda>w. case m w of
            (Inl (Thrown e), w') \<Rightarrow> (Inl (Exit 1), w'\<lparr>stderr := stderr w' @ [[OText (js_error_to_string e)]]\<rparr>)
          | r \<Rightarrow> r)"

subsection \<open>The deploy wrappers\<close>

definition deployIncrementContract :: "'n rpc_server \<Rightarrow> keypair \<Rightarrow> ('n world, address) prog" where
  "deployIncrementContract provider signer =
     bind_p (console_log [OText ''Deploying Increment Contract...'']) (\<lambda>_.
     let wasmFilePath = ''contracts/increment/target/wasm32v1-none/release/soroban_increment_contract.wasm'' in
     bind_p (uploadWasm provider signer wasmFilePath) (\<lambda>uploadResponse.
     bind_p (deployContract provider signer uploadResponse) (\<lambda>contractAddress.
     bind_p (console_log [OText ''Deployed Increment Contract: '', OAddress contractAddress]) (\<lambda>_.
     ret contractAddress))))"

definition deployEventsContract :: "'n rpc_server \<Rightarrow> keypair \<Rightarrow> ('n world, address) prog" where
  "deployEventsContract provider signer =
     bind_p (console_log [OText ''Deploying Events Contract...'']) (\<lambda>_.
     let wasmFilePath = ''contracts/events/target/wasm32v1-none/release/soroban_events_contract.wasm'' in
     bind_p (uploadWasm provider signer wasmFilePath) (\<lambda>uploadResponse.
     bind_p (deployContract provider signer uploadResponse) (\<lambda>contractAddress.
     bind_p (console_log [OText ''Contract deployed successfully: '', OAddress contractAddress]) (\<lambda>_.
     ret contractAddress))))"

subsection \<open>Shared pieces of the scripts\<close>

text \<open>The banner and the two start-up lines every \<open>main\<close> prints. Between them the
  script creates the provider, \<open>new rpc.Server(STELLAR_RPC_URL)\<close>, and the key pair,
  \<open>Keypair.fromSecret(PRIVATE_KEY)\<close>, either of which may throw: \<open>startup\<close> takes their
  outcomes, which \<open>Config\<close> computes from the environment.\<close>

definition banner :: "string \<Rightarrow> ('n world, unit) prog" where
  "banner title =
     bind_p (console_log [OText ''--------------------------------'']) (\<lambda>_.
     bind_p (console_log [OText title]) (\<lambda>_.
     console_log [OText ''--------------------------------'']))"

definition startup :: "js_error + unit \<Rightarrow> js_error + keypair \<Rightarrow> ('n world, keypair) prog" where
  "startup provider keypair =
     bind_p (lift_sync provider) (\<lambda>_.
     bind_p (lift_sync keypair) (\<lambda>kp.
     bind_p (console_log [OText ''Stellar provider initialized successfully'']) (\<lambda>_.
     bind_p (console_log [OText ''User account: '', OAddress (kp_public kp)]) (\<lambda>_.
     ret kp))))"

text \<open>\<open>if (r.returnValue) console.log(`<label>${scValToNative(r.returnValue)}`)
  else console.log(`<label>null`)\<close>.\<close>

definition log_value :: "out_line \<Rightarrow> scval option \<Rightarrow> ('n world, unit) prog" where
  "log_value label v =
     (case v of
        Some rv \<Rightarrow> console_log (label @ [ONative rv])
      | None \<Rightarrow> console_log (label @ [OText ''null'']))"

text \<open>\<open>for (let i = 1; i <= 3; i++)\<close> calling \<open>increment\<close>: the loop of
  \<open>increment/index.ts\<close>, with \<open>i\<close> and the iterations left.\<close>

fun increment_loop :: "'n rpc_server \<Rightarrow> keypair \<Rightarrow> address \<Rightarrow> int \<Rightarrow> nat \<Rightarrow> ('n world, unit) prog" where
  "increment_loop provider keypair c i 0 = ret ()"
| "increment_loop provider keypair c i (Suc k) =
     bind_p (submitTransaction \<lparr>st_provider = provider, st_signer = keypair, st_contract = c,
                                st_functionName = ''increment'', st_args = []\<rparr>) (\<lambda>incrementResponse.
     bind_p (log_value [OText ''Increment call #'', ONumber i, OText '': ''] (gt_returnValue incrementResponse)) (\<lambda>_.
     increment_loop provider keypair c (i + 1) k))"

text \<open>The same loop in \<open>events/index.ts\<close>.\<close>

fun events_increment_loop :: "'n rpc_server \<Rightarrow> keypair \<Rightarrow> address \<Rightarrow> int \<Rightarrow> nat \<Rightarrow> ('n world, unit) prog" where
  "events_increment_loop provider keypair c i 0 = ret ()"
| "events_increment_loop provider keypair c i (Suc k) =
     bind_p (submitTransaction \<lparr>st_provider = provider, st_signer = keypair, st_contract = c,
                                st_functionName = ''increment'', st_args = []\<rparr>) (\<lambda>incrementResponse.
     bind_p (log_value [OText ''Increment call #'', ONumber i, OText '': ''] (gt_returnValue incrementResponse)) (\<lambda>_.
     events_increment_loop provider keypair c (i + 1) k))"

subsection \<open>\<open>increment/index.ts\<close>\<close>

definition main_increment :: "'n rpc_server \<Rightarrow> js_error + unit \<Rightarrow> js_error + keypair \<Rightarrow> ('n world, unit) prog" where
  "main_increment provider provider0 keypair0 =
     bind_p (banner ''Increment Example'') (\<lambda>_.
     bind_p (startup provider0 keypair0) (\<lambda>keypair.
     bind_p (deployIncrementContract provider keypair) (\<lambda>contractAddress.
     bind_p (console_log [OText ''Contract deployed successfully. Address: '', OAddress contractAddress]) (\<lambda>_.
     let incrementContract = contractAddress in
     bind_p (console_log [OText (nl @ ''--- Calling increment() function multiple times ---'')]) (\<lambda>_.
     bind_p (increment_loop provider keypair incrementContract 1 3) (\<lambda>_.
     bind_p (console_log [OText (nl @ ''--- Getting current value ---'')]) (\<lambda>_.
     bind_p (submitTransaction \<lparr>st_provider = provider, st_signer = keypair, st_contract = incrementContract,
                                st_functionName = ''get_count'', st_args = []\<rparr>) (\<lambda>getValueResponse.
     bind_p (log_value [OText ''Current value: ''] (gt_returnValue getValueResponse)) (\<lambda>_.
     bind_p (console_log [OText (nl @ ''--- Resetting value to 0 ---'')]) (\<lambda>_.
     bind_p (submitTransaction \<lparr>st_provider = provider, st_signer = keypair, st_contract = incrementContract,
                                st_functionName = ''reset'', st_args = []\<rparr>) (\<lambda>_.
     bind_p (console_log [OText (nl @ ''--- Verifying reset ---'')]) (\<lambda>_.
     bind_p (simulateTransaction \<lparr>sim_provider = provider, sim_signer = keypair, sim_contract = incrementContract,
                                  sim_functionName = ''get_count''\<rparr>) (\<lambda>finalValueResponse.
     log_value [OText ''Final value after reset: ''] (Some finalValueResponse))))))))))))))"

subsection \<open>\<open>hello_world/index.ts\<close>\<close>

definition main_hello_world ::
  "('n rpc_server \<Rightarrow> keypair \<Rightarrow> ('n world, address) prog) \<Rightarrow> 'n rpc_server \<Rightarrow> js_error + unit \<Rightarrow>
   js_error + keypair \<Rightarrow> ('n world, unit) prog" where
  "main_hello_world deployHelloWorldContract provider provider0 keypair0 =
     bind_p (banner ''Hello World Example'') (\<lambda>_.
     bind_p (startup provider0 keypair0) (\<lambda>keypair.
     bind_p (deployHelloWorldContract provider keypair) (\<lambda>contractAddress.
     let helloWorldContract = contractAddress in
     bind_p (submitTransaction \<lparr>st_provider = provider, st_signer = keypair, st_contract = helloWorldContract,
                                st_functionName = ''hello'', st_args = [ScvString '' World'']\<rparr>) (\<lambda>helloWorldInvocation.
     log_value [OText ''Hello World response: ''] (gt_returnValue helloWorldInvocation)))))"

subsection \<open>\<open>events/index.ts\<close>\<close>

text \<open>\<open>for (const event of eventsResponse.events)\<close>: the first topic is destructured
  (\<open>undefined\<close> for an empty topic list, on which \<open>scValToNative\<close> throws), then the
  topic and the value are printed.\<close>

fun print_events :: "event list \<Rightarrow> ('n world, unit) prog" where
  "print_events [] = ret ()"
| "print_events (event # rest) =
     (case ev_topic event of
        [] \<Rightarrow> throw (Thrown (TypeError ''Cannot read properties of undefined (reading switch)''))
      | topicSymbol # _ \<Rightarrow>
          bind_p (console_log [OText ''Topic:'', OText '' '', ONative topicSymbol]) (\<lambda>_.
          bind_p (console_log [OText ''Value:'', OText '' '', ONative (ev_value event)]) (\<lambda>_.
          print_events rest)))"

definition main_events :: "'n rpc_server \<Rightarrow> js_error + unit \<Rightarrow> js_error + keypair \<Rightarrow> ('n world, unit) prog" where
  "main_events provider provider0 keypair0 =
     bind_p (banner ''Events Example'') (\<lambda>_.
     bind_p (startup provider0 keypair0) (\<lambda>keypair.
     bind_p (deployEventsContract provider keypair) (\<lambda>contractAddress.
     let eventsContract = contractAddress in
     bind_p (console_log [OText (nl @ ''--- Calling increment() function to generate events ---'')]) (\<lambda>_.
     bind_p (events_increment_loop provider keypair eventsContract 1 3) (\<lambda>_.
     bind_p (rpc_getLatestLedger provider) (\<lambda>ledger.
     bind_p (rpc_getEvents provider (int ledger - 100) [contractAddress] 1000) (\<lambda>eventsResponse.
     print_events eventsResponse)))))))"

subsection \<open>A run of the scripts on the fake endpoint\<close>

text \<open>The fake endpoint of \<open>Fake_Net\<close> set up for a whole script: both WASM files
  exist, the upload's hash is the hex encoding of 32 bytes, every status query finds
  a successful transaction (the WASM hash, the new contract, then counter values),
  a simulation answers 0, and the contract has emitted two events.\<close>

definition demo_net :: fake_net where
  "demo_net = scenario_net
     \<lparr>fk_hashes := [hex_encode (replicate 32 170), ''h2'', ''h3'', ''h4'', ''h5'', ''h6'', ''h7''],
      fk_polls := [(SUCCESS, Some (ScvBytes (replicate 32 7))), (SUCCESS, Some (ScvAddress counter_id)),
                   (SUCCESS, Some (ScvU32 1)), (SUCCESS, Some (ScvU32 2)), (SUCCESS, Some (ScvU32 3)),
                   (SUCCESS, Some (ScvU32 3)), (SUCCESS, Some ScvVoid)],
      fk_sim := SimSuccess (Some (ScvU32 0)),
      fk_events := [\<lparr>ev_contract = counter_id, ev_topic = [ScvSymbol ''COUNTER'', ScvSymbol ''increment''],
                      ev_value = ScvU32 1\<rparr>,
                    \<lparr>ev_contract = counter_id, ev_topic = [ScvSymbol ''COUNTER'', ScvSymbol ''increment''],
                      ev_value = ScvU32 2\<rparr>]\<rparr>"

definition demo_world :: "fake_net world" where
  "demo_world = (fake_world demo_net)
     \<lparr>files := [''contracts/increment/target/wasm32v1-none/release/soroban_increment_contract.wasm'' \<mapsto> [0, 0x61, 0x73, 0x6d],
                ''contracts/events/target/wasm32v1-none/release/soroban_events_contract.wasm'' \<mapsto> [0, 0x61, 0x73, 0x6d, 1]]\<rparr>"

text \<open>The two lines \<open>print_events\<close> prints for an event whose topic list is not empty.\<close>

definition event_lines :: "event \<Rightarrow> out_line list" where
  "event_lines e = [[OText ''Topic:'', OText '' '', ONative (hd (ev_topic e))],
                    [OText ''Value:'', OText '' '', ONative (ev_value e)]]"

text \<open>The lines the increment loop prints, from call number \<open>i\<close>, for the values
  \<open>vs\<close> the calls returned.\<close>

fun increment_lines :: "int \<Rightarrow> scval list \<Rightarrow> out_line list" where
  "increment_lines i [] = []"
| "increment_lines i (v # vs) = [OText ''Increment call #'', ONumber i, OText '': '', ONative v] # increment_lines (i + 1) vs"

subsection \<open>The scripts in the trace logics\<close>

text \<open>The two copies of the increment loop are the same program.\<close>

lemma events_increment_loop_eq: "events_increment_loop provider kp c i k = increment_loop provider kp c i k"
  by (induction k arbitrary: i) simp_all

lemma writes_log_value [writes_intros]:
  "v \<noteq> None \<Longrightarrow> (\<And>rv. P (label @ [ONative rv])) \<Longrightarrow> writes stdout P (\<lambda>_. True) (log_value label v)"
  by (auto simp: log_value_def intro!: writes_console_log)

lemma writes_increment_loop [writes_intros]:
  assumes "\<And>i rv. P [OText ''Increment call #'', ONumber i, OText '': '', ONative rv]"
  shows "writes stdout P (\<lambda>_. True) (increment_loop provider kp c i k)"
proof (induction k arbitrary: i)
  case 0 then show ?case by (simp add: writes_ret)
next
  case (Suc k) then show ?case
    by (simp only: increment_loop.simps)
       (intro writes_bind [OF writes_submitTransaction] writes_bind [OF writes_log_value]; simp add: assms)
qed

lemma emits_increment_loop [emits_intros]:
  "emits calls (\<lambda>_ new. prepared_ops new = replicate k (InvokeContract c ''increment'' []) \<and> simulated_ops new = [])
     (increment_loop provider kp c i k)"
proof (induction k arbitrary: i)
  case 0 then show ?case by (simp add: emits_ret)
next
  case (Suc k) then show ?case
    unfolding increment_loop.simps log_value_def
    by (rule emits_bind [OF emits_submitTransaction emits_bind [OF emits_case_option [OF emits_console_log emits_console_log]]])
       auto
qed

lemma writes_deployIncrementContract [writes_intros]:
  assumes "\<And>h. P [OText ''Uploaded Wasm: '', OText h]"
    and "P [OText ''Deploying Increment Contract...'']" and "\<And>c. P [OText ''Deployed Increment Contract: '', OAddress c]"
  shows "writes stdout P (\<lambda>_. True) (deployIncrementContract provider kp)"
  unfolding deployIncrementContract_def Let_def
  by (intro writes_bind [OF writes_console_log] writes_bind [OF writes_uploadWasm] writes_bind [OF writes_deployContract]
       writes_ret assms)

lemma writes_banner [writes_intros]:
  assumes "P [OText ''--------------------------------'']" "P [OText title]"
  shows "writes stdout P (\<lambda>_. True) (banner title)"
  unfolding banner_def
  by (intro writes_bind [OF writes_console_log] writes_console_log assms)

lemma writes_startup [writes_intros]:
  assumes "P [OText ''Stellar provider initialized successfully'']" "\<And>a. P [OText ''User account: '', OAddress a]"
  shows "writes stdout P (\<lambda>_. True) (startup p0 kp0)"
  unfolding startup_def
  by (intro writes_bind [OF writes_lift_sync] writes_bind [OF writes_console_log] writes_ret assms) simp_all

lemma emits_log_value [emits_intros]: "emits calls (\<lambda>_ n. n = []) (log_value label v)"
  unfolding log_value_def by (intro emits_case_option emits_console_log)

lemma emits_banner [emits_intros]: "emits calls (\<lambda>_ n. n = []) (banner title)"
  unfolding banner_def
  by (rule emits_mono, (rule emits_bind_sp emits_console_log)+) auto

lemma emits_startup [emits_intros]:
  "emits calls (\<lambda>kp n. provider0 = Inr () \<and> keypair0 = Inr kp \<and> n = []) (startup provider0 keypair0)"
  unfolding startup_def
  by (rule emits_mono, (rule emits_bind_sp emits_console_log emits_lift_sync_sp emits_ret_sp)+) auto

lemma emits_deployIncrementContract [emits_intros]:
  "emits calls (\<lambda>c n. \<exists>bytecode salt wasmHash.
       prepared_ops n = [UploadContractWasm bytecode, CreateContract (kp_public kp) salt wasmHash] \<and> simulated_ops n = [])
     (deployIncrementContract provider kp)"
  unfolding deployIncrementContract_def Let_def
  by (rule emits_mono, (rule emits_bind_sp emits_console_log emits_uploadWasm emits_deployContract emits_ret_sp)+) auto

lemma writes_deployEventsContract [writes_intros]:
  assumes "\<And>h. P [OText ''Uploaded Wasm: '', OText h]"
    and "P [OText ''Deploying Events Contract...'']" and "\<And>c. P [OText ''Contract deployed successfully: '', OAddress c]"
  shows "writes stdout P (\<lambda>_. True) (deployEventsContract provider kp)"
  unfolding deployEventsContract_def Let_def
  by (intro writes_bind [OF writes_console_log] writes_bind [OF writes_uploadWasm] writes_bind [OF writes_deployContract]
       writes_ret assms)

lemma emits_deployEventsContract [emits_intros]:
  "emits calls (\<lambda>c n. \<exists>bytecode salt wasmHash.
       prepared_ops n = [UploadContractWasm bytecode, CreateContract (kp_public kp) salt wasmHash] \<and> simulated_ops n = [])
     (deployEventsContract provider kp)"
  unfolding deployEventsContract_def Let_def
  by (rule emits_mono, (rule emits_bind_sp emits_console_log emits_uploadWasm emits_deployContract emits_ret_sp)+) auto

lemma emits_print_events [emits_intros]: "emits calls (\<lambda>_ n. n = []) (print_events evs)"
proof (induction evs)
  case Nil then show ?case by (simp add: emits_ret)
next
  case (Cons e evs)
  note IH = Cons.IH
  show ?case
  proof (cases "ev_topic e")
    case Nil then show ?thesis by (simp add: emits_throw)
  next
    case (Cons t ts) then show ?thesis
      by simp (rule emits_mono, (rule emits_bind_sp emits_console_log IH)+, auto)
  qed
qed

lemma bound_increment_loop [bound_intros]: "appends_at_most calls (32 * k) (increment_loop provider kp c i k)"
proof (induction k arbitrary: i)
  case 0 then show ?case by (simp add: bound_ret)
next
  case (Suc k) show ?case
    unfolding increment_loop.simps log_value_def
    by (rule bound_mono, (rule bound_intros Suc.IH)+) simp
qed

lemma bound_print_events [bound_intros]: "appends_at_most calls 0 (print_events evs)"
proof (induction evs)
  case Nil then show ?case by (simp add: bound_ret)
next
  case (Cons e evs) show ?case
    by (simp split: list.split, intro allI conjI impI bound_throw)
       (rule bound_mono, (rule bound_intros Cons.IH)+, simp)
qed

lemma wf_drivers_pieces:
  "writes calls request_wf (\<lambda>_. True) (banner title)"
  "writes calls request_wf (\<lambda>_. True) (startup p0 kp0)"
  "writes calls request_wf (\<lambda>_. True) (log_value label v)"
  unfolding banner_def startup_def log_value_def
  by (intro writes_bind [OF writes_console_calls(1)] writes_bind [OF writes_lift_sync] writes_case_option
        writes_console_calls writes_ret; simp)+

lemma wf_increment_loop: "writes calls request_wf (\<lambda>_. True) (increment_loop provider kp c i k)"
proof (induction k arbitrary: i)
  case 0 then show ?case by (simp add: writes_ret)
next
  case (Suc k) show ?case
    unfolding increment_loop.simps
    by (intro writes_bind [OF wf_submitTransaction] writes_bind [OF wf_drivers_pieces(3)] Suc.IH)
qed

lemma wf_deployIncrementContract: "writes calls request_wf (\<lambda>_. True) (deployIncrementContract provider kp)"
  unfolding deployIncrementContract_def Let_def
  by (intro writes_bind [OF writes_console_calls(1)] writes_bind [OF wf_uploadWasm]
        writes_bind [OF wf_deployContract] writes_ret)

lemmas demo_eval =
  main_increment_def main_events_def banner_def startup_def deployIncrementContract_def deployEventsContract_def
  log_value_def uploadWasm_def deployContract_def buildAndSendTransaction_stages submitTransaction_def
  submitStellarTransaction_stages getPollingTransaction_unfold pollTransaction_def
  DEFAULT_GET_TRANSACTION_TIMEOUT_def simulateTransaction_stages demo_world_def demo_net_def prog_simps
  createCustomContract_def buffer_from_hex_encode numeral_3_eq_3 encodeContract_def built_tx_def Let_def
  BASE_FEE_def signer_kp_def fake_world_def events_increment_loop_eq

subsection \<open>Properties of the scripts\<close>

text \<open>C20. \<open>increment/index.ts\<close> never prints \<open>"Increment call #i: null"\<close>,
  \<open>"Current value: null"\<close> or \<open>"Final value after reset: null"\<close>, whatever the
  endpoint answers and however the run ends: \<open>submitTransaction\<close> only returns
  responses that carry a return value (the poller rejects the others), and
  \<open>simulateTransaction\<close> only returns a value, so the three \<open>else\<close> branches of the
  script are dead code.\<close>

theorem main_increment_never_prints_null:
  "\<exists>new. stdout (state_of (main_increment provider provider0 keypair) w) = stdout w @ new \<and>
     (\<forall>i. [OText ''Increment call #'', ONumber i, OText '': '', OText ''null''] \<notin> set new) \<and>
     [OText ''Current value: '', OText ''null''] \<notin> set new \<and>
     [OText ''Final value after reset: '', OText ''null''] \<notin> set new"
proof -
  let ?P = "\<lambda>l. (\<forall>i. l \<noteq> [OText ''Increment call #'', ONumber i, OText '': '', OText ''null'']) \<and>
                l \<noteq> [OText ''Current value: '', OText ''null''] \<and> l \<noteq> [OText ''Final value after reset: '', OText ''null'']"
  have "writes stdout ?P (\<lambda>_. True) (main_increment provider provider0 keypair)"
    unfolding main_increment_def Let_def
    by (intro writes_bind [OF writes_banner] writes_bind [OF writes_startup]
          writes_bind [OF writes_deployIncrementContract] writes_bind [OF writes_console_log]
          writes_bind [OF writes_increment_loop] writes_bind [OF writes_submitTransaction]
          writes_bind [OF writes_log_value] writes_bind [OF writes_simulateTransaction] writes_log_value) simp_all
  then obtain new where "stdout (state_of (main_increment provider provider0 keypair) w) = stdout w @ new" "list_all ?P new"
    unfolding writes_def by blast
  then show ?thesis by (auto simp: list_all_iff)
qed

text \<open>C21. A run of \<open>increment/index.ts\<close> that completes has sent, in this order,
  the upload of some contract code, the creation of a contract by the signer, three
  calls of \<open>increment\<close>, one of \<open>get_count\<close> and one of \<open>reset\<close>, all five on the
  same contract, and has simulated one call of \<open>get_count\<close> on that contract; the
  signer is the key pair built from the configured secret.\<close>

theorem main_increment_requests:
  assumes "main_increment provider provider0 keypair0 w = (Inr (), w')"
  shows "\<exists>kp bytecode salt wasmHash c new. keypair0 = Inr kp \<and> calls w' = calls w @ new \<and>
           prepared_ops new = [UploadContractWasm bytecode, CreateContract (kp_public kp) salt wasmHash,
                               InvokeContract c ''increment'' [], InvokeContract c ''increment'' [],
                               InvokeContract c ''increment'' [], InvokeContract c ''get_count'' [],
                               InvokeContract c ''reset'' []] \<and>
           simulated_ops new = [InvokeContract c ''get_count'' []]"
proof -
  have "emits calls (\<lambda>_ new. \<exists>kp bytecode salt wasmHash c. keypair0 = Inr kp \<and>
           prepared_ops new = [UploadContractWasm bytecode, CreateContract (kp_public kp) salt wasmHash,
                               InvokeContract c ''increment'' [], InvokeContract c ''increment'' [],
                               InvokeContract c ''increment'' [], InvokeContract c ''get_count'' [],
                               InvokeContract c ''reset'' []] \<and>
           simulated_ops new = [InvokeContract c ''get_count'' []]) (main_increment provider provider0 keypair0)"
    unfolding main_increment_def Let_def
    by (rule emits_mono, (rule emits_bind_sp emits_banner emits_startup emits_deployIncrementContract
          emits_console_log emits_increment_loop emits_submitTransaction emits_log_value emits_simulateTransaction)+)
       (auto simp: numeral_3_eq_3)
  with assms show ?thesis unfolding emits_def by blast
qed

theorem main_increment_requests_witness:
  "\<exists>w'. main_increment fake_server (Inr ()) (Inr signer_kp) demo_world = (Inr (), w') \<and>
     (\<exists>kp bytecode salt wasmHash c new. Inr signer_kp = (Inr kp :: js_error + keypair) \<and> calls w' = calls demo_world @ new \<and>
        prepared_ops new = [UploadContractWasm bytecode, CreateContract (kp_public kp) salt wasmHash,
                            InvokeContract c ''increment'' [], InvokeContract c ''increment'' [],
                            InvokeContract c ''increment'' [], InvokeContract c ''get_count'' [],
                            InvokeContract c ''reset'' []] \<and>
        simulated_ops new = [InvokeContract c ''get_count'' []])"
proof -
  obtain w' where run: "main_increment fake_server (Inr ()) (Inr signer_kp) demo_world = (Inr (), w')"
    by (simp add: demo_eval)
  show ?thesis using main_increment_requests [OF run] run by blast
qed

text \<open>C22. The event listing of \<open>events/index.ts\<close> prints a \<open>"Topic:"\<close> line with the
  first topic and a \<open>"Value:"\<close> line for each event, in order, and sends no
  request; at the first event with an empty topic list it stops with the
  \<open>TypeError\<close> of \<open>scValToNative(undefined)\<close>, after the lines of the events before.\<close>

theorem print_events_output:
  "print_events evs w =
     (if list_all (\<lambda>e. ev_topic e \<noteq> []) evs then Inr ()
      else Inl (Thrown (TypeError ''Cannot read properties of undefined (reading switch)'')),
      w\<lparr>stdout := stdout w @ concat (map event_lines (takeWhile (\<lambda>e. ev_topic e \<noteq> []) evs))\<rparr>)"
proof (induction evs arbitrary: w)
  case Nil then show ?case by (simp add: prog_simps)
next
  case (Cons e evs) then show ?case
    by (cases "ev_topic e") (auto simp: prog_simps event_lines_def)
qed

text \<open>C23. A run of \<open>events/index.ts\<close> that completes, on an endpoint whose latest
  ledger reads \<open>L\<close>, has uploaded and created a contract, called \<open>increment\<close> on it
  three times, and then sent exactly two more requests: the latest ledger, and the
  events of that one contract from ledger \<open>L - 100\<close> (\<open>ledger.sequence - 100\<close>,
  taken as it is: it is not clamped at the ledger's start or retention window, and
  is negative for \<open>L < 100\<close>), at most 1000 of them.\<close>

theorem main_events_requests:
  assumes "main_events provider provider0 keypair0 w = (Inr (), w')"
    and "\<And>n l n'. srv_getLatestLedger provider n = (Inr l, n') \<Longrightarrow> l = L"
  shows "\<exists>kp bytecode salt wasmHash c new. keypair0 = Inr kp \<and>
           calls w' = calls w @ new @ [GetLatestLedger, GetEvents (int L - 100) [c] 1000] \<and>
           prepared_ops new = [UploadContractWasm bytecode, CreateContract (kp_public kp) salt wasmHash,
                               InvokeContract c ''increment'' [], InvokeContract c ''increment'' [],
                               InvokeContract c ''increment'' []] \<and>
           simulated_ops new = []"
proof -
  have ledger: "emits calls (\<lambda>l new. l = L \<and> new = [GetLatestLedger]) (rpc_getLatestLedger provider)"
    unfolding rpc_getLatestLedger_def by (rule emits_rpc_answer) (erule assms(2))
  have "emits calls (\<lambda>_ n. \<exists>kp bytecode salt wasmHash c new. keypair0 = Inr kp \<and>
           n = new @ [GetLatestLedger, GetEvents (int L - 100) [c] 1000] \<and>
           prepared_ops new = [UploadContractWasm bytecode, CreateContract (kp_public kp) salt wasmHash,
                               InvokeContract c ''increment'' [], InvokeContract c ''increment'' [],
                               InvokeContract c ''increment'' []] \<and>
           simulated_ops new = []) (main_events provider provider0 keypair0)"
    unfolding main_events_def Let_def events_increment_loop_eq rpc_getEvents_def
    apply (rule emits_mono, (rule emits_bind_sp emits_banner emits_startup emits_deployEventsContract
          emits_console_log emits_increment_loop ledger emits_rpc emits_print_events)+)
    apply (elim exE conjE)
    subgoal for x new xa n1 n2 kp n1a n2a c n1b n2b bytecode xd salt n1c wasmHash n2c xe n1d n2d l n1e n2e xg n1f n2f
      by (rule exI [of _ kp], rule exI [of _ bytecode], rule exI [of _ salt], rule exI [of _ wasmHash],
          rule exI [of _ c], rule exI [of _ "n1b @ n1d"]) (simp add: numeral_3_eq_3)
    done
  with assms(1) show ?thesis unfolding emits_def by blast
qed

theorem main_events_requests_witness:
  "\<exists>w'. main_events (fake_server\<lparr>srv_getLatestLedger := \<lambda>n. (Inr 50, n)\<rparr>) (Inr ()) (Inr signer_kp) demo_world = (Inr (), w') \<and>
     (\<exists>kp bytecode salt wasmHash c new. Inr signer_kp = (Inr kp :: js_error + keypair) \<and>
        calls w' = calls demo_world @ new @ [GetLatestLedger, GetEvents (int 50 - 100) [c] 1000] \<and>
        prepared_ops new = [UploadContractWasm bytecode, CreateContract (kp_public kp) salt wasmHash,
                            InvokeContract c ''increment'' [], InvokeContract c ''increment'' [],
                            InvokeContract c ''increment'' []] \<and>
        simulated_ops new = [])"
proof -
  obtain w' where run: "main_events (fake_server\<lparr>srv_getLatestLedger := \<lambda>n. (Inr 50, n)\<rparr>) (Inr ()) (Inr signer_kp) demo_world = (Inr (), w')"
    by (simp add: demo_eval)
  have "\<exists>kp bytecode salt wasmHash c new. Inr signer_kp = (Inr kp :: js_error + keypair) \<and>
        calls w' = calls demo_world @ new @ [GetLatestLedger, GetEvents (int 50 - 100) [c] 1000] \<and>
        prepared_ops new = [UploadContractWasm bytecode, CreateContract (kp_public kp) salt wasmHash,
                            InvokeContract c ''increment'' [], InvokeContract c ''increment'' [],
                            InvokeContract c ''increment'' []] \<and>
        simulated_ops new = []"
    by (rule main_events_requests [OF run]) simp
  with run show ?thesis by blast
qed

text \<open>C24. With a malformed \<open>STELLAR_PRIVATE_KEY\<close> (\<open>Keypair.fromSecret\<close> throws),
  \<open>increment/index.ts\<close> prints only the banner, sends no request, and the process
  ends with exit code 1 and the error on standard error: the rejection of
  \<open>main()\<close> is not handled.\<close>

theorem main_increment_bad_key:
  "node_main (main_increment provider (Inr ()) (Inl e)) w =
     (Inl (Exit 1), w\<lparr>stdout := stdout w @ [[OText ''--------------------------------''], [OText ''Increment Example''],
                                            [OText ''--------------------------------'']],
                      stderr := stderr w @ [[OText (js_error_to_string e)]]\<rparr>)"
  by (simp add: node_main_def main_increment_def banner_def startup_def prog_simps)

text \<open>C25. Whatever the endpoint answers and however the run ends,
  \<open>increment/index.ts\<close> sends at most 226 requests: 32 for each of its seven
  submissions (account read, preparation, submission and at most 29 status queries
  of the SDK poller) and 2 for the final simulation. The bound is reached when every
  transaction is confirmed on the last status query.\<close>

theorem main_increment_request_bound:
  "length (calls (state_of (main_increment provider provider0 keypair) w)) \<le> length (calls w) + 226"
proof -
  have "appends_at_most calls 226 (main_increment provider provider0 keypair)"
    unfolding main_increment_def banner_def startup_def deployIncrementContract_def log_value_def Let_def
    by (rule bound_mono, (rule bound_intros)+) simp
  then obtain new where "calls (state_of (main_increment provider provider0 keypair) w) = calls w @ new" "length new \<le> 226"
    unfolding appends_at_most_def by blast
  then show ?thesis by simp
qed

text \<open>C26. Whatever the endpoint answers, \<open>events/index.ts\<close> sends at most 162
  requests: 32 for each of its five submissions, the latest-ledger query and the
  events query; printing the events sends none.\<close>

theorem main_events_request_bound:
  "length (calls (state_of (main_events provider provider0 keypair) w)) \<le> length (calls w) + 162"
proof -
  have "appends_at_most calls 162 (main_events provider provider0 keypair)"
    unfolding main_events_def banner_def startup_def deployEventsContract_def Let_def events_increment_loop_eq rpc_ops_defs
    by (rule bound_mono, (rule bound_intros)+) simp
  then obtain new where "calls (state_of (main_events provider provider0 keypair) w) = calls w @ new" "length new \<le> 162"
    unfolding appends_at_most_def by blast
  then show ?thesis by simp
qed
text \<open>C28. Whatever the endpoint answers and however the run ends, every transaction
  \<open>increment/index.ts\<close> sends for preparation or simulation is well formed as the
  spec's Transaction Builder promises: one operation, the base fee, the test
  network, the 30-second timeout, and no signature.\<close>

theorem main_increment_requests_well_formed:
  "\<exists>new. calls (state_of (main_increment provider provider0 keypair) w) = calls w @ new \<and> list_all request_wf new"
proof -
  have "writes calls request_wf (\<lambda>_. True) (main_increment provider provider0 keypair)"
    unfolding main_increment_def Let_def
    by (intro writes_bind [OF wf_drivers_pieces(1)] writes_bind [OF wf_drivers_pieces(2)]
          writes_bind [OF wf_deployIncrementContract] writes_bind [OF writes_console_calls(1)]
          writes_bind [OF wf_increment_loop] writes_bind [OF wf_submitTransaction]
          writes_bind [OF wf_drivers_pieces(3)] writes_bind [OF wf_simulateTransaction] wf_drivers_pieces(3))
  then show ?thesis unfolding writes_def by blast
qed

text \<open>C30. \<open>hello_world/index.ts\<close> against the contract of the deploy function it
  imports (absent from the repository): for any \<open>deployHelloWorldContract\<close> whose
  successful runs append requests satisfying \<open>D\<close>, a completed run of the script has
  sent that function's requests for the configured key pair, then exactly one
  preparation, of the call \<open>hello(" World")\<close> on the address the function returned,
  and no simulation. The witness plugs in \<open>deployIncrementContract\<close>.\<close>

theorem main_hello_world_calls_hello:
  assumes d: "\<And>kp. emits calls (D kp) (deployHelloWorldContract provider kp)"
    and run: "main_hello_world deployHelloWorldContract provider provider0 keypair0 w = (Inr (), w')"
  shows "\<exists>kp c n1 n2. keypair0 = Inr kp \<and> calls w' = calls w @ n1 @ n2 \<and> D kp c n1 \<and>
           prepared_ops n2 = [InvokeContract c ''hello'' [ScvString '' World'']] \<and> simulated_ops n2 = []"
proof -
  have "emits calls (\<lambda>_ n. \<exists>kp c n1 n2. keypair0 = Inr kp \<and> n = n1 @ n2 \<and> D kp c n1 \<and>
           prepared_ops n2 = [InvokeContract c ''hello'' [ScvString '' World'']] \<and> simulated_ops n2 = [])
          (main_hello_world deployHelloWorldContract provider provider0 keypair0)"
    unfolding main_hello_world_def Let_def
    by (rule emits_mono, (rule emits_bind_sp emits_banner emits_startup d emits_submitTransaction emits_log_value)+)
       fastforce
  with run show ?thesis unfolding emits_def by blast
qed

theorem main_hello_world_calls_hello_witness:
  "\<exists>w'. main_hello_world deployIncrementContract fake_server (Inr ()) (Inr signer_kp) demo_world = (Inr (), w') \<and>
     (\<exists>kp c n1 n2. (Inr signer_kp :: js_error + keypair) = Inr kp \<and> calls w' = calls demo_world @ n1 @ n2 \<and>
        (\<exists>bytecode salt wasmHash. prepared_ops n1 = [UploadContractWasm bytecode, CreateContract (kp_public kp) salt wasmHash] \<and>
           simulated_ops n1 = []) \<and>
        prepared_ops n2 = [InvokeContract c ''hello'' [ScvString '' World'']] \<and> simulated_ops n2 = [])"
proof -
  obtain w' where run: "main_hello_world deployIncrementContract fake_server (Inr ()) (Inr signer_kp) demo_world = (Inr (), w')"
    by (simp add: demo_eval main_hello_world_def)
  show ?thesis
    using main_hello_world_calls_hello [OF emits_deployIncrementContract run] run by blast
qed

end
