(* ===== verification/StrKey.thy ===== *)
theory StrKey
  imports Stellar
begin

text \<open>
  The StrKey text form of keys (the SDK's \<open>StrKey\<close> module, modelled from its source
  and documentation, outside \<open>src/\<close>): a version byte, the payload and a CRC-16/XMODEM
  checksum (little-endian), written in RFC 4648 base32 without padding. Base32 is
  modelled on digit lists: bytes become 8 binary digits, groups of 5 digits
  (zero-padded at the end) become characters, and decoding keeps the whole bytes.
  The checksum is computed as the SDK does, from a table, and shown equal to the
  bitwise CRC. \<open>decodeCheck\<close> rejects a string that is not the canonical encoding of what it decodes
  to, a wrong version byte and a wrong checksum, with the SDK's messages; characters
  outside the alphabet are rejected with the message of the canonical check.
  \<open>Keypair.fromSecret\<close> decodes a secret seed; deriving the ed25519 public key from
  the seed is cryptography and is a parameter \<open>generate\<close>. The lemmas prove the
  base32 and StrKey roundtrips in both directions.
\<close>

unbundle bit_operations_syntax

subsection \<open>Digits, chunks, decimal\<close>

fun from_digits :: "nat \<Rightarrow> nat list \<Rightarrow> nat" where
  "from_digits b ds = foldl (\<lambda>a d. a * b + d) 0 ds"

fun to_digits :: "nat \<Rightarrow> nat \<Rightarrow> nat \<Rightarrow> nat list" where
  "to_digits b 0 n = []"
| "to_digits b (Suc k) n = to_digits b k (n div b) @ [n mod b]"

fun chunks :: "nat \<Rightarrow> 'a list \<Rightarrow> 'a list list" where
  "chunks k xs = (if k = 0 \<or> xs = [] then [] else take k xs # chunks k (drop k xs))"

fun decimal :: "nat \<Rightarrow> string" where
  "decimal n = (if n < 10 then [''0123456789'' ! n] else decimal (n div 10) @ [''0123456789'' ! (n mod 10)])"

subsection \<open>Base32\<close>

definition b32_char :: "nat \<Rightarrow> char" where
  "b32_char i = char_of (if i < 26 then 65 + i else 24 + i)"

definition b32_value :: "char \<Rightarrow> nat option" where
  "b32_value c =
     (let n = of_char c :: nat in
      if 65 \<le> n \<and> n \<le> 90 then Some (n - 65)
      else if 50 \<le> n \<and> n \<le> 55 then Some (n - 24)
      else None)"

definition byte_bits :: "byte \<Rightarrow> nat list" where
  "byte_bits x = to_digits 2 8 (unat x)"

definition base32_encode :: "bytes \<Rightarrow> string" where
  "base32_encode bs =
     map (\<lambda>c. b32_char (from_digits 2 (c @ replicate (5 - length c) 0))) (chunks 5 (concat (map byte_bits bs)))"

definition base32_decode :: "string \<Rightarrow> bytes option" where
  "base32_decode s =
     (if list_all (\<lambda>c. b32_value c \<noteq> None) s then
        Some (let bits = concat (map (\<lambda>c. to_digits 2 5 (the (b32_value c))) s)
              in map (\<lambda>g. of_nat (from_digits 2 g)) (chunks 8 (take (8 * (length bits div 8)) bits)))
      else None)"

subsection \<open>The checksum\<close>

definition crc_shift :: "16 word \<Rightarrow> 16 word" where
  "crc_shift c = (if bit c 15 then push_bit 1 c XOR 0x1021 else push_bit 1 c)"

definition crc_byte :: "16 word \<Rightarrow> byte \<Rightarrow> 16 word" where
  "crc_byte crc b = (crc_shift ^^ 8) (crc XOR push_bit 8 (ucast b))"

definition crc16 :: "bytes \<Rightarrow> 16 word" where
  "crc16 payload = foldl crc_byte 0 payload"

text \<open>The SDK computes the checksum from a table of 256 entries, the CRC of each
  byte value (its literal \<open>crcTable\<close> holds these values), one byte per step:
  \<^verbatim>\<open>
  const lookupIndex = (crc16 >> 8) ^ byte;
  crc16 = (crc16 << 8) ^ crcTable[lookupIndex];
  crc16 &= 0xffff;
  \<close>
  The register is a JavaScript number, an \<open>int\<close> here; an index outside the table
  would read \<open>undefined\<close>, which \<open>^\<close> treats as 0. The lemmas below show that the index
  is always inside the table and that this loop computes \<open>crc16\<close>.\<close>

definition crcTable :: "int list" where
  "crcTable = map (\<lambda>i. uint (crc_byte 0 (word_of_nat i))) [0..<256]"

definition crc_step :: "int \<Rightarrow> byte \<Rightarrow> int" where
  "crc_step crc byte =
     (let lookupIndex = drop_bit 8 crc XOR uint byte;
          entry = (if 0 \<le> lookupIndex \<and> lookupIndex < int (length crcTable) then crcTable ! nat lookupIndex else 0)
      in (push_bit 8 crc XOR entry) AND 0xFFFF)"

definition calculateChecksum :: "bytes \<Rightarrow> bytes" where
  "calculateChecksum payload =
     (let crc = foldl crc_step 0 payload
      in [word_of_int (crc AND 0xFF), word_of_int (drop_bit 8 crc AND 0xFF)])"

definition verifyChecksum :: "bytes \<Rightarrow> bytes \<Rightarrow> bool" where
  "verifyChecksum expected actual = (expected = actual)"

subsection \<open>Version bytes, \<open>encodeCheck\<close> and \<open>decodeCheck\<close>\<close>

datatype version_name = Ed25519PublicKey | Ed25519SecretSeed | Contract

fun versionBytes :: "version_name \<Rightarrow> nat" where
  "versionBytes Ed25519PublicKey = 48"
| "versionBytes Ed25519SecretSeed = 144"
| "versionBytes Contract = 16"

definition encodeCheck :: "version_name \<Rightarrow> bytes \<Rightarrow> string" where
  "encodeCheck versionByteName data =
     (let versionByte = of_nat (versionBytes versionByteName);
          payload = versionByte # data;
          checksum = calculateChecksum payload
      in base32_encode (payload @ checksum))"

definition decodeCheck :: "version_name \<Rightarrow> string \<Rightarrow> js_error + bytes" where
  "decodeCheck versionByteName encoded =
     (case base32_decode encoded of
        None \<Rightarrow> Inl (Error ''invalid encoded string'')
      | Some decoded \<Rightarrow>
          (let versionByte = (case decoded of [] \<Rightarrow> None | v # _ \<Rightarrow> Some v);
               payload = take (length decoded - 2) decoded;
               data = drop 1 payload;
               checksum = drop (length decoded - 2) decoded;
               expectedVersion = versionBytes versionByteName
           in if encoded \<noteq> base32_encode decoded then Inl (Error ''invalid encoded string'')
              else if versionByte \<noteq> Some (of_nat expectedVersion) then
                Inl (Error (''invalid version byte. expected '' @ decimal expectedVersion @ '', got '' @
                            (case versionByte of None \<Rightarrow> ''undefined'' | Some v \<Rightarrow> decimal (unat v))))
              else if \<not> verifyChecksum (calculateChecksum payload) checksum then Inl (Error ''invalid checksum'')
              else Inr data))"

subsection \<open>\<open>Keypair.fromSecret\<close>\<close>

definition Keypair_fromRawEd25519Seed :: "(bytes \<Rightarrow> bytes) \<Rightarrow> bytes \<Rightarrow> js_error + keypair" where
  "Keypair_fromRawEd25519Seed generate rawSeed =
     (if length rawSeed \<noteq> 32 then Inl (Error ''secretKey length is invalid'')
      else Inr \<lparr>kp_public = AccountAddress (generate rawSeed),
                kp_secret = Some (encodeCheck Ed25519SecretSeed rawSeed)\<rparr>)"

definition Keypair_fromSecret :: "(bytes \<Rightarrow> bytes) \<Rightarrow> string \<Rightarrow> js_error + keypair" where
  "Keypair_fromSecret generate secret =
     (case decodeCheck Ed25519SecretSeed secret of
        Inl e \<Rightarrow> Inl e
      | Inr rawSecret \<Rightarrow> Keypair_fromRawEd25519Seed generate rawSecret)"

declare from_digits.simps [simp del] chunks.simps [simp del] decimal.simps [simp del]

subsection \<open>Digits and chunks\<close>

lemma from_digits_snoc [simp]: "from_digits b (xs @ [d]) = from_digits b xs * b + d"
  by (simp add: from_digits.simps)

lemma from_digits_Nil [simp]: "from_digits b [] = 0"
  by (simp add: from_digits.simps)

lemma length_to_digits [simp]: "length (to_digits b k n) = k"
  by (induction k arbitrary: n) simp_all

lemma to_digits_less: "0 < b \<Longrightarrow> d \<in> set (to_digits b k n) \<Longrightarrow> d < b"
  by (induction k arbitrary: n) auto

lemma from_to_digits: "0 < b \<Longrightarrow> from_digits b (to_digits b k n) = n mod b ^ k"
proof (induction k arbitrary: n)
  case 0 then show ?case by simp
next
  case (Suc k)
  then show ?case by (simp add: mod_mult2_eq ac_simps)
qed

lemma to_from_digits: "(\<And>d. d \<in> set ds \<Longrightarrow> d < b) \<Longrightarrow> to_digits b (length ds) (from_digits b ds) = ds"
proof (induction ds rule: rev_induct)
  case Nil then show ?case by simp
next
  case (snoc d ds)
  then have "d < b" by simp
  then have "(from_digits b ds * b + d) div b = from_digits b ds" "(from_digits b ds * b + d) mod b = d"
    by simp_all
  then show ?case using snoc by simp
qed

lemma chunks_nonempty: "0 < k \<Longrightarrow> xs \<noteq> [] \<Longrightarrow> chunks k xs = take k xs # chunks k (drop k xs)"
  by (simp add: chunks.simps)

lemma chunks_Nil [simp]: "chunks k [] = []"
  by (simp add: chunks.simps)

lemma chunks_concat:
  assumes "0 < k" and "\<And>xs. xs \<in> set xss \<Longrightarrow> length xs = k"
  shows "chunks k (concat xss) = xss"
  using assms(2)
proof (induction xss)
  case Nil then show ?case by simp
next
  case (Cons xs xss)
  then have "length xs = k" by simp
  with assms(1) have "xs \<noteq> []" by auto
  with assms(1) Cons \<open>length xs = k\<close> show ?case by (simp add: chunks_nonempty)
qed

lemma concat_chunks_padded:
  "0 < k \<Longrightarrow> concat (map (\<lambda>c. c @ replicate (k - length c) z) (chunks k xs)) =
     xs @ replicate ((k - length xs mod k) mod k) z"
proof (induction k xs rule: chunks.induct)
  case (1 k xs)
  show ?case
  proof (cases "xs = []")
    case True then show ?thesis by simp
  next
    case False
    show ?thesis
    proof (cases "length xs \<le> k")
      case True
      with False 1 show ?thesis
        by (auto simp: chunks_nonempty le_less)
    next
      case le: False
      then have "length (drop k xs) mod k = length xs mod k" using \<open>0 < k\<close>
        by (simp add: le_mod_geq)
      with 1 False le show ?thesis
        by (simp add: chunks_nonempty)
    qed
  qed
qed

lemma from_digits_less: "(\<And>d. d \<in> set ds \<Longrightarrow> d < b) \<Longrightarrow> from_digits b ds < b ^ length ds"
proof (induction ds rule: rev_induct)
  case Nil then show ?case by simp
next
  case (snoc d ds)
  then have lt: "from_digits b ds < b ^ length ds" and d: "d < b" by simp_all
  have "from_digits b ds * b + d < (from_digits b ds + 1) * b" using d by simp
  also have "\<dots> \<le> b ^ length ds * b" using lt by (intro mult_le_mono1) simp
  finally show ?case by (simp add: ac_simps)
qed

lemma chunks_length: "c \<in> set (chunks k xs) \<Longrightarrow> c \<noteq> [] \<and> length c \<le> k \<and> set c \<subseteq> set xs"
proof (induction k xs rule: chunks.induct)
  case (1 k xs)
  show ?case
  proof (cases "k = 0 \<or> xs = []")
    case True with 1 show ?thesis by (simp add: chunks.simps [of k xs])
  next
    case False
    with 1 have "c = take k xs \<or> c \<in> set (chunks k (drop k xs))" by (simp add: chunks.simps [of k xs])
    then show ?thesis
    proof
      assume "c = take k xs" with False show ?thesis by (auto dest: in_set_takeD)
    next
      assume "c \<in> set (chunks k (drop k xs))"
      with 1 False show ?thesis by (auto dest: in_set_dropD)
    qed
  qed
qed

subsection \<open>Base32 roundtrip\<close>

lemma b32_value_char [simp]: "i < 32 \<Longrightarrow> b32_value (b32_char i) = Some i"
  by (auto simp: b32_value_def b32_char_def Let_def)

lemma byte_bits_digits: "d \<in> set (byte_bits x) \<Longrightarrow> d < 2"
  unfolding byte_bits_def by (rule to_digits_less) simp_all

lemma byte_of_bits [simp]: "(of_nat (from_digits 2 (byte_bits x)) :: byte) = x"
proof -
  have "unat x < 2 ^ 8" using unsigned_less [of x, where ?'a = nat] by simp
  then show ?thesis by (simp add: byte_bits_def from_to_digits)
qed

lemma base32_roundtrip: "base32_decode (base32_encode bs) = Some bs"
proof -
  let ?B = "concat (map byte_bits bs)"
  let ?pad = "\<lambda>c :: nat list. c @ replicate (5 - length c) 0"
  let ?C = "chunks 5 ?B"
  have dig: "\<And>d. d \<in> set ?B \<Longrightarrow> d < 2" using byte_bits_digits by auto
  have padlen: "\<And>c. c \<in> set ?C \<Longrightarrow> length (?pad c) = 5"
    using chunks_length by fastforce
  have paddig: "d < 2" if c: "c \<in> set ?C" and d: "d \<in> set (?pad c)" for c d
  proof -
    from d have "d \<in> set c \<or> d = 0" by (auto simp: set_replicate_conv_if split: if_splits)
    moreover have "set c \<subseteq> set ?B" by (rule conjunct2 [OF conjunct2 [OF chunks_length [OF c]]])
    ultimately show "d < 2" using dig by (elim disjE) (blast, simp)
  qed
  have val: "from_digits 2 (?pad c) < 32" if c: "c \<in> set ?C" for c
    using from_digits_less [of "?pad c" 2] paddig [OF c] padlen [OF c] by simp
  have unpad: "to_digits 2 5 (from_digits 2 (?pad c)) = ?pad c" if c: "c \<in> set ?C" for c
    using to_from_digits [of "?pad c" 2] paddig [OF c] padlen [OF c] by simp
  have valid: "list_all (\<lambda>c. b32_value c \<noteq> None) (base32_encode bs)"
    by (auto simp: base32_encode_def list_all_iff val)
  have bits: "concat (map (\<lambda>c. to_digits 2 5 (the (b32_value c))) (base32_encode bs)) =
                ?B @ replicate ((5 - length ?B mod 5) mod 5) 0"
  proof -
    have "concat (map (\<lambda>c. to_digits 2 5 (the (b32_value c))) (base32_encode bs)) = concat (map ?pad ?C)"
      unfolding base32_encode_def by (simp add: comp_def val unpad cong: map_cong)
    also have "\<dots> = ?B @ replicate ((5 - length ?B mod 5) mod 5) 0"
      by (rule concat_chunks_padded) simp
    finally show ?thesis .
  qed
  have lenB: "length ?B = 8 * length bs"
    by (induction bs) (simp_all add: byte_bits_def)
  have "((5 - length ?B mod 5) mod 5) < 8" by simp
  then have cut: "8 * (length (?B @ replicate ((5 - length ?B mod 5) mod 5) 0) div 8) = length ?B"
    using lenB by simp
  have full: "take (8 * (length (?B @ replicate ((5 - length ?B mod 5) mod 5) 0) div 8))
                (?B @ replicate ((5 - length ?B mod 5) mod 5) 0) = ?B"
    by (simp only: cut) simp
  have ch: "chunks 8 ?B = map byte_bits bs"
    by (rule chunks_concat) (auto simp: byte_bits_def)
  show ?thesis
    unfolding base32_decode_def Let_def bits full ch using valid by (simp add: comp_def)
qed

subsection \<open>StrKey and key pairs\<close>

lemma length_calculateChecksum [simp]: "length (calculateChecksum p) = 2"
  by (simp add: calculateChecksum_def Let_def)

lemma calculateChecksum_Nil: "calculateChecksum [] = [0, 0]"
  by (simp add: calculateChecksum_def crc16_def)

lemma versionByte_nonzero: "(of_nat (versionBytes vn) :: byte) \<noteq> 0"
  by (cases vn) simp_all

lemma decodeCheck_encodeCheck: "decodeCheck vn (encodeCheck vn data) = Inr data"
  by (simp add: decodeCheck_def encodeCheck_def base32_roundtrip Let_def verifyChecksum_def)

lemma encodeCheck_decodeCheck:
  assumes "decodeCheck vn s = Inr data"
  shows "encodeCheck vn data = s"
proof -
  obtain decoded where dec: "base32_decode s = Some decoded"
    using assms by (cases "base32_decode s") (simp_all add: decodeCheck_def)
  let ?P = "take (length decoded - 2) decoded"
  let ?v = "of_nat (versionBytes vn) :: byte"
  have canon: "s = base32_encode decoded"
    and ver: "(case decoded of [] \<Rightarrow> None | v # _ \<Rightarrow> Some v) = Some ?v"
    and cs: "calculateChecksum ?P = drop (length decoded - 2) decoded"
    and dat: "data = drop 1 ?P"
    using assms dec by (auto simp: decodeCheck_def Let_def verifyChecksum_def split: if_splits)
  have "length (drop (length decoded - 2) decoded) = 2" using cs [symmetric] by simp
  then have split: "decoded = ?P @ calculateChecksum ?P" using cs by (metis append_take_drop_id)
  have "?P \<noteq> []"
  proof
    assume P: "?P = []"
    have "decoded = [] @ calculateChecksum []" using split unfolding P .
    then have "decoded = [0, 0]" by (simp add: calculateChecksum_Nil)
    with ver versionByte_nonzero show False by simp
  qed
  moreover have "hd ?P = ?v" using ver \<open>?P \<noteq> []\<close> by (cases decoded) auto
  ultimately have "?P = ?v # data" using dat by (cases ?P) auto
  then show ?thesis using canon split by (simp add: encodeCheck_def Let_def)
qed

lemma Keypair_fromSecret_encodeCheck:
  assumes "length seed = 32"
  shows "Keypair_fromSecret generate (encodeCheck Ed25519SecretSeed seed) =
           Inr \<lparr>kp_public = AccountAddress (generate seed), kp_secret = Some (encodeCheck Ed25519SecretSeed seed)\<rparr>"
  using assms by (simp add: Keypair_fromSecret_def decodeCheck_encodeCheck Keypair_fromRawEd25519Seed_def)

text \<open>\<open>Keypair.fromSecret\<close> accepts only the canonical encoding of a seed: the key
  pair it returns has exactly the given string as its \<open>secret()\<close>.\<close>

lemma Keypair_fromSecret_secret:
  assumes "Keypair_fromSecret generate s = Inr kp"
  shows "kp_secret kp = Some s"
proof -
  obtain raw where raw: "decodeCheck Ed25519SecretSeed s = Inr raw"
    using assms by (cases "decodeCheck Ed25519SecretSeed s") (simp_all add: Keypair_fromSecret_def)
  with assms have kp: "kp = \<lparr>kp_public = AccountAddress (generate raw), kp_secret = Some (encodeCheck Ed25519SecretSeed raw)\<rparr>"
    by (simp add: Keypair_fromSecret_def Keypair_fromRawEd25519Seed_def split: if_splits)
  show ?thesis using encodeCheck_decodeCheck [OF raw] kp by simp
qed

lemma Keypair_fromSecret_rejects_public_key:
  "Keypair_fromSecret generate (encodeCheck Ed25519PublicKey d) = Inl (Error ''invalid version byte. expected 144, got 48'')"
  by (simp add: Keypair_fromSecret_def decodeCheck_def encodeCheck_def base32_roundtrip Let_def decimal.simps)

text \<open>A seed whose checksum bytes do not match is rejected by the checksum test,
  after the canonicity and version checks have passed.\<close>

lemma Keypair_fromSecret_bad_checksum:
  assumes "length cs = 2" and "cs \<noteq> calculateChecksum (144 # seed)"
  shows "Keypair_fromSecret generate (base32_encode (144 # seed @ cs)) = Inl (Error ''invalid checksum'')"
  using assms by (simp add: Keypair_fromSecret_def decodeCheck_def base32_roundtrip Let_def verifyChecksum_def)

lemma calculateChecksum_not_Nil: "calculateChecksum p \<noteq> []"
  by (simp add: calculateChecksum_def Let_def)

lemma map_xor_one_neq: "xs \<noteq> [] \<Longrightarrow> map (\<lambda>b. b XOR 1) xs \<noteq> (xs :: bytes)"
proof (cases xs)
  case (Cons b bs)
  have "b XOR 1 \<noteq> b"
  proof
    assume "b XOR 1 = b"
    then have "bit (b XOR 1) 0 = bit b 0" by simp
    then show False by (simp add: bit_simps)
  qed
  with Cons show ?thesis by simp
qed simp

lemma Keypair_fromSecret_empty:
  "Keypair_fromSecret generate '''' = Inl (Error ''invalid version byte. expected 144, got undefined'')"
  by (simp add: Keypair_fromSecret_def decodeCheck_def base32_decode_def base32_encode_def decimal.simps)

subsection \<open>The table-driven checksum\<close>

lemma funpow_8: "(f ^^ 8) x = f (f (f (f (f (f (f (f x)))))))"
  by (simp add: numeral_eq_Suc)

lemma crc_shift_xor: "crc_shift (x XOR y) = crc_shift x XOR crc_shift y"
  unfolding crc_shift_def
  by (rule bit_word_eqI) (auto simp: bit_simps)

lemma funpow_crc_shift_xor: "(crc_shift ^^ n) (x XOR y) = (crc_shift ^^ n) x XOR (crc_shift ^^ n) y"
  by (induction n) (simp_all add: crc_shift_xor)

lemma funpow_crc_shift_0 [simp]: "(crc_shift ^^ n) 0 = 0"
  by (induction n) (simp_all add: crc_shift_def)

lemma crc_shift_low:
  assumes "k \<le> 8"
  shows "(crc_shift ^^ k) (take_bit 8 v) = push_bit k (take_bit 8 v)"
  using assms
proof (induction k)
  case 0 then show ?case by simp
next
  case (Suc k)
  have "\<not> bit (push_bit k (take_bit 8 v)) 15"
    using Suc.prems by (auto simp: bit_simps)
  then show ?case using Suc by (simp add: crc_shift_def push_bit_push_bit)
qed

lemma crc_byte_table:
  "crc_byte c b = push_bit 8 c XOR crc_byte 0 (ucast (drop_bit 8 c) XOR b)"
proof -
  let ?lo = "take_bit 8 c" and ?hi = "push_bit 8 (ucast (ucast (drop_bit 8 c) XOR b) :: 16 word)"
  have split: "c XOR push_bit 8 (ucast b) = ?lo XOR ?hi"
    by (rule bit_word_eqI) (auto simp: bit_simps)
  have lo: "(crc_shift ^^ 8) ?lo = push_bit 8 c"
  proof -
    have "(crc_shift ^^ 8) ?lo = push_bit 8 ?lo" by (simp add: crc_shift_low)
    also have "\<dots> = push_bit 8 c" by (rule bit_word_eqI) (auto simp: bit_simps)
    finally show ?thesis .
  qed
  show ?thesis
    unfolding crc_byte_def split funpow_crc_shift_xor lo by simp
qed

lemma crcTable_nth: "i < 256 \<Longrightarrow> crcTable ! i = uint (crc_byte 0 (word_of_nat i))"
  by (simp add: crcTable_def del: upt_rec_numeral)

lemma length_crcTable [simp]: "length crcTable = 256"
  by (simp add: crcTable_def del: upt_rec_numeral)

lemma crcTable_entries: "crcTable ! 1 = 0x1021" "crcTable ! 128 = 0x9188" "crcTable ! 255 = 0x1EF0"
  by (simp_all add: crcTable_nth crc_byte_def crc_shift_def funpow_8)

lemma int_and_0xFFFF: "(x::int) AND 0xFFFF = take_bit 16 x"
  by (simp add: take_bit_eq_mask mask_eq_exp_minus_1)

lemma int_and_0xFF: "(x::int) AND 0xFF = take_bit 8 x"
  by (simp add: take_bit_eq_mask mask_eq_exp_minus_1)

lemma crc_lookup_index: "drop_bit 8 (uint c) XOR uint b = uint (ucast (drop_bit 8 c) XOR b :: byte)"
  for c :: "16 word"
  by (rule bit_eqI) (auto simp: bit_simps dest: bit_imp_le_length)

text \<open>One step of the table loop is one byte of the bitwise CRC.\<close>

lemma crc_step_crc_byte: "crc_step (uint c) b = uint (crc_byte c b)"
proof -
  let ?i = "ucast (drop_bit 8 c) XOR b :: byte"
  have idx: "0 \<le> uint ?i" "uint ?i < 256" "nat (uint ?i) = unat ?i"
    using uint_lt2p [of ?i] by simp_all
  have entry: "crcTable ! unat ?i = uint (crc_byte 0 ?i)"
    using unsigned_less [of ?i, where ?'a = nat] by (simp add: crcTable_nth)
  have "crc_step (uint c) b = take_bit 16 (push_bit 8 (uint c) XOR uint (crc_byte 0 ?i))"
    using idx entry by (simp add: crc_step_def crc_lookup_index int_and_0xFFFF Let_def)
  also have "\<dots> = uint (push_bit 8 c XOR crc_byte 0 ?i)"
    by (rule bit_eqI) (auto simp: bit_simps dest: bit_imp_le_length)
  finally show ?thesis by (simp add: crc_byte_table [of c b])
qed

lemma foldl_crc_step: "foldl crc_step (uint c) bs = uint (foldl crc_byte c bs)"
  by (induction bs arbitrary: c) (simp_all add: crc_step_crc_byte)

lemma byte_of_crc_low: "(word_of_int (uint x AND 0xFF) :: byte) = ucast x" for x :: "16 word"
  by (rule bit_word_eqI) (auto simp: int_and_0xFF bit_simps)

lemma byte_of_crc_high: "(word_of_int (drop_bit 8 (uint x) AND 0xFF) :: byte) = ucast (drop_bit 8 x)" for x :: "16 word"
  by (rule bit_word_eqI) (auto simp: int_and_0xFF bit_simps)

text \<open>The lookup index of the loop is always inside the table, so the \<open>undefined\<close>
  branch is never taken.\<close>

lemma crc_lookup_in_range:
  "0 \<le> drop_bit 8 (uint c) XOR uint b \<and> drop_bit 8 (uint c) XOR uint b < int (length crcTable)"
  for c :: "16 word" and b :: byte
  using uint_lt2p [of "ucast (drop_bit 8 c) XOR b :: byte"] by (simp add: crc_lookup_index)

text \<open>The table-driven checksum of the SDK is the bitwise CRC-16/XMODEM, low byte
  first.\<close>

lemma calculateChecksum_crc16: "calculateChecksum p = [ucast (crc16 p), ucast (drop_bit 8 (crc16 p))]"
  using foldl_crc_step [of 0 p]
  by (simp add: calculateChecksum_def crc16_def Let_def byte_of_crc_low byte_of_crc_high)

text \<open>The checksum is CRC-16/XMODEM: the standard check value of \<open>"123456789"\<close>.\<close>

lemma crc16_check: "crc16 (map (\<lambda>c. of_nat (of_char c)) ''123456789'') = 0x31C3"
  by (simp add: crc16_def crc_byte_def crc_shift_def funpow_8)
end
