(* ===== verification/Config.thy ===== *)
theory Config
  imports Drivers StrKey
begin

text \<open>
  Configuration loading, the top of each \<open>index.ts\<close>: \<open>dotenv.config()\<close> adds the
  assignments of the \<open>.env\<close> file to \<open>process.env\<close> without overriding variables
  already set (the parsing of the file is not modelled: its assignments are an
  input), then \<open>STELLAR_RPC_URL\<close> and \<open>PRIVATE_KEY\<close> are read with \<open>?? ""\<close>. Inside
  \<open>main\<close>, \<open>new rpc.Server(STELLAR_RPC_URL)\<close> refuses a URL whose scheme is not
  \<open>https\<close> (the scripts do not pass \<open>allowHttp\<close>), and \<open>Keypair.fromSecret(PRIVATE_KEY)\<close>
  decodes the seed (\<open>StrKey\<close>). \<open>increment_index\<close>, \<open>events_index\<close> and
  \<open>hello_world_index\<close> are the three scripts as the process runs them, from the
  process environment and the \<open>.env\<close> file to the exit code.
\<close>

definition dotenv_config :: "(string \<rightharpoonup> string) \<Rightarrow> (string \<rightharpoonup> string) \<Rightarrow> (string \<rightharpoonup> string)" where
  "dotenv_config processEnv parsed = (\<lambda>key. case processEnv key of Some v \<Rightarrow> Some v | None \<Rightarrow> parsed key)"

definition rpc_Server_new :: "string \<Rightarrow> js_error + unit" where
  "rpc_Server_new serverURL =
     (if CHR '':'' \<in> set serverURL \<and> takeWhile (\<lambda>c. c \<noteq> CHR '':'') serverURL = ''https'' then Inr ()
      else Inl (Error ''Cannot connect to insecure Soroban RPC server if `allowHttp` isn't set''))"

definition increment_index ::
  "'n rpc_server \<Rightarrow> (bytes \<Rightarrow> bytes) \<Rightarrow> (string \<rightharpoonup> string) \<Rightarrow> (string \<rightharpoonup> string) \<Rightarrow> ('n world, unit) prog" where
  "increment_index provider generate processEnv dotenvFile =
     (let env = dotenv_config processEnv dotenvFile;
          STELLAR_RPC_URL = js_default '''' (env ''STELLAR_RPC_URL'');
          PRIVATE_KEY = js_default '''' (env ''STELLAR_PRIVATE_KEY'')
      in node_main (main_increment provider (rpc_Server_new STELLAR_RPC_URL) (Keypair_fromSecret generate PRIVATE_KEY)))"

definition events_index ::
  "'n rpc_server \<Rightarrow> (bytes \<Rightarrow> bytes) \<Rightarrow> (string \<rightharpoonup> string) \<Rightarrow> (string \<rightharpoonup> string) \<Rightarrow> ('n world, unit) prog" where
  "events_index provider generate processEnv dotenvFile =
     (let env = dotenv_config processEnv dotenvFile;
          STELLAR_RPC_URL = js_default '''' (env ''STELLAR_RPC_URL'');
          PRIVATE_KEY = js_default '''' (env ''STELLAR_PRIVATE_KEY'')
      in node_main (main_events provider (rpc_Server_new STELLAR_RPC_URL) (Keypair_fromSecret generate PRIVATE_KEY)))"

definition hello_world_index ::
  "('n rpc_server \<Rightarrow> keypair \<Rightarrow> ('n world, address) prog) \<Rightarrow> 'n rpc_server \<Rightarrow> (bytes \<Rightarrow> bytes) \<Rightarrow>
   (string \<rightharpoonup> string) \<Rightarrow> (string \<rightharpoonup> string) \<Rightarrow> ('n world, unit) prog" where
  "hello_world_index deployHelloWorldContract provider generate processEnv dotenvFile =
     (let env = dotenv_config processEnv dotenvFile;
          STELLAR_RPC_URL = js_default '''' (env ''STELLAR_RPC_URL'');
          PRIVATE_KEY = js_default '''' (env ''STELLAR_PRIVATE_KEY'')
      in node_main (main_hello_world deployHelloWorldContract provider (rpc_Server_new STELLAR_RPC_URL)
                      (Keypair_fromSecret generate PRIVATE_KEY)))"

subsection \<open>Properties of the configuration\<close>

lemma rpc_Server_new_empty: "rpc_Server_new '''' = Inl (Error ''Cannot connect to insecure Soroban RPC server if `allowHttp` isn't set'')"
  by (simp add: rpc_Server_new_def)

lemma banner_lines:
  "banner title w = (Inr (), w\<lparr>stdout := stdout w @ [[OText ''--------------------------------''], [OText title],
                                                   [OText ''--------------------------------'']]\<rparr>)"
  by (simp add: banner_def prog_simps)

text \<open>C31. The key pairs the scripts build are the ones \<open>deploy.ts\<close> re-creates: when
  \<open>Keypair.fromSecret\<close> accepts a string, the key pair's \<open>secret()\<close> is that very
  string (StrKey decoding and re-encoding is the identity on accepted strings), so
  \<open>Keypair.fromSecret(signer.secret())\<close> gives back the same key pair and
  \<open>buildAndSendTransaction\<close> with that signer is the submission pipeline of
  \<open>helpers.ts\<close> with the test network and the base fee.\<close>

theorem configured_keypair_roundtrip:
  assumes "Keypair_fromSecret generate s = Inr kp"
  shows "kp_secret kp = Some s \<and> keypair_fromSecret_secret kp = Keypair_fromSecret generate s \<and>
         buildAndSendTransaction srv kp op =
           submitStellarTransaction \<lparr>sst_provider = srv, sst_signer = kp,
             sst_networkPassphrase = Some TESTNET, sst_fee = Some BASE_FEE, sst_operation = op\<rparr>"
proof -
  have sec: "kp_secret kp = Some s" by (rule Keypair_fromSecret_secret [OF assms])
  then show ?thesis
    using assms by (simp add: keypair_fromSecret_secret_def buildAndSendTransaction_stages)
qed

theorem configured_keypair_roundtrip_witness:
  "kp_secret \<lparr>kp_public = AccountAddress (replicate 32 1), kp_secret = Some (encodeCheck Ed25519SecretSeed (replicate 32 7))\<rparr> =
     Some (encodeCheck Ed25519SecretSeed (replicate 32 7)) \<and>
   keypair_fromSecret_secret \<lparr>kp_public = AccountAddress (replicate 32 1), kp_secret = Some (encodeCheck Ed25519SecretSeed (replicate 32 7))\<rparr> =
     Keypair_fromSecret (\<lambda>_. replicate 32 1) (encodeCheck Ed25519SecretSeed (replicate 32 7)) \<and>
   buildAndSendTransaction fake_server
       \<lparr>kp_public = AccountAddress (replicate 32 1), kp_secret = Some (encodeCheck Ed25519SecretSeed (replicate 32 7))\<rparr>
       (contract_call counter_id ''increment'' []) =
     submitStellarTransaction \<lparr>sst_provider = fake_server,
       sst_signer = \<lparr>kp_public = AccountAddress (replicate 32 1), kp_secret = Some (encodeCheck Ed25519SecretSeed (replicate 32 7))\<rparr>,
       sst_networkPassphrase = Some TESTNET, sst_fee = Some BASE_FEE, sst_operation = contract_call counter_id ''increment'' []\<rparr>"
  by (rule configured_keypair_roundtrip) (simp add: Keypair_fromSecret_encodeCheck)

text \<open>C32. A public account id (\<open>G...\<close>, version byte 48) configured as
  \<open>STELLAR_PRIVATE_KEY\<close> in place of the secret seed (version byte 144): the increment
  script prints the banner, sends no request, and ends with exit code 1 and the
  SDK's version-byte error, whatever the id's payload.\<close>

theorem increment_index_public_key_as_secret:
  assumes "processEnv ''STELLAR_RPC_URL'' = Some url" and "rpc_Server_new url = Inr ()"
    and "processEnv ''STELLAR_PRIVATE_KEY'' = Some (encodeCheck Ed25519PublicKey d)"
  shows "increment_index provider generate processEnv dotenvFile w =
           (Inl (Exit 1), w\<lparr>stdout := stdout w @ [[OText ''--------------------------------''], [OText ''Increment Example''],
                                                  [OText ''--------------------------------'']],
                            stderr := stderr w @ [[OText ''Error: invalid version byte. expected 144, got 48'']]\<rparr>)"
  using assms
  by (simp add: increment_index_def dotenv_config_def main_increment_def startup_def node_main_def banner_lines
                Keypair_fromSecret_rejects_public_key prog_simps)

theorem increment_index_public_key_as_secret_witness:
  "increment_index fake_server (\<lambda>_. replicate 32 9)
     [''STELLAR_RPC_URL'' \<mapsto> ''https://soroban-testnet.stellar.org'',
      ''STELLAR_PRIVATE_KEY'' \<mapsto> encodeCheck Ed25519PublicKey (replicate 32 1)] Map.empty demo_world =
     (Inl (Exit 1), demo_world\<lparr>stdout := stdout demo_world @ [[OText ''--------------------------------''],
         [OText ''Increment Example''], [OText ''--------------------------------'']],
       stderr := stderr demo_world @ [[OText ''Error: invalid version byte. expected 144, got 48'']]\<rparr>)"
  by (rule increment_index_public_key_as_secret [where url = "''https://soroban-testnet.stellar.org''"])
     (simp_all add: rpc_Server_new_def)

text \<open>C33. With \<open>STELLAR_RPC_URL\<close> set neither in the process environment nor in the
  \<open>.env\<close> file, the default \<open>""\<close> makes \<open>new rpc.Server\<close> throw: the increment script
  prints the banner, sends no request, and ends with exit code 1 and the error on
  standard error, before it looks at the key.\<close>

theorem increment_index_without_url:
  assumes "processEnv ''STELLAR_RPC_URL'' = None" and "dotenvFile ''STELLAR_RPC_URL'' = None"
  shows "increment_index provider generate processEnv dotenvFile w =
           (Inl (Exit 1), w\<lparr>stdout := stdout w @ [[OText ''--------------------------------''], [OText ''Increment Example''],
                                                  [OText ''--------------------------------'']],
                            stderr := stderr w @
                              [[OText ''Error: Cannot connect to insecure Soroban RPC server if `allowHttp` isn't set'']]\<rparr>)"
  using assms
  by (simp add: increment_index_def dotenv_config_def main_increment_def startup_def node_main_def banner_lines
                rpc_Server_new_empty prog_simps)

theorem increment_index_without_url_witness:
  "increment_index fake_server (\<lambda>_. replicate 32 9) Map.empty Map.empty demo_world =
     (Inl (Exit 1), demo_world\<lparr>stdout := stdout demo_world @ [[OText ''--------------------------------''],
         [OText ''Increment Example''], [OText ''--------------------------------'']],
       stderr := stderr demo_world @
         [[OText ''Error: Cannot connect to insecure Soroban RPC server if `allowHttp` isn't set'']]\<rparr>)"
  by (rule increment_index_without_url) simp_all

text \<open>C34. With a valid \<open>https\<close> URL but \<open>STELLAR_PRIVATE_KEY\<close> set nowhere, the
  default \<open>""\<close> reaches \<open>Keypair.fromSecret\<close>, which decodes it to no bytes at all:
  the script prints the banner, sends no request, and ends with exit code 1 and the
  version-byte error for an \<open>undefined\<close> byte, which does not say that the key is
  missing.\<close>

theorem increment_index_without_key:
  assumes "processEnv ''STELLAR_RPC_URL'' = Some url" and "rpc_Server_new url = Inr ()"
    and "processEnv ''STELLAR_PRIVATE_KEY'' = None" and "dotenvFile ''STELLAR_PRIVATE_KEY'' = None"
  shows "increment_index provider generate processEnv dotenvFile w =
           (Inl (Exit 1), w\<lparr>stdout := stdout w @ [[OText ''--------------------------------''], [OText ''Increment Example''],
                                                  [OText ''--------------------------------'']],
                            stderr := stderr w @ [[OText ''Error: invalid version byte. expected 144, got undefined'']]\<rparr>)"
  using assms
  by (simp add: increment_index_def dotenv_config_def main_increment_def startup_def node_main_def banner_lines
                Keypair_fromSecret_empty prog_simps)

theorem increment_index_without_key_witness:
  "increment_index fake_server (\<lambda>_. replicate 32 9) [''STELLAR_RPC_URL'' \<mapsto> ''https://soroban-testnet.stellar.org''] Map.empty demo_world =
     (Inl (Exit 1), demo_world\<lparr>stdout := stdout demo_world @ [[OText ''--------------------------------''],
         [OText ''Increment Example''], [OText ''--------------------------------'']],
       stderr := stderr demo_world @ [[OText ''Error: invalid version byte. expected 144, got undefined'']]\<rparr>)"
  by (rule increment_index_without_key [where url = "''https://soroban-testnet.stellar.org''"])
     (simp_all add: rpc_Server_new_def)

text \<open>C35. The configuration the script runs with comes from both sources
  \<open>dotenv.config()\<close> merges: a variable set in the process environment is taken from
  there, whatever the \<open>.env\<close> file says (\<open>dotenv\<close> does not override variables
  already set), and one that is not set there is taken from the \<open>.env\<close> file. A URL
  accepted by \<open>rpc.Server\<close> and a secret seed found this way make the script run
  \<open>main\<close> with the key pair of that seed, the StrKey encoding decoded back to its 32
  bytes.\<close>

theorem increment_index_reads_configuration:
  assumes "(dotenvFile ++ processEnv) ''STELLAR_RPC_URL'' = Some url" and "rpc_Server_new url = Inr ()"
    and "(dotenvFile ++ processEnv) ''STELLAR_PRIVATE_KEY'' = Some (encodeCheck Ed25519SecretSeed seed)"
    and "length seed = 32"
  shows "increment_index provider generate processEnv dotenvFile =
           node_main (main_increment provider (Inr ())
             (Inr \<lparr>kp_public = AccountAddress (generate seed), kp_secret = Some (encodeCheck Ed25519SecretSeed seed)\<rparr>))"
proof -
  have env: "dotenv_config processEnv dotenvFile = dotenvFile ++ processEnv"
    by (rule ext) (simp add: dotenv_config_def map_add_def split: option.split)
  show ?thesis using assms by (simp add: increment_index_def env Keypair_fromSecret_encodeCheck)
qed

theorem increment_index_reads_configuration_witness:
  "increment_index fake_server (\<lambda>_. replicate 32 1)
     [''STELLAR_RPC_URL'' \<mapsto> ''https://soroban-testnet.stellar.org'',
      ''STELLAR_PRIVATE_KEY'' \<mapsto> encodeCheck Ed25519SecretSeed (replicate 32 7)]
     [''STELLAR_PRIVATE_KEY'' \<mapsto> encodeCheck Ed25519SecretSeed (replicate 32 8)] =
   node_main (main_increment fake_server (Inr ())
     (Inr \<lparr>kp_public = AccountAddress (replicate 32 1), kp_secret = Some (encodeCheck Ed25519SecretSeed (replicate 32 7))\<rparr>)) \<and>
   increment_index fake_server (\<lambda>_. replicate 32 1)
     [''STELLAR_RPC_URL'' \<mapsto> ''https://soroban-testnet.stellar.org'']
     [''STELLAR_PRIVATE_KEY'' \<mapsto> encodeCheck Ed25519SecretSeed (replicate 32 8)] =
   node_main (main_increment fake_server (Inr ())
     (Inr \<lparr>kp_public = AccountAddress (replicate 32 1), kp_secret = Some (encodeCheck Ed25519SecretSeed (replicate 32 8))\<rparr>))"
proof
  show "increment_index fake_server (\<lambda>_. replicate 32 1)
     [''STELLAR_RPC_URL'' \<mapsto> ''https://soroban-testnet.stellar.org'',
      ''STELLAR_PRIVATE_KEY'' \<mapsto> encodeCheck Ed25519SecretSeed (replicate 32 7)]
     [''STELLAR_PRIVATE_KEY'' \<mapsto> encodeCheck Ed25519SecretSeed (replicate 32 8)] =
   node_main (main_increment fake_server (Inr ())
     (Inr \<lparr>kp_public = AccountAddress (replicate 32 1), kp_secret = Some (encodeCheck Ed25519SecretSeed (replicate 32 7))\<rparr>))"
    by (rule increment_index_reads_configuration [where url = "''https://soroban-testnet.stellar.org''"])
       (simp_all add: rpc_Server_new_def)
  show "increment_index fake_server (\<lambda>_. replicate 32 1)
     [''STELLAR_RPC_URL'' \<mapsto> ''https://soroban-testnet.stellar.org'']
     [''STELLAR_PRIVATE_KEY'' \<mapsto> encodeCheck Ed25519SecretSeed (replicate 32 8)] =
   node_main (main_increment fake_server (Inr ())
     (Inr \<lparr>kp_public = AccountAddress (replicate 32 1), kp_secret = Some (encodeCheck Ed25519SecretSeed (replicate 32 8))\<rparr>))"
    by (rule increment_index_reads_configuration [where url = "''https://soroban-testnet.stellar.org''"])
       (simp_all add: rpc_Server_new_def)
qed

text \<open>C39. A secret seed whose two checksum bytes do not match its payload, as after
  a mistyped character in the checksum part of the key: the string is a canonical
  base32 text and carries the secret-seed version byte, so \<open>Keypair.fromSecret\<close>
  rejects it only at the checksum test. The script prints the banner, sends no
  request, and ends with exit code 1 and \<open>"invalid checksum"\<close>.\<close>

theorem increment_index_bad_checksum:
  assumes "processEnv ''STELLAR_RPC_URL'' = Some url" and "rpc_Server_new url = Inr ()"
    and "processEnv ''STELLAR_PRIVATE_KEY'' = Some (base32_encode (144 # seed @ cs))"
    and "length cs = 2" and "cs \<noteq> calculateChecksum (144 # seed)"
  shows "increment_index provider generate processEnv dotenvFile w =
           (Inl (Exit 1), w\<lparr>stdout := stdout w @ [[OText ''--------------------------------''], [OText ''Increment Example''],
                                                  [OText ''--------------------------------'']],
                            stderr := stderr w @ [[OText ''Error: invalid checksum'']]\<rparr>)"
  using assms
  by (simp add: increment_index_def dotenv_config_def main_increment_def startup_def node_main_def banner_lines
                Keypair_fromSecret_bad_checksum prog_simps)

theorem increment_index_bad_checksum_witness:
  "increment_index fake_server (\<lambda>_. replicate 32 9)
     [''STELLAR_RPC_URL'' \<mapsto> ''https://soroban-testnet.stellar.org'',
      ''STELLAR_PRIVATE_KEY'' \<mapsto> base32_encode (144 # replicate 32 7 @
                                  map (\<lambda>b. b XOR 1) (calculateChecksum (144 # replicate 32 7)))] Map.empty demo_world =
     (Inl (Exit 1), demo_world\<lparr>stdout := stdout demo_world @ [[OText ''--------------------------------''],
         [OText ''Increment Example''], [OText ''--------------------------------'']],
       stderr := stderr demo_world @ [[OText ''Error: invalid checksum'']]\<rparr>)"
  by (rule increment_index_bad_checksum [where url = "''https://soroban-testnet.stellar.org''" and seed = "replicate 32 7"
        and cs = "map (\<lambda>b. b XOR 1) (calculateChecksum (144 # replicate 32 7))"])
     (simp_all add: rpc_Server_new_def map_xor_one_neq calculateChecksum_not_Nil)

end
