(* ===== verification/Exit_Status.thy ===== *)
theory Exit_Status
  imports Config
begin

text \<open>
  The exit status of the scripts. A Node process ends with status 0 when \<open>main()\<close>
  settles, with the code given to \<open>process.exit\<close>, or with status 1 after printing an
  unhandled rejection. \<open>exits_reported m\<close> is a program logic in the style of the trace
  logics of \<open>Prelude\<close>: \<open>m\<close> only appends to \<open>stderr\<close>, and when it ends the process
  (\<open>Exit n\<close>) the code is 1 and it has printed at least one line on \<open>stderr\<close>. Its rules
  cover the combinators of the async model and every operation of the scripts; the
  only call of \<open>process.exit\<close>, in \<open>uploadWasm\<close>, comes after three \<open>console.error\<close>
  lines. Composed with \<open>node_main\<close> this gives the exit status of each \<open>index.ts\<close>.
\<close>

definition exits_reported :: "('n world, 'a) prog \<Rightarrow> bool" where
  "exits_reported m =
     (\<forall>w. (\<exists>new. stderr (state_of m w) = stderr w @ new) \<and>
          (\<forall>n. result_of m w = Inl (Exit n) \<longrightarrow> n = 1 \<and> stderr (state_of m w) \<noteq> stderr w))"

text \<open>What the process reports when it ends: status 0, or status 1 with a new line on
  \<open>stderr\<close>.\<close>

definition exit_status_ok :: "'n world \<Rightarrow> abrupt + unit \<Rightarrow> 'n world \<Rightarrow> bool" where
  "exit_status_ok w r w' = (r = Inr () \<or> (r = Inl (Exit 1) \<and> length (stderr w) < length (stderr w')))"

named_theorems exit_intros "rules of the logic exits_reported"

subsection \<open>Rules of the logic\<close>

text \<open>A program that neither touches \<open>stderr\<close> nor exits.\<close>

lemma exits_quiet:
  assumes "\<And>w. stderr (state_of m w) = stderr w" and "\<And>w n. result_of m w \<noteq> Inl (Exit n)"
  shows "exits_reported m"
  using assms by (simp add: exits_reported_def)

lemma exits_ret [exit_intros]: "exits_reported (ret x)"
  by (rule exits_quiet) (simp_all add: ret_def)

lemma exits_thrown [exit_intros]: "exits_reported (throw (Thrown e))"
  by (rule exits_quiet) (simp_all add: throw_def)

lemma exits_lift_sync [exit_intros]: "exits_reported (lift_sync r)"
  by (cases r) (simp_all add: exits_ret exits_thrown)

lemma exits_bind [exit_intros]:
  assumes m: "exits_reported m" and f: "\<And>x. exits_reported (f x)"
  shows "exits_reported (bind_p m f)"
  unfolding exits_reported_def
proof
  fix w
  obtain r w1 where run: "m w = (r, w1)" by fastforce
  from m run obtain n1 where n1: "stderr w1 = stderr w @ n1"
    and ex1: "\<And>n. r = Inl (Exit n) \<Longrightarrow> n = 1 \<and> stderr w1 \<noteq> stderr w"
    unfolding exits_reported_def by (metis fst_conv snd_conv)
  show "(\<exists>new. stderr (state_of (bind_p m f) w) = stderr w @ new) \<and>
        (\<forall>n. result_of (bind_p m f) w = Inl (Exit n) \<longrightarrow> n = 1 \<and> stderr (state_of (bind_p m f) w) \<noteq> stderr w)"
  proof (cases r)
    case (Inl e)
    with run n1 ex1 show ?thesis by (simp add: bind_p_def)
  next
    case (Inr x)
    obtain r2 w2 where run2: "f x w1 = (r2, w2)" by fastforce
    from f [of x] run2 obtain n2 where n2: "stderr w2 = stderr w1 @ n2"
      and ex2: "\<And>n. r2 = Inl (Exit n) \<Longrightarrow> n = 1 \<and> stderr w2 \<noteq> stderr w1"
      unfolding exits_reported_def by (metis fst_conv snd_conv)
    from run Inr run2 n1 n2 ex2 show ?thesis by (auto simp: bind_p_def)
  qed
qed

lemma exits_catch [exit_intros]:
  assumes m: "exits_reported m" and h: "\<And>e. exits_reported (h e)"
  shows "exits_reported (catch_p m h)"
  unfolding exits_reported_def
proof
  fix w
  obtain r w1 where run: "m w = (r, w1)" by fastforce
  from m run obtain n1 where n1: "stderr w1 = stderr w @ n1"
    and ex1: "\<And>n. r = Inl (Exit n) \<Longrightarrow> n = 1 \<and> stderr w1 \<noteq> stderr w"
    unfolding exits_reported_def by (metis fst_conv snd_conv)
  show "(\<exists>new. stderr (state_of (catch_p m h) w) = stderr w @ new) \<and>
        (\<forall>n. result_of (catch_p m h) w = Inl (Exit n) \<longrightarrow> n = 1 \<and> stderr (state_of (catch_p m h) w) \<noteq> stderr w)"
  proof (cases "\<exists>e. r = Inl (Thrown e)")
    case True
    then obtain e where e: "r = Inl (Thrown e)" by blast
    obtain r2 w2 where run2: "h e w1 = (r2, w2)" by fastforce
    from h [of e] run2 obtain n2 where n2: "stderr w2 = stderr w1 @ n2"
      and ex2: "\<And>n. r2 = Inl (Exit n) \<Longrightarrow> n = 1 \<and> stderr w2 \<noteq> stderr w1"
      unfolding exits_reported_def by (metis fst_conv snd_conv)
    from run e run2 n1 n2 ex2 show ?thesis by (auto simp: catch_p_def)
  next
    case False
    then have "catch_p m h w = (r, w1)" using run by (simp add: catch_p_result split: sum.splits abrupt.splits)
    with n1 ex1 show ?thesis by simp
  qed
qed

lemma exits_if [exit_intros]: "exits_reported a \<Longrightarrow> exits_reported b \<Longrightarrow> exits_reported (if c then a else b)"
  by simp

lemma exits_case_option [exit_intros]:
  "exits_reported a \<Longrightarrow> (\<And>x. exits_reported (b x)) \<Longrightarrow> exits_reported (case v of None \<Rightarrow> a | Some x \<Rightarrow> b x)"
  by (cases v) simp_all

lemma exits_case_list [exit_intros]:
  "exits_reported a \<Longrightarrow> (\<And>x xs. exits_reported (b x xs)) \<Longrightarrow> exits_reported (case v of [] \<Rightarrow> a | x # xs \<Rightarrow> b x xs)"
  by (cases v) simp_all

lemma exits_rpc [exit_intros]: "exits_reported (rpc c f)"
  by (rule exits_quiet) (simp_all add: rpc_def split: prod.splits)

lemma exits_rpc_ops [exit_intros]:
  "exits_reported (rpc_getAccount srv a)" "exits_reported (rpc_prepareTransaction srv tx)"
  "exits_reported (rpc_sendTransaction srv tx)" "exits_reported (rpc_getTransaction srv h)"
  "exits_reported (rpc_simulateTransaction srv tx)" "exits_reported (rpc_getLatestLedger srv)"
  "exits_reported (rpc_getEvents srv start ids lim)"
  unfolding rpc_getAccount_def rpc_prepareTransaction_def rpc_sendTransaction_def rpc_getTransaction_def
    rpc_simulateTransaction_def rpc_getLatestLedger_def rpc_getEvents_def
  by (rule exits_rpc)+

lemma exits_console [exit_intros]:
  "exits_reported (console_log l)" "exits_reported (console_error l)"
  by (auto simp: exits_reported_def console_log_def console_error_def)

lemma exits_fs [exit_intros]:
  "exits_reported (fs_existsSync f)" "exits_reported (fs_readFileSync f)"
  by (auto simp: exits_reported_def runtime_apply split: option.splits)

text \<open>\<open>process.exit(1)\<close> right after a line on \<open>stderr\<close>.\<close>

lemma exits_error_then_exit [exit_intros]: "exits_reported (bind_p (console_error l) (\<lambda>_. process_exit 1))"
  by (simp add: exits_reported_def console_error_def bind_p_def runtime_apply)

subsection \<open>The operations of the scripts\<close>

lemma exits_poll_loop [exit_intros]: "exits_reported (poll_loop srv h k f)"
  by (induction k arbitrary: f) (simp_all add: exit_intros)

lemma exits_helpers [exit_intros]:
  "exits_reported (getPollingTransaction srv h)"
  "exits_reported (submitStellarTransaction p)"
  "exits_reported (submitTransaction q)"
  unfolding getPollingTransaction_def pollTransaction_def submitStellarTransaction_def submitTransaction_def Let_def
  by (intro exit_intros)+

lemma exits_deploy [exit_intros]:
  "exits_reported (buildTransaction srv kp op)"
  "exits_reported (buildAndSendTransaction srv kp op)"
  "exits_reported (uploadWasm srv kp path)"
  "exits_reported (deployContract srv kp r)"
  unfolding buildTransaction_def buildAndSendTransaction_def uploadWasm_def deployContract_def Let_def
  by (intro exit_intros)+

lemma exits_simulateTransaction [exit_intros]: "exits_reported (simulateTransaction p)"
  unfolding simulateTransaction_def Let_def
  by (intro exit_intros; simp split: sim_response.split option.split add: exit_intros)

lemma exits_drivers [exit_intros]:
  "exits_reported (banner title)"
  "exits_reported (startup p0 kp0)"
  "exits_reported (log_value label v)"
  "exits_reported (deployIncrementContract srv kp)"
  "exits_reported (deployEventsContract srv kp)"
  unfolding banner_def startup_def log_value_def deployIncrementContract_def deployEventsContract_def Let_def
  by (intro exit_intros)+

lemma exits_increment_loop [exit_intros]: "exits_reported (increment_loop srv kp c i k)"
  by (induction k arbitrary: i) (simp_all add: exit_intros)

lemma exits_events_increment_loop [exit_intros]: "exits_reported (events_increment_loop srv kp c i k)"
  by (simp add: events_increment_loop_eq exit_intros)

lemma exits_print_events [exit_intros]: "exits_reported (print_events evs)"
  by (induction evs) (simp_all add: exit_intros split: list.split)

lemma exits_mains:
  "exits_reported (main_increment srv p0 kp0)"
  "exits_reported (main_events srv p0 kp0)"
  "(\<And>srv kp. exits_reported (deploy srv kp)) \<Longrightarrow> exits_reported (main_hello_world deploy srv p0 kp0)"
  unfolding main_increment_def main_events_def main_hello_world_def Let_def
  by (intro exit_intros; assumption)+

text \<open>\<open>node_main\<close> turns an unhandled rejection into status 1 and a line on \<open>stderr\<close>.\<close>

lemma node_main_exit_status:
  assumes "exits_reported m"
  shows "case node_main m w of (r, w') \<Rightarrow> exit_status_ok w r w'"
proof -
  obtain r w' where run: "m w = (r, w')" by fastforce
  from assms run obtain new where new: "stderr w' = stderr w @ new"
    and ex: "\<And>n. r = Inl (Exit n) \<Longrightarrow> n = 1 \<and> stderr w' \<noteq> stderr w"
    unfolding exits_reported_def by (metis fst_conv snd_conv)
  show ?thesis
  proof (cases r)
    case (Inl a)
    then show ?thesis using run new ex
      by (cases a) (auto simp: node_main_def exit_status_ok_def)
  next
    case (Inr u)
    then show ?thesis using run by (simp add: node_main_def exit_status_ok_def)
  qed
qed

text \<open>C36. The exit status of the three scripts, from the environment to the end of the
  process: whatever the configuration, the endpoint and the files, each \<open>index.ts\<close>
  either completes (status 0) or ends with status 1 after printing at least one line
  on \<open>stderr\<close>: the missing-WASM message of \<open>uploadWasm\<close> before its
  \<open>process.exit(1)\<close>, or the unhandled rejection. No error ends a script silently or
  with another status. For \<open>hello_world/index.ts\<close>, whose deploy module is absent,
  this holds for every deploy function with the same discipline.\<close>

theorem scripts_exit_status:
  assumes "\<And>srv kp. exits_reported (deployHelloWorldContract srv kp)"
  shows "(case increment_index provider generate processEnv dotenvFile w of (r, w') \<Rightarrow> exit_status_ok w r w') \<and>
         (case events_index provider generate processEnv dotenvFile w of (r, w') \<Rightarrow> exit_status_ok w r w') \<and>
         (case hello_world_index deployHelloWorldContract provider generate processEnv dotenvFile w of
            (r, w') \<Rightarrow> exit_status_ok w r w')"
  unfolding increment_index_def events_index_def hello_world_index_def Let_def
  by (intro conjI node_main_exit_status exits_mains assms)

theorem scripts_exit_status_witness:
  "(case increment_index fake_server (\<lambda>_. replicate 32 9) Map.empty Map.empty demo_world of
      (r, w') \<Rightarrow> exit_status_ok demo_world r w') \<and>
   (case events_index fake_server (\<lambda>_. replicate 32 9) Map.empty Map.empty demo_world of
      (r, w') \<Rightarrow> exit_status_ok demo_world r w') \<and>
   (case hello_world_index deployIncrementContract fake_server (\<lambda>_. replicate 32 9) Map.empty Map.empty demo_world of
      (r, w') \<Rightarrow> exit_status_ok demo_world r w')"
  using scripts_exit_status [where deployHelloWorldContract = deployIncrementContract and provider = fake_server
      and generate = "\<lambda>_. replicate 32 9" and processEnv = Map.empty and dotenvFile = Map.empty and w = demo_world]
  by (simp add: exits_drivers)

end
