(* ===== verification/Sequence_Numbers.thy ===== *)
theory Sequence_Numbers
  imports Drivers
begin

text \<open>
  Sequence numbers across whole scripts, on the fake endpoint of \<open>Fake_Net\<close>, which
  accepts a submission only when it carries the next sequence number of its source
  account and then consumes that number. \<open>consumes a k m\<close> is a program logic over
  that endpoint: provided the endpoint's minimum fee is at most \<open>BASE_FEE\<close>, \<open>m\<close>
  changes no account's sequence number but \<open>a\<close>'s, raises \<open>a\<close>'s by some \<open>d \<le> k\<close>, and
  by exactly \<open>k\<close> when it returns. Every submission of the scripts reads the signer's
  account right before building (\<open>submitStellarTransaction\<close>, \<open>buildTransaction\<close>),
  so it consumes exactly one number when it succeeds; the rules compose these counts
  along the scripts. Run concurrently, two submissions with the same key can collide:
  the second half of the theory splits \<open>submitStellarTransaction\<close> at its await
  points and runs two of them in the schedule where both read the account before
  either sends.
\<close>

definition consumes :: "address \<Rightarrow> nat \<Rightarrow> (fake_net world, 'a) prog \<Rightarrow> bool" where
  "consumes a k m =
     (\<forall>w. fk_min_fee (net w) \<le> BASE_FEE \<longrightarrow>
        fk_min_fee (net (state_of m w)) = fk_min_fee (net w) \<and>
        (\<forall>b. b \<noteq> a \<longrightarrow> fk_seq (net (state_of m w)) b = fk_seq (net w) b) \<and>
        (\<exists>d \<le> k. fk_seq (net (state_of m w)) a = map_option (\<lambda>s. s + int d) (fk_seq (net w) a) \<and>
                 (\<forall>x. result_of m w = Inr x \<longrightarrow> d = k)))"

text \<open>Two processes submitting with the same key, as when two of the scripts run at
  the same time. \<open>submitStellarTransaction\<close> has two halves around its await points:
  reading the account, building and preparing (\<open>submit_prepare\<close>), then signing,
  sending and polling (\<open>submit_finish\<close>). \<open>settle m\<close> runs \<open>m\<close> as a process of its
  own: its error is its outcome and does not stop the other process.
  \<open>interleaved_submissions\<close> is the schedule in which both processes read the account
  before either sends; \<open>sent_txs\<close> are the transactions of a request log that were
  sent.\<close>

definition submit_prepare :: "'n SubmitStellarTransactionParams \<Rightarrow> ('n world, transaction) prog" where
  "submit_prepare p =
     (let provider = sst_provider p;
          signer = sst_signer p;
          networkPassphrase = js_default TESTNET (sst_networkPassphrase p);
          fee = js_default BASE_FEE (sst_fee p)
      in bind_p (rpc_getAccount provider (kp_public signer)) (\<lambda>signerAccount.
         bind_p (lift_sync (helpers_build signerAccount fee networkPassphrase (sst_operation p))) (\<lambda>transaction.
         rpc_prepareTransaction provider transaction)))"

definition submit_finish :: "'n SubmitStellarTransactionParams \<Rightarrow> transaction \<Rightarrow> ('n world, get_tx_response) prog" where
  "submit_finish p preparedTransaction =
     (let signed = tx_sign (sst_signer p) preparedTransaction in
      bind_p (rpc_sendTransaction (sst_provider p) signed) (\<lambda>response.
      bind_p (getPollingTransaction (sst_provider p) (sr_hash response)) (\<lambda>successTx.
      ret successTx)))"

definition settle :: "('s, 'a) prog \<Rightarrow> ('s, js_error + 'a) prog" where
  "settle m =
     (\<lambda>s. case m s of
            (Inl (Thrown e), s') \<Rightarrow> (Inr (Inl e), s')
          | (Inl (Exit n), s') \<Rightarrow> (Inl (Exit n), s')
          | (Inr x, s') \<Rightarrow> (Inr (Inr x), s'))"

definition interleaved_submissions ::
  "'n SubmitStellarTransactionParams \<Rightarrow> 'n SubmitStellarTransactionParams \<Rightarrow>
   ('n world, (js_error + get_tx_response) \<times> (js_error + get_tx_response)) prog" where
  "interleaved_submissions p1 p2 =
     bind_p (submit_prepare p1) (\<lambda>t1.
     bind_p (submit_prepare p2) (\<lambda>t2.
     bind_p (settle (submit_finish p1 t1)) (\<lambda>r1.
     bind_p (settle (submit_finish p2 t2)) (\<lambda>r2.
     ret (r1, r2)))))"

fun sent_txs :: "rpc_call list \<Rightarrow> transaction list" where
  "sent_txs [] = []"
| "sent_txs (SendTransaction t # cs) = t # sent_txs cs"
| "sent_txs (_ # cs) = sent_txs cs"

named_theorems consumes_intros "rules of the logic consumes"

subsection \<open>Status queries leave the accounts alone\<close>

lemma fake_poll_loop_seq:
  "fk_seq (net (state_of (poll_loop fake_server h k f) w)) = fk_seq (net w)"
  by (induction k arbitrary: f w) (auto simp: prog_simps split: list.splits prod.splits)

lemma fake_poll_loop_min_fee:
  "fk_min_fee (net (state_of (poll_loop fake_server h k f) w)) = fk_min_fee (net w)"
  by (induction k arbitrary: f w) (auto simp: prog_simps split: list.splits prod.splits)

lemma fake_getPollingTransaction_keeps:
  "fk_seq (net (state_of (getPollingTransaction fake_server h) w)) = fk_seq (net w)"
  "fk_min_fee (net (state_of (getPollingTransaction fake_server h) w)) = fk_min_fee (net w)"
proof -
  obtain r w' where run: "poll_loop fake_server h 29 None w = (r, w')" by fastforce
  from fake_poll_loop_seq [of h 29 None w] fake_poll_loop_min_fee [of h 29 None w] run
  have "fk_seq (net w') = fk_seq (net w)" "fk_min_fee (net w') = fk_min_fee (net w)" by simp_all
  then show "fk_seq (net (state_of (getPollingTransaction fake_server h) w)) = fk_seq (net w)"
    "fk_min_fee (net (state_of (getPollingTransaction fake_server h) w)) = fk_min_fee (net w)"
    using run
    by (auto simp: getPollingTransaction_unfold pollTransaction_def DEFAULT_GET_TRANSACTION_TIMEOUT_def
             split: sum.splits option.splits)
qed

lemmas fake_getPollingTransaction_seq = fake_getPollingTransaction_keeps(1)

subsection \<open>Rules of the logic\<close>

text \<open>A program that leaves the fake endpoint's accounts and fee alone.\<close>

lemma consumes_none:
  assumes "\<And>w. fk_min_fee (net w) \<le> BASE_FEE \<Longrightarrow>
             fk_seq (net (state_of m w)) = fk_seq (net w) \<and> fk_min_fee (net (state_of m w)) = fk_min_fee (net w)"
  shows "consumes a 0 m"
  using assms by (simp add: consumes_def option.map_ident)

lemma consumes_ret [consumes_intros]: "consumes a 0 (ret x)"
  by (rule consumes_none) (simp add: ret_def)

lemma consumes_throw [consumes_intros]: "consumes a k (throw e)"
  by (auto simp: consumes_def throw_def option.map_ident)

lemma consumes_lift_sync [consumes_intros]: "consumes a 0 (lift_sync r)"
  by (cases r) (simp_all add: consumes_ret consumes_throw)

lemma map_option_add_int: "map_option (\<lambda>s. s + int d2) (map_option (\<lambda>s. s + int d1) x) = map_option (\<lambda>s. s + int (d1 + d2)) x"
  by (cases x) simp_all

lemma consumes_bind:
  assumes m: "consumes a k1 m" and f: "\<And>x. consumes a k2 (f x)" and k: "k = k1 + k2"
  shows "consumes a k (bind_p m f)"
  unfolding consumes_def
proof (intro allI impI)
  fix w :: "fake_net world" assume fee: "fk_min_fee (net w) \<le> BASE_FEE"
  obtain r w1 where run: "m w = (r, w1)" by fastforce
  from m fee run obtain d1 where fee1: "fk_min_fee (net w1) = fk_min_fee (net w)"
    and other1: "\<And>b. b \<noteq> a \<Longrightarrow> fk_seq (net w1) b = fk_seq (net w) b"
    and d1: "d1 \<le> k1" "fk_seq (net w1) a = map_option (\<lambda>s. s + int d1) (fk_seq (net w) a)"
    and ok1: "\<And>x. r = Inr x \<Longrightarrow> d1 = k1"
    unfolding consumes_def by (metis fst_conv snd_conv)
  show "fk_min_fee (net (state_of (bind_p m f) w)) = fk_min_fee (net w) \<and>
        (\<forall>b. b \<noteq> a \<longrightarrow> fk_seq (net (state_of (bind_p m f) w)) b = fk_seq (net w) b) \<and>
        (\<exists>d \<le> k. fk_seq (net (state_of (bind_p m f) w)) a = map_option (\<lambda>s. s + int d) (fk_seq (net w) a) \<and>
                 (\<forall>x. result_of (bind_p m f) w = Inr x \<longrightarrow> d = k))"
  proof (cases r)
    case (Inl e)
    with run fee1 other1 d1 k show ?thesis by (auto simp: bind_p_def intro!: exI [of _ d1])
  next
    case (Inr x)
    obtain r2 w2 where run2: "f x w1 = (r2, w2)" by fastforce
    from f [of x] fee fee1 run2 obtain d2 where fee2: "fk_min_fee (net w2) = fk_min_fee (net w1)"
      and other2: "\<And>b. b \<noteq> a \<Longrightarrow> fk_seq (net w2) b = fk_seq (net w1) b"
      and d2: "d2 \<le> k2" "fk_seq (net w2) a = map_option (\<lambda>s. s + int d2) (fk_seq (net w1) a)"
      and ok2: "\<And>y. r2 = Inr y \<Longrightarrow> d2 = k2"
      unfolding consumes_def by (metis fst_conv snd_conv order.refl)
    have "fk_seq (net w2) a = map_option (\<lambda>s. s + int (d1 + d2)) (fk_seq (net w) a)"
      using d1 d2 by (simp add: map_option_add_int)
    moreover have "d1 + d2 \<le> k" using d1 d2 k by simp
    moreover have "\<And>y. r2 = Inr y \<Longrightarrow> d1 + d2 = k" using ok1 [OF Inr] ok2 k by simp
    ultimately show ?thesis using run Inr run2 fee1 fee2 other1 other2
      by (auto simp: bind_p_def intro!: exI [of _ "d1 + d2"])
  qed
qed

lemma consumes_zero_keeps:
  assumes "consumes a 0 m" and "fk_min_fee (net w) \<le> BASE_FEE"
  shows "fk_seq (net (state_of m w)) = fk_seq (net w) \<and> fk_min_fee (net (state_of m w)) = fk_min_fee (net w)"
proof -
  from assms have "fk_seq (net (state_of m w)) b = fk_seq (net w) b" for b
    unfolding consumes_def by (cases "b = a") (auto simp: option.map_ident)
  with assms show ?thesis unfolding consumes_def by auto
qed

lemma consumes_catch [consumes_intros]:
  assumes m: "consumes a 0 m" and h: "\<And>e. consumes a 0 (h e)"
  shows "consumes a 0 (catch_p m h)"
proof (rule consumes_none)
  fix w :: "fake_net world" assume fee: "fk_min_fee (net w) \<le> BASE_FEE"
  obtain r w1 where run: "m w = (r, w1)" by fastforce
  from consumes_zero_keeps [OF m fee] run
  have 1: "fk_seq (net w1) = fk_seq (net w)" "fk_min_fee (net w1) = fk_min_fee (net w)" by simp_all
  show "fk_seq (net (state_of (catch_p m h) w)) = fk_seq (net w) \<and>
        fk_min_fee (net (state_of (catch_p m h) w)) = fk_min_fee (net w)"
  proof (cases "\<exists>e. r = Inl (Thrown e)")
    case True
    then obtain e where e: "r = Inl (Thrown e)" by blast
    from consumes_zero_keeps [OF h [of e], of w1] fee 1 run e show ?thesis by (simp add: catch_p_def)
  next
    case False
    then have "catch_p m h w = (r, w1)" using run by (simp add: catch_p_result split: sum.splits abrupt.splits)
    with 1 show ?thesis by simp
  qed
qed

lemma consumes_if [consumes_intros]: "consumes a k x \<Longrightarrow> consumes a k y \<Longrightarrow> consumes a k (if c then x else y)"
  by simp

lemma consumes_case_option [consumes_intros]:
  "consumes a k x \<Longrightarrow> (\<And>v. consumes a k (y v)) \<Longrightarrow> consumes a k (case ov of None \<Rightarrow> x | Some v \<Rightarrow> y v)"
  by (cases ov) simp_all

lemma consumes_case_list [consumes_intros]:
  "consumes a k x \<Longrightarrow> (\<And>v vs. consumes a k (y v vs)) \<Longrightarrow> consumes a k (case l of [] \<Rightarrow> x | v # vs \<Rightarrow> y v vs)"
  by (cases l) simp_all

lemma consumes_quiet_ops [consumes_intros]:
  "consumes a 0 (rpc_getAccount fake_server b)" "consumes a 0 (rpc_prepareTransaction fake_server tx)"
  "consumes a 0 (rpc_getTransaction fake_server h)" "consumes a 0 (rpc_simulateTransaction fake_server tx)"
  "consumes a 0 (rpc_getLatestLedger fake_server)" "consumes a 0 (rpc_getEvents fake_server start ids lim)"
  "consumes a 0 (console_log l)" "consumes a 0 (console_error l)"
  "consumes a 0 (fs_existsSync f)" "consumes a 0 (fs_readFileSync f)"
  by (rule consumes_none; simp add: prog_simps console_log_def console_error_def
        split: prod.splits list.splits option.splits)+

lemma consumes_process_exit [consumes_intros]: "consumes a k (process_exit n)"
  unfolding process_exit_def by (rule consumes_throw)

subsection \<open>Submissions\<close>

text \<open>A submission reads the signer's account right before building, so the endpoint
  accepts it and it consumes one sequence number, unless an earlier step fails.\<close>

lemma consumes_submitStellarTransaction_signer:
  assumes "sst_provider p = fake_server" and "BASE_FEE \<le> js_default BASE_FEE (sst_fee p)"
  shows "consumes (kp_public (sst_signer p)) 1 (submitStellarTransaction p)"
  unfolding consumes_def
  apply (intro allI impI)
  subgoal for w
    using assms(1) order_trans [OF _ assms(2), of "fk_min_fee (net w)"]
    by (cases "fk_seq (net w) (kp_public (sst_signer p))"; cases "fk_prepare_error (net w)")
       (auto simp: submitStellarTransaction_stages fake_defs built_tx_def tx_sign_def Let_def option.map_ident
          fake_getPollingTransaction_keeps split: prod.splits sum.splits list.splits intro!: exI [of _ 1])
  done

lemma consumes_submitStellarTransaction [consumes_intros]:
  "sst_provider p = fake_server \<Longrightarrow> kp_public (sst_signer p) = a \<Longrightarrow> BASE_FEE \<le> js_default BASE_FEE (sst_fee p) \<Longrightarrow>
   consumes a 1 (submitStellarTransaction p)"
  using consumes_submitStellarTransaction_signer by blast

lemma consumes_bind0 [consumes_intros]:
  "consumes a 0 m \<Longrightarrow> (\<And>x. consumes a k (f x)) \<Longrightarrow> consumes a k (bind_p m f)"
  using consumes_bind [of a 0 m k f k] by simp

lemma consumes_bind_then0:
  "consumes a k m \<Longrightarrow> (\<And>x. consumes a 0 (f x)) \<Longrightarrow> consumes a k (bind_p m f)"
  using consumes_bind [of a k m 0 f k] by simp

lemma consumes_submitTransaction [consumes_intros]:
  "st_provider q = fake_server \<Longrightarrow> kp_public (st_signer q) = a \<Longrightarrow> consumes a 1 (submitTransaction q)"
  unfolding submitTransaction_def Let_def
  by (rule consumes_bind_then0, rule consumes_submitStellarTransaction) (simp_all add: consumes_ret BASE_FEE_def)

lemma consumes_buildAndSendTransaction [consumes_intros]:
  "consumes (kp_public kp) 1 (buildAndSendTransaction fake_server kp op)"
proof (cases "kp_secret kp")
  case None
  then show ?thesis
    unfolding buildAndSendTransaction_def buildTransaction_def keypair_fromSecret_secret_def
    by simp (intro consumes_bind0 consumes_quiet_ops consumes_lift_sync consumes_throw)
next
  case (Some s)
  show ?thesis
    apply (subst buildAndSendTransaction_stages)
    using Some apply simp
    apply (rule consumes_submitStellarTransaction)
    apply simp_all
    done
qed

lemma consumes_deploy [consumes_intros]:
  "consumes (kp_public kp) 1 (uploadWasm fake_server kp path)"
  "consumes (kp_public kp) 1 (deployContract fake_server kp r)"
  unfolding uploadWasm_def deployContract_def Let_def
  by (intro consumes_bind0 consumes_if consumes_case_option consumes_quiet_ops consumes_lift_sync consumes_throw
        consumes_process_exit consumes_bind_then0 [OF consumes_buildAndSendTransaction] consumes_ret)+

lemma consumes_simulateTransaction [consumes_intros]:
  assumes "sim_provider q = fake_server"
  shows "consumes a 0 (simulateTransaction q)"
  unfolding simulateTransaction_def Let_def assms
  by (intro consumes_catch consumes_bind0 consumes_quiet_ops consumes_lift_sync consumes_throw consumes_ret;
      simp split: sim_response.split option.split add: consumes_ret consumes_throw)

subsection \<open>The scripts\<close>

lemma consumes_driver_pieces [consumes_intros]:
  "consumes a 0 (banner title)" "consumes a 0 (startup p0 kp0)" "consumes a 0 (log_value label v)"
  "consumes a 0 (print_events evs)"
proof -
  show "consumes a 0 (banner title)" "consumes a 0 (startup p0 kp0)" "consumes a 0 (log_value label v)"
    unfolding banner_def startup_def log_value_def
    by (intro consumes_bind0 consumes_case_option consumes_quiet_ops consumes_lift_sync consumes_ret)+
  show "consumes a 0 (print_events evs)"
    by (induction evs) (simp_all add: consumes_ret consumes_throw consumes_bind0 consumes_quiet_ops split: list.split)
qed

lemma consumes_deploy_wrappers [consumes_intros]:
  "consumes (kp_public kp) 2 (deployIncrementContract fake_server kp)"
  "consumes (kp_public kp) 2 (deployEventsContract fake_server kp)"
  unfolding deployIncrementContract_def deployEventsContract_def Let_def
  by (rule consumes_bind0 consumes_quiet_ops consumes_bind [of _ 1 _ 1] consumes_deploy
        consumes_bind_then0 consumes_ret | simp)+

lemma consumes_increment_loop [consumes_intros]:
  "consumes (kp_public kp) k (increment_loop fake_server kp c i k)"
proof (induction k arbitrary: i)
  case 0 then show ?case by (simp add: consumes_ret)
next
  case (Suc k) show ?case
    unfolding increment_loop.simps
    by (rule consumes_bind [of _ 1 _ k], rule consumes_submitTransaction, simp_all)
       (rule consumes_bind0 consumes_driver_pieces Suc.IH)+
qed

text \<open>What \<open>consumes\<close> says of one run from an existing account.\<close>

lemma consumes_run:
  assumes "consumes a k m" and "fk_min_fee (net w) \<le> BASE_FEE" and "fk_seq (net w) a = Some s"
  shows "case m w of (r, w') \<Rightarrow>
           (\<forall>b. b \<noteq> a \<longrightarrow> fk_seq (net w') b = fk_seq (net w) b) \<and>
           (\<exists>d \<le> k. fk_seq (net w') a = Some (s + int d) \<and> (\<forall>x. r = Inr x \<longrightarrow> d = k))"
  using assms unfolding consumes_def by (auto split: prod.splits)

text \<open>The key pair \<open>startup\<close> returns is the configured one.\<close>

lemma bind_startup_Inr:
  "bind_p (startup p0 (Inr kp)) f =
     bind_p (lift_sync p0) (\<lambda>_.
     bind_p (console_log [OText ''Stellar provider initialized successfully'']) (\<lambda>_.
     bind_p (console_log [OText ''User account: '', OAddress (kp_public kp)]) (\<lambda>_. f kp)))"
  by (simp add: startup_def bind_p_assoc)

lemma consumes_main_increment: "consumes (kp_public kp) 7 (main_increment fake_server p0 (Inr kp))"
  unfolding main_increment_def Let_def bind_startup_Inr
  apply (rule consumes_bind0, rule consumes_driver_pieces consumes_lift_sync consumes_quiet_ops consumes_simulateTransaction)+
  apply (rule consumes_bind [of _ 2 _ 5], rule consumes_deploy_wrappers)
  apply (rule consumes_bind0, rule consumes_driver_pieces consumes_lift_sync consumes_quiet_ops consumes_simulateTransaction)+
  apply (rule consumes_bind [of _ 3 _ 2], rule consumes_increment_loop)
  apply (rule consumes_bind0, rule consumes_driver_pieces consumes_lift_sync consumes_quiet_ops consumes_simulateTransaction)+
  apply (rule consumes_bind [of _ 1 _ 1], rule consumes_submitTransaction, simp, simp)
  apply (rule consumes_bind0, rule consumes_driver_pieces consumes_lift_sync consumes_quiet_ops consumes_simulateTransaction)+
  apply (rule consumes_bind_then0, rule consumes_submitTransaction, simp, simp)
  apply (rule consumes_bind0, rule consumes_driver_pieces consumes_lift_sync consumes_quiet_ops consumes_simulateTransaction)+
  apply (simp_all add: consumes_driver_pieces)
  done

lemma consumes_main_events: "consumes (kp_public kp) 5 (main_events fake_server p0 (Inr kp))"
  unfolding main_events_def Let_def bind_startup_Inr events_increment_loop_eq
  apply (rule consumes_bind0, rule consumes_driver_pieces consumes_lift_sync consumes_quiet_ops consumes_simulateTransaction)+
  apply (rule consumes_bind [of _ 2 _ 3], rule consumes_deploy_wrappers)
  apply (rule consumes_bind0, rule consumes_driver_pieces consumes_lift_sync consumes_quiet_ops consumes_simulateTransaction)+
  apply (rule consumes_bind_then0, rule consumes_increment_loop)
  apply (rule consumes_bind0, rule consumes_driver_pieces consumes_lift_sync consumes_quiet_ops consumes_simulateTransaction)+
  apply (rule consumes_driver_pieces, simp)
  done

lemma submitStellarTransaction_halves:
  "submitStellarTransaction p = bind_p (submit_prepare p) (submit_finish p)"
  by (simp add: submitStellarTransaction_def submit_prepare_def submit_finish_def [abs_def] Let_def bind_p_assoc)

lemma sent_txs_append [simp]: "sent_txs (xs @ ys) = sent_txs xs @ sent_txs ys"
  by (induction xs rule: sent_txs.induct) simp_all

lemma sent_txs_replicate_get [simp]: "sent_txs (replicate j (GetTransaction h)) = []"
  by (induction j) simp_all

lemma fake_submit_prepare:
  assumes "sst_provider p = fake_server" and "fk_seq (net w) (kp_public (sst_signer p)) = Some s"
    and "fk_prepare_error (net w) = None"
  shows "submit_prepare p w =
     (Inr (sst_tx p \<lparr>acc_id = kp_public (sst_signer p), acc_seq = s\<rparr>),
      w\<lparr>calls := calls w @ [GetAccount (kp_public (sst_signer p)),
                           PrepareTransaction (sst_tx p \<lparr>acc_id = kp_public (sst_signer p), acc_seq = s\<rparr>)]\<rparr>)"
  using assms by (simp add: submit_prepare_def Let_def helpers_build_eq fake_defs prog_simps)

text \<open>The second half: the send goes to the fake endpoint, then only status queries.\<close>

lemma fake_send_Inr: "\<exists>resp. fst (fake_send n tx) = Inr resp"
  by (simp add: fake_send_def Let_def split: option.split)

lemma getPollingTransaction_not_exit: "result_of (getPollingTransaction srv h) w \<noteq> Inl (Exit n)"
  by (simp add: getPollingTransaction_unfold split: prod.split sum.split option.split)

lemma fake_submit_finish:
  assumes "sst_provider p = fake_server"
  obtains r w' where "settle (submit_finish p t) w = (Inr r, w')"
    and "fk_seq (net w') = fk_seq (snd (fake_send (net w) (tx_sign (sst_signer p) t)))"
    and "sent_txs (calls w') = sent_txs (calls w) @ [tx_sign (sst_signer p) t]"
proof -
  let ?tx = "tx_sign (sst_signer p) t"
  obtain resp n1 where send: "fake_send (net w) ?tx = (Inr resp, n1)"
    using fake_send_Inr [of "net w" ?tx] by (metis prod.collapse)
  let ?w1 = "w\<lparr>net := n1, calls := calls w @ [SendTransaction ?tx]\<rparr>"
  obtain r2 w2 where poll: "getPollingTransaction fake_server (sr_hash resp) ?w1 = (r2, w2)" by fastforce
  obtain j where j: "calls w2 = calls ?w1 @ replicate j (GetTransaction (sr_hash resp))"
    using getPollingTransaction_calls [of fake_server "sr_hash resp" ?w1] poll by auto
  have seq: "fk_seq (net w2) = fk_seq n1"
    using fake_getPollingTransaction_keeps(1) [of "sr_hash resp" ?w1] poll by simp
  have nx: "r2 \<noteq> Inl (Exit n)" for n
    using getPollingTransaction_not_exit [of fake_server "sr_hash resp" ?w1 n] poll by simp
  have "\<exists>r. settle (submit_finish p t) w = (Inr r, w2)"
    using assms send poll nx
    by (auto simp: submit_finish_def settle_def Let_def bind_p_def ret_def rpc_sendTransaction_def rpc_def
          fake_server_simps split: sum.splits abrupt.splits)
  then obtain r where "settle (submit_finish p t) w = (Inr r, w2)" by blast
  moreover have "fk_seq (net w2) = fk_seq (snd (fake_send (net w) ?tx))" using seq send by simp
  moreover have "sent_txs (calls w2) = sent_txs (calls w) @ [?tx]" using j by simp
  ultimately show ?thesis using that by blast
qed

text \<open>The sequence numbers after a send to the fake endpoint.\<close>

lemma fake_send_seq:
  "fk_seq (snd (fake_send n tx)) =
     (case fk_seq n (tx_source tx) of
        Some s \<Rightarrow> if fk_min_fee n \<le> tx_fee tx \<and> tx_seq tx = s + 1 then (fk_seq n)(tx_source tx \<mapsto> s + 1) else fk_seq n
      | None \<Rightarrow> fk_seq n)"
  by (simp add: fake_send_def Let_def split: option.split)

text \<open>C38. Two submissions with the same key whose account reads both come before
  either send, as when two of the scripts run at once: both transactions carry the
  same sequence number \<open>s + 1\<close>, the endpoint accepts the first and rejects the
  second for its stale number, and the signer's number ends at \<open>s + 1\<close>. Both
  processes still run to their end, because \<open>submitStellarTransaction\<close> polls the
  hash of a rejected submission as if it had been accepted.\<close>

theorem interleaved_submissions_collide:
  assumes "sst_provider p1 = fake_server" and "sst_provider p2 = fake_server"
    and "kp_public (sst_signer p1) = a" and "kp_public (sst_signer p2) = a"
    and "fk_seq (net w) a = Some s" and "fk_prepare_error (net w) = None"
    and "fk_min_fee (net w) \<le> js_default BASE_FEE (sst_fee p1)"
  shows "case interleaved_submissions p1 p2 w of (r, w') \<Rightarrow>
           (\<exists>r1 r2. r = Inr (r1, r2)) \<and> fk_seq (net w') a = Some (s + 1) \<and>
           (\<exists>t1 t2. sent_txs (calls w') = sent_txs (calls w) @ [t1, t2] \<and>
                    tx_source t1 = a \<and> tx_source t2 = a \<and> tx_seq t1 = s + 1 \<and> tx_seq t2 = s + 1)"
proof -
  let ?acc = "\<lparr>acc_id = a, acc_seq = s\<rparr>"
  let ?t1 = "sst_tx p1 ?acc" and ?t2 = "sst_tx p2 ?acc"
  let ?w1 = "w\<lparr>calls := calls w @ [GetAccount a, PrepareTransaction ?t1]\<rparr>"
  let ?w2 = "?w1\<lparr>calls := calls ?w1 @ [GetAccount a, PrepareTransaction ?t2]\<rparr>"
  have prep1: "submit_prepare p1 w = (Inr ?t1, ?w1)"
    using fake_submit_prepare [of p1 w s] assms by simp
  have prep2: "submit_prepare p2 ?w1 = (Inr ?t2, ?w2)"
    using fake_submit_prepare [of p2 ?w1 s] assms by simp
  obtain r1 w3 where fin1: "settle (submit_finish p1 ?t1) ?w2 = (Inr r1, w3)"
    and seq3: "fk_seq (net w3) = fk_seq (snd (fake_send (net ?w2) (tx_sign (sst_signer p1) ?t1)))"
    and sent3: "sent_txs (calls w3) = sent_txs (calls ?w2) @ [tx_sign (sst_signer p1) ?t1]"
    by (rule fake_submit_finish [OF assms(1)])
  obtain r2 w4 where fin2: "settle (submit_finish p2 ?t2) w3 = (Inr r2, w4)"
    and seq4: "fk_seq (net w4) = fk_seq (snd (fake_send (net w3) (tx_sign (sst_signer p2) ?t2)))"
    and sent4: "sent_txs (calls w4) = sent_txs (calls w3) @ [tx_sign (sst_signer p2) ?t2]"
    by (rule fake_submit_finish [OF assms(2)])
  have s3: "fk_seq (net w3) = (fk_seq (net w))(a \<mapsto> s + 1)"
    using seq3 assms by (simp add: fake_send_seq tx_sign_def built_tx_def)
  have s4: "fk_seq (net w4) = fk_seq (net w3)"
    using seq4 s3 assms by (simp add: fake_send_seq tx_sign_def built_tx_def)
  have run: "interleaved_submissions p1 p2 w = (Inr (r1, r2), w4)"
    using prep1 prep2 fin1 fin2 by (simp add: interleaved_submissions_def bind_p_def ret_def)
  show ?thesis
    using run s3 s4 sent3 sent4 assms by (simp add: tx_sign_def built_tx_def)
qed

theorem interleaved_submissions_collide_witness:
  "case interleaved_submissions scenario_params scenario_params (fake_world scenario_net) of (r, w') \<Rightarrow>
     (\<exists>r1 r2. r = Inr (r1, r2)) \<and> fk_seq (net w') (kp_public signer_kp) = Some (5 + 1) \<and>
     (\<exists>t1 t2. sent_txs (calls w') = sent_txs (calls (fake_world scenario_net)) @ [t1, t2] \<and>
              tx_source t1 = kp_public signer_kp \<and> tx_source t2 = kp_public signer_kp \<and>
              tx_seq t1 = 5 + 1 \<and> tx_seq t2 = 5 + 1)"
  by (rule interleaved_submissions_collide) (simp_all add: scenario_params_def scenario_net_def signer_kp_def BASE_FEE_def)


text \<open>C37. Sequence numbers over whole scripts, on an endpoint that enforces them and
  whose minimum fee the base fee meets: a run of \<open>increment/index.ts\<close> changes the
  sequence number of no account but the signer's, raises the signer's by at most 7
  (the two deployment transactions, three \<open>increment\<close> calls, \<open>get_count\<close> and
  \<open>reset\<close>), and by exactly 7 when it completes: because every submission reads the
  account right before building, none is ever rejected for a stale sequence number.
  A run of \<open>events/index.ts\<close> likewise consumes at most 5, exactly 5 when it
  completes.\<close>

theorem scripts_consume_sequence_numbers:
  assumes "fk_min_fee (net w) \<le> BASE_FEE" and "fk_seq (net w) (kp_public kp) = Some s"
  shows "(case main_increment fake_server p0 (Inr kp) w of (r, w') \<Rightarrow>
            (\<forall>b. b \<noteq> kp_public kp \<longrightarrow> fk_seq (net w') b = fk_seq (net w) b) \<and>
            (\<exists>d \<le> 7. fk_seq (net w') (kp_public kp) = Some (s + int d) \<and> (r = Inr () \<longrightarrow> d = 7))) \<and>
         (case main_events fake_server p0 (Inr kp) w of (r, w') \<Rightarrow>
            (\<forall>b. b \<noteq> kp_public kp \<longrightarrow> fk_seq (net w') b = fk_seq (net w) b) \<and>
            (\<exists>d \<le> 5. fk_seq (net w') (kp_public kp) = Some (s + int d) \<and> (r = Inr () \<longrightarrow> d = 5)))"
  using consumes_run [OF consumes_main_increment assms] consumes_run [OF consumes_main_events assms]
  by (simp split: prod.splits)

theorem scripts_consume_sequence_numbers_witness:
  "(case main_increment fake_server (Inr ()) (Inr signer_kp) demo_world of (r, w') \<Rightarrow>
      (\<forall>b. b \<noteq> kp_public signer_kp \<longrightarrow> fk_seq (net w') b = fk_seq (net demo_world) b) \<and>
      (\<exists>d \<le> 7. fk_seq (net w') (kp_public signer_kp) = Some (5 + int d) \<and> (r = Inr () \<longrightarrow> d = 7))) \<and>
   (case main_events fake_server (Inr ()) (Inr signer_kp) demo_world of (r, w') \<Rightarrow>
      (\<forall>b. b \<noteq> kp_public signer_kp \<longrightarrow> fk_seq (net w') b = fk_seq (net demo_world) b) \<and>
      (\<exists>d \<le> 5. fk_seq (net w') (kp_public signer_kp) = Some (5 + int d) \<and> (r = Inr () \<longrightarrow> d = 5)))"
  using scripts_consume_sequence_numbers [of demo_world signer_kp 5 "Inr ()"]
  by (simp add: demo_world_def demo_net_def scenario_net_def signer_kp_def BASE_FEE_def)

end
