(* ===== verification/Fake_Runs.thy ===== *)
theory Fake_Runs
  imports Sequence_Numbers
begin

text \<open>
  Complete runs on the fake endpoint of \<open>Fake_Net\<close>. A submission to that endpoint,
  read, built, prepared, signed, sent and polled by \<open>submitStellarTransaction\<close>,
  evaluates in closed form whenever the signer's account exists, the preparation
  succeeds, the fee meets the minimum and the status script settles within the
  poller's budget (\<open>fake_submitStellarTransaction\<close>). With it the spec's two
  scenarios of section 8 hold for every account, call, hash and number of
  \<open>PENDING\<close> answers, and the two scripts run to completion on any endpoint that
  confirms each of their transactions on the first status query: the increment
  script prints exactly the values the endpoint returned, and the events script
  reaches its listing with exactly the events the endpoint holds for the contract
  it created.
\<close>

subsection \<open>One submission\<close>

text \<open>The SDK's loop on a status script of \<open>j\<close> \<open>NOT_FOUND\<close> answers followed by a
  settled one, with more than \<open>j\<close> attempts left.\<close>

lemma fake_poll_loop_settles:
  assumes "fk_polls (net w) = replicate j (NOT_FOUND, None) @ (st, rv) # rest" and "st \<noteq> NOT_FOUND" and "j < k"
  shows "poll_loop fake_server h k f w =
           (Inr (Some \<lparr>gt_status = st, gt_txHash = h, gt_returnValue = rv\<rparr>),
            w\<lparr>net := (net w)\<lparr>fk_polls := rest\<rparr>, calls := calls w @ replicate (Suc j) (GetTransaction h)\<rparr>)"
  using assms(1,3)
proof (induction j arbitrary: k f w)
  case 0
  then obtain k' where "k = Suc k'" by (cases k) auto
  with 0 assms(2) show ?case by (simp add: prog_simps)
next
  case (Suc j)
  then obtain k' where k: "k = Suc k'" and "j < k'" by (cases k) auto
  let ?w1 = "w\<lparr>net := (net w)\<lparr>fk_polls := replicate j (NOT_FOUND, None) @ (st, rv) # rest\<rparr>,
                calls := calls w @ [GetTransaction h]\<rparr>"
  have "poll_loop fake_server h k f w = poll_loop fake_server h k' (Some \<lparr>gt_status = NOT_FOUND, gt_txHash = h, gt_returnValue = None\<rparr>) ?w1"
    using Suc.prems k by (simp add: prog_simps)
  also have "\<dots> = (Inr (Some \<lparr>gt_status = st, gt_txHash = h, gt_returnValue = rv\<rparr>),
            w\<lparr>net := (net w)\<lparr>fk_polls := rest\<rparr>, calls := calls w @ replicate (Suc (Suc j)) (GetTransaction h)\<rparr>)"
    using Suc.IH [where w = ?w1 and k = k'] \<open>j < k'\<close> by (simp add: replicate_append_same)
  finally show ?case .
qed

lemma fake_getPollingTransaction_settles:
  assumes "fk_polls (net w) = replicate j (NOT_FOUND, None) @ (st, rv) # rest" and "st \<noteq> NOT_FOUND" and "j < 29"
  shows "getPollingTransaction fake_server h w =
           (if st = SUCCESS \<and> rv \<noteq> None then Inr \<lparr>gt_status = st, gt_txHash = h, gt_returnValue = rv\<rparr>
            else Inl (Thrown (Error ''Error fetching transaction'')),
            w\<lparr>net := (net w)\<lparr>fk_polls := rest\<rparr>, calls := calls w @ replicate (Suc j) (GetTransaction h)\<rparr>)"
  using fake_poll_loop_settles [OF assms(1,2), of 29 h None] assms(3)
  by (simp add: getPollingTransaction_unfold pollTransaction_def DEFAULT_GET_TRANSACTION_TIMEOUT_def)

text \<open>A whole submission: the signer's account read, the transaction with the next
  sequence number, the send consuming that number and the next hash, then
  \<open>j + 1\<close> status queries for that hash.\<close>

lemma fake_submitStellarTransaction:
  assumes "sst_provider p = fake_server" and "kp_public (sst_signer p) = a"
    and "fk_seq (net w) a = Some s" and "fk_prepare_error (net w) = None"
    and "fk_min_fee (net w) \<le> js_default BASE_FEE (sst_fee p)"
    and "fk_polls (net w) = replicate j (NOT_FOUND, None) @ (st, rv) # rest" and "st \<noteq> NOT_FOUND" and "j < 29"
    and "h = (case fk_hashes (net w) of [] \<Rightarrow> '''' | h # _ \<Rightarrow> h)"
  shows "submitStellarTransaction p w =
    (if st = SUCCESS \<and> rv \<noteq> None then Inr \<lparr>gt_status = st, gt_txHash = h, gt_returnValue = rv\<rparr>
     else Inl (Thrown (Error ''Error fetching transaction'')),
     w\<lparr>net := (net w)\<lparr>fk_hashes := drop 1 (fk_hashes (net w)), fk_seq := (fk_seq (net w))(a \<mapsto> s + 1), fk_polls := rest\<rparr>,
       calls := calls w @ [GetAccount a, PrepareTransaction (sst_tx p \<lparr>acc_id = a, acc_seq = s\<rparr>),
                           SendTransaction (tx_sign (sst_signer p) (sst_tx p \<lparr>acc_id = a, acc_seq = s\<rparr>))]
                        @ replicate (Suc j) (GetTransaction h)\<rparr>)"
proof -
  let ?acc = "\<lparr>acc_id = a, acc_seq = s\<rparr>"
  let ?w3 = "w\<lparr>net := (net w)\<lparr>fk_hashes := drop 1 (fk_hashes (net w)), fk_seq := (fk_seq (net w))(a \<mapsto> s + 1)\<rparr>,
                calls := calls w @ [GetAccount a, PrepareTransaction (sst_tx p ?acc),
                                    SendTransaction (tx_sign (sst_signer p) (sst_tx p ?acc))]\<rparr>"
  have "submitStellarTransaction p w = getPollingTransaction fake_server h ?w3"
    using assms(1-5,9) by (simp add: submitStellarTransaction_stages fake_defs built_tx_def tx_sign_def Let_def)
  moreover have "fk_polls (net ?w3) = replicate j (NOT_FOUND, None) @ (st, rv) # rest" using assms(6) by simp
  ultimately show ?thesis using fake_getPollingTransaction_settles [of ?w3 j st rv rest h] assms(7,8) by simp
qed

text \<open>The same on a first status query that settles: the form in which the
  submissions of a script evaluate one after another.\<close>

lemma fake_submit_settles:
  assumes "sst_provider p = fake_server"
    and "fk_seq (net w) (kp_public (sst_signer p)) = Some s" and "fk_prepare_error (net w) = None"
    and "fk_min_fee (net w) \<le> js_default BASE_FEE (sst_fee p)"
    and "fk_polls (net w) = (st, rv) # rest" and "st \<noteq> NOT_FOUND"
  shows "submitStellarTransaction p w =
    (let h = (case fk_hashes (net w) of [] \<Rightarrow> '''' | h # _ \<Rightarrow> h) in
     (if st = SUCCESS \<and> rv \<noteq> None then Inr \<lparr>gt_status = st, gt_txHash = h, gt_returnValue = rv\<rparr>
      else Inl (Thrown (Error ''Error fetching transaction'')),
      w\<lparr>net := (net w)\<lparr>fk_hashes := drop 1 (fk_hashes (net w)),
                        fk_seq := (fk_seq (net w))(kp_public (sst_signer p) \<mapsto> s + 1), fk_polls := rest\<rparr>,
        calls := calls w @ [GetAccount (kp_public (sst_signer p)),
                            PrepareTransaction (sst_tx p \<lparr>acc_id = kp_public (sst_signer p), acc_seq = s\<rparr>),
                            SendTransaction (tx_sign (sst_signer p) (sst_tx p \<lparr>acc_id = kp_public (sst_signer p), acc_seq = s\<rparr>)),
                            GetTransaction h]\<rparr>))"
  using fake_submitStellarTransaction [OF assms(1) refl assms(2,3,4), of 0 st rv rest] assms(5,6)
  by (simp add: Let_def)


subsection \<open>The scenarios of the spec's section 8, in general\<close>

text \<open>C16. The spec's success scenario for any account, call and hash: when the
  signer's account has sequence number \<open>s\<close> and the transaction shows \<open>NOT_FOUND\<close>
  (\<open>PENDING\<close>) for \<open>j < 29\<close> status queries and is then confirmed with value \<open>v\<close>,
  \<open>submitTransaction\<close> builds the call with number \<open>s + 1\<close>, the base fee and the
  test network, prepares it, sends it signed, queries the hash it was given
  \<open>j + 1\<close> times, and returns the confirmed response with \<open>v\<close>; the endpoint has
  consumed number \<open>s + 1\<close>, that hash and those status answers.\<close>

theorem submitTransaction_confirmed:
  assumes "fk_seq (net w) (kp_public kp) = Some s" and "fk_prepare_error (net w) = None"
    and "fk_min_fee (net w) \<le> BASE_FEE" and "fk_hashes (net w) = h # hs"
    and "fk_polls (net w) = replicate j (NOT_FOUND, None) @ (SUCCESS, Some v) # rest" and "j < 29"
  shows "submitTransaction \<lparr>st_provider = fake_server, st_signer = kp, st_contract = c,
                            st_functionName = f, st_args = args\<rparr> w =
     (Inr \<lparr>gt_status = SUCCESS, gt_txHash = h, gt_returnValue = Some v\<rparr>,
      w\<lparr>net := (net w)\<lparr>fk_hashes := hs, fk_seq := (fk_seq (net w))(kp_public kp \<mapsto> s + 1), fk_polls := rest\<rparr>,
        calls := calls w @ [GetAccount (kp_public kp),
                            PrepareTransaction (built_tx \<lparr>acc_id = kp_public kp, acc_seq = s\<rparr> BASE_FEE TESTNET (InvokeContract c f args)),
                            SendTransaction (tx_sign kp (built_tx \<lparr>acc_id = kp_public kp, acc_seq = s\<rparr> BASE_FEE TESTNET
                                                           (InvokeContract c f args)))]
                         @ replicate (Suc j) (GetTransaction h)\<rparr>)"
  using fake_submitStellarTransaction [where p = "\<lparr>sst_provider = fake_server, sst_signer = kp,
      sst_networkPassphrase = Some TESTNET, sst_fee = Some BASE_FEE, sst_operation = InvokeContract c f args\<rparr>"
      and a = "kp_public kp" and h = h] assms
  by (simp add: submitTransaction_def contract_call_def prog_simps)

theorem submitTransaction_confirmed_witness:
  "submitTransaction \<lparr>st_provider = fake_server, st_signer = signer_kp, st_contract = counter_id,
                      st_functionName = ''increment'', st_args = []\<rparr> (fake_world scenario_net) =
     (Inr \<lparr>gt_status = SUCCESS, gt_txHash = ''abc'', gt_returnValue = Some (ScvU32 42)\<rparr>,
      (fake_world scenario_net)\<lparr>net := scenario_net\<lparr>fk_hashes := [], fk_seq := (fk_seq scenario_net)(kp_public signer_kp \<mapsto> 5 + 1),
                                                    fk_polls := []\<rparr>,
        calls := [GetAccount (kp_public signer_kp),
                  PrepareTransaction (built_tx \<lparr>acc_id = kp_public signer_kp, acc_seq = 5\<rparr> BASE_FEE TESTNET
                                        (InvokeContract counter_id ''increment'' [])),
                  SendTransaction (tx_sign signer_kp (built_tx \<lparr>acc_id = kp_public signer_kp, acc_seq = 5\<rparr> BASE_FEE TESTNET
                                                        (InvokeContract counter_id ''increment'' [])))]
                 @ replicate (Suc 2) (GetTransaction ''abc'')\<rparr>)"
  using submitTransaction_confirmed [of "fake_world scenario_net" signer_kp 5 "''abc''" "[]" 2 "ScvU32 42" "[]"
      counter_id "''increment''" "[]"]
  by (simp add: scenario_net_def signer_kp_def BASE_FEE_def numeral_2_eq_2)

text \<open>C17. The spec's failure scenario for any account, call and hash: when the
  transaction is reported \<open>FAILED\<close> after \<open>j < 29\<close> \<open>NOT_FOUND\<close> answers,
  \<open>submitTransaction\<close> fails with the generic \<open>"Error fetching transaction"\<close>, which
  carries neither the status nor the hash the spec's scenario expects in a
  transaction-failed error, although the endpoint accepted the transaction and
  consumed sequence number \<open>s + 1\<close>.\<close>

theorem submitTransaction_failed:
  assumes "fk_seq (net w) (kp_public kp) = Some s" and "fk_prepare_error (net w) = None"
    and "fk_min_fee (net w) \<le> BASE_FEE" and "fk_hashes (net w) = h # hs"
    and "fk_polls (net w) = replicate j (NOT_FOUND, None) @ (FAILED, rv) # rest" and "j < 29"
  shows "submitTransaction \<lparr>st_provider = fake_server, st_signer = kp, st_contract = c,
                            st_functionName = f, st_args = args\<rparr> w =
     (Inl (Thrown (Error ''Error fetching transaction'')),
      w\<lparr>net := (net w)\<lparr>fk_hashes := hs, fk_seq := (fk_seq (net w))(kp_public kp \<mapsto> s + 1), fk_polls := rest\<rparr>,
        calls := calls w @ [GetAccount (kp_public kp),
                            PrepareTransaction (built_tx \<lparr>acc_id = kp_public kp, acc_seq = s\<rparr> BASE_FEE TESTNET (InvokeContract c f args)),
                            SendTransaction (tx_sign kp (built_tx \<lparr>acc_id = kp_public kp, acc_seq = s\<rparr> BASE_FEE TESTNET
                                                           (InvokeContract c f args)))]
                         @ replicate (Suc j) (GetTransaction h)\<rparr>)"
  using fake_submitStellarTransaction [where p = "\<lparr>sst_provider = fake_server, sst_signer = kp,
      sst_networkPassphrase = Some TESTNET, sst_fee = Some BASE_FEE, sst_operation = InvokeContract c f args\<rparr>"
      and a = "kp_public kp" and h = h] assms
  by (simp add: submitTransaction_def contract_call_def prog_simps)

theorem submitTransaction_failed_witness:
  "submitTransaction \<lparr>st_provider = fake_server, st_signer = signer_kp, st_contract = counter_id,
                      st_functionName = ''increment'', st_args = []\<rparr> (fake_world (scenario_net\<lparr>fk_polls := [(FAILED, None)]\<rparr>)) =
     (Inl (Thrown (Error ''Error fetching transaction'')),
      (fake_world (scenario_net\<lparr>fk_polls := [(FAILED, None)]\<rparr>))\<lparr>net := scenario_net\<lparr>fk_hashes := [],
          fk_seq := (fk_seq scenario_net)(kp_public signer_kp \<mapsto> 5 + 1), fk_polls := []\<rparr>,
        calls := [GetAccount (kp_public signer_kp),
                  PrepareTransaction (built_tx \<lparr>acc_id = kp_public signer_kp, acc_seq = 5\<rparr> BASE_FEE TESTNET
                                        (InvokeContract counter_id ''increment'' [])),
                  SendTransaction (tx_sign signer_kp (built_tx \<lparr>acc_id = kp_public signer_kp, acc_seq = 5\<rparr> BASE_FEE TESTNET
                                                        (InvokeContract counter_id ''increment'' [])))]
                 @ replicate (Suc 0) (GetTransaction ''abc'')\<rparr>)"
  using submitTransaction_failed [of "fake_world (scenario_net\<lparr>fk_polls := [(FAILED, None)]\<rparr>)" signer_kp 5 "''abc''" "[]" 0 None "[]"
      counter_id "''increment''" "[]"]
  by (simp add: scenario_net_def signer_kp_def BASE_FEE_def)

subsection \<open>Whole scripts\<close>

text \<open>C40. \<open>increment/index.ts\<close> runs to completion on an endpoint that confirms each
  of its seven transactions on the first status query, and prints exactly what the
  endpoint answered: the hash of the upload, the address the creation returned,
  the values of the three \<open>increment\<close> calls in order, the value of \<open>get_count\<close>,
  and the value of the final simulation; nothing else but the fixed lines. It
  consumes seven sequence numbers, seven status answers and 30 requests.\<close>

theorem main_increment_output:
  assumes "fk_seq (net w) (kp_public kp) = Some s" and "kp_secret kp \<noteq> None"
    and "fk_prepare_error (net w) = None" and "fk_min_fee (net w) \<le> BASE_FEE"
    and "files w ''contracts/increment/target/wasm32v1-none/release/soroban_increment_contract.wasm'' = Some code"
    and "fk_hashes (net w) = hex_encode salt # hs" and "length salt = 32" and "length wasmHash = 32"
    and "fk_polls (net w) = [(SUCCESS, Some (ScvBytes wasmHash)), (SUCCESS, Some (ScvAddress (ContractAddress ck))),
           (SUCCESS, Some va), (SUCCESS, Some vb), (SUCCESS, Some vd), (SUCCESS, Some vc), (SUCCESS, Some vr)] @ rest"
    and "fk_sim (net w) = SimSuccess (Some vf)"
  shows "\<exists>w'. main_increment fake_server (Inr ()) (Inr kp) w = (Inr (), w') \<and>
     stdout w' = stdout w @
       [[OText ''--------------------------------''], [OText ''Increment Example''], [OText ''--------------------------------''],
        [OText ''Stellar provider initialized successfully''], [OText ''User account: '', OAddress (kp_public kp)],
        [OText ''Deploying Increment Contract...''], [OText ''Uploaded Wasm: '', OText (hex_encode salt)],
        [OText ''Deployed Increment Contract: '', OAddress (ContractAddress ck)],
        [OText ''Contract deployed successfully. Address: '', OAddress (ContractAddress ck)],
        [OText (nl @ ''--- Calling increment() function multiple times ---'')]] @
       increment_lines 1 [va, vb, vd] @
       [[OText (nl @ ''--- Getting current value ---'')], [OText ''Current value: '', ONative vc],
        [OText (nl @ ''--- Resetting value to 0 ---'')], [OText (nl @ ''--- Verifying reset ---'')],
        [OText ''Final value after reset: '', ONative vf]] \<and>
     fk_seq (net w') = (fk_seq (net w))(kp_public kp \<mapsto> s + 7) \<and> fk_polls (net w') = rest \<and>
     length (calls w') = length (calls w) + 30"
  using assms
  by (simp add: main_increment_def banner_def startup_def deployIncrementContract_def log_value_def uploadWasm_def
      deployContract_def buildAndSendTransaction_stages submitTransaction_def simulateTransaction_stages prog_simps
      createCustomContract_def buffer_from_hex_encode numeral_3_eq_3 encodeContract_def Let_def fake_submit_settles
      add.commute)

theorem main_increment_output_witness:
  "\<exists>w'. main_increment fake_server (Inr ()) (Inr signer_kp) demo_world = (Inr (), w') \<and>
     stdout w' =
       [[OText ''--------------------------------''], [OText ''Increment Example''], [OText ''--------------------------------''],
        [OText ''Stellar provider initialized successfully''], [OText ''User account: '', OAddress (kp_public signer_kp)],
        [OText ''Deploying Increment Contract...''], [OText ''Uploaded Wasm: '', OText (hex_encode (replicate 32 170))],
        [OText ''Deployed Increment Contract: '', OAddress counter_id],
        [OText ''Contract deployed successfully. Address: '', OAddress counter_id],
        [OText (nl @ ''--- Calling increment() function multiple times ---'')]] @
       increment_lines 1 [ScvU32 1, ScvU32 2, ScvU32 3] @
       [[OText (nl @ ''--- Getting current value ---'')], [OText ''Current value: '', ONative (ScvU32 3)],
        [OText (nl @ ''--- Resetting value to 0 ---'')], [OText (nl @ ''--- Verifying reset ---'')],
        [OText ''Final value after reset: '', ONative (ScvU32 0)]] \<and>
     fk_seq (net w') = [kp_public signer_kp \<mapsto> 5 + 7] \<and> fk_polls (net w') = [] \<and> length (calls w') = 30"
  using main_increment_output [where w = demo_world and kp = signer_kp and s = 5 and salt = "replicate 32 170"
      and wasmHash = "replicate 32 7" and ck = "replicate 32 2" and va = "ScvU32 1" and vb = "ScvU32 2"
      and vd = "ScvU32 3" and vc = "ScvU32 3" and vr = ScvVoid and rest = "[]" and vf = "ScvU32 0"]
  by (simp add: demo_world_def demo_net_def scenario_net_def signer_kp_def counter_id_def BASE_FEE_def)

text \<open>C19. \<open>events/index.ts\<close> runs on an endpoint that confirms each of its five
  transactions on the first status query up to its listing: it deploys the events
  contract, calls \<open>increment\<close> on it three times, asks for the events of that
  contract from 100 ledgers before the endpoint's latest ledger, and hands
  \<open>print_events\<close> exactly the events the endpoint holds for that contract (at most
  1000), having consumed five sequence numbers.\<close>

theorem main_events_run:
  assumes "fk_seq (net w) (kp_public kp) = Some s" and "kp_secret kp \<noteq> None"
    and "fk_prepare_error (net w) = None" and "fk_min_fee (net w) \<le> BASE_FEE"
    and "files w ''contracts/events/target/wasm32v1-none/release/soroban_events_contract.wasm'' = Some code"
    and "fk_hashes (net w) = hex_encode salt # hs" and "length salt = 32" and "length wasmHash = 32"
    and "fk_polls (net w) = [(SUCCESS, Some (ScvBytes wasmHash)), (SUCCESS, Some (ScvAddress (ContractAddress ck))),
           (SUCCESS, Some va), (SUCCESS, Some vb), (SUCCESS, Some vd)] @ rest"
  shows "\<exists>w1. main_events fake_server (Inr ()) (Inr kp) w =
               print_events (take 1000 (filter (\<lambda>e. ev_contract e = ContractAddress ck) (fk_events (net w)))) w1 \<and>
     take (length (calls w)) (calls w1) = calls w \<and> length (calls w1) = length (calls w) + 22 \<and>
     drop (length (calls w) + 20) (calls w1) = [GetLatestLedger, GetEvents (int (fk_ledger (net w)) - 100) [ContractAddress ck] 1000] \<and>
     prepared_ops (calls w1) = prepared_ops (calls w) @
       [UploadContractWasm code, CreateContract (kp_public kp) salt wasmHash,
        InvokeContract (ContractAddress ck) ''increment'' [], InvokeContract (ContractAddress ck) ''increment'' [],
        InvokeContract (ContractAddress ck) ''increment'' []] \<and>
     fk_seq (net w1) = (fk_seq (net w))(kp_public kp \<mapsto> s + 5) \<and> fk_polls (net w1) = rest"
  using assms
  apply (simp add: main_events_def banner_def startup_def deployEventsContract_def uploadWasm_def uploadContractWasm_def log_value_def
      deployContract_def buildAndSendTransaction_stages submitTransaction_def prog_simps events_increment_loop_eq
      createCustomContract_def buffer_from_hex_encode numeral_3_eq_3 encodeContract_def Let_def fake_submit_settles
      add.commute built_tx_def tx_sign_def contract_call_def)
  by (rule exI, rule conjI, rule refl) simp

theorem main_events_run_witness:
  "\<exists>w1. main_events fake_server (Inr ()) (Inr signer_kp) demo_world =
            print_events (take 1000 (filter (\<lambda>e. ev_contract e = counter_id) (fk_events demo_net))) w1 \<and>
     take 0 (calls w1) = [] \<and> length (calls w1) = 22 \<and>
     drop 20 (calls w1) = [GetLatestLedger, GetEvents (int 1000 - 100) [counter_id] 1000] \<and>
     prepared_ops (calls w1) =
       [UploadContractWasm [0, 0x61, 0x73, 0x6d, 1], CreateContract (kp_public signer_kp) (replicate 32 170) (replicate 32 7),
        InvokeContract counter_id ''increment'' [], InvokeContract counter_id ''increment'' [],
        InvokeContract counter_id ''increment'' []] \<and>
     fk_seq (net w1) = [kp_public signer_kp \<mapsto> 5 + 5] \<and> fk_polls (net w1) = [(SUCCESS, Some (ScvU32 3)), (SUCCESS, Some ScvVoid)]"
  using main_events_run [where w = demo_world and kp = signer_kp and s = 5 and salt = "replicate 32 170"
      and wasmHash = "replicate 32 7" and ck = "replicate 32 2" and va = "ScvU32 1" and vb = "ScvU32 2"
      and vd = "ScvU32 3" and rest = "[(SUCCESS, Some (ScvU32 3)), (SUCCESS, Some ScvVoid)]"
      and code = "[0, 0x61, 0x73, 0x6d, 1]"]
  by (simp add: demo_world_def demo_net_def scenario_net_def signer_kp_def counter_id_def BASE_FEE_def)

end
