(* ===== verification/Spec2Isabelle.thy ===== *)
theory Spec2Isabelle
  imports Exit_Status Fake_Runs
begin

text \<open>
  \<^bold>\<open>A verification model of the transaction scripts of get-started-with-stellar-sdk.\<close>

  \<^bold>\<open>The program.\<close> The repository is a set of TypeScript scripts that deploy and call
  smart contracts through a Stellar RPC endpoint. Its only logic of depth is the
  transaction lifecycle in \<open>src/src/utils\<close>: \<open>helpers.ts\<close> submits a contract call
  (\<open>submitTransaction\<close> builds the operation, \<open>submitStellarTransaction\<close> reads the
  signer's account, builds, prepares, signs and sends the transaction, and
  \<open>getPollingTransaction\<close> waits for its outcome through the SDK's
  \<open>pollTransaction\<close>); \<open>deploy.ts\<close> uploads contract code and creates contract
  instances (\<open>uploadWasm\<close>, \<open>deployContract\<close>) through a second copy of that
  pipeline (\<open>buildAndSendTransaction\<close>, \<open>buildTransaction\<close>);
  \<open>simulate_transaction.ts\<close> evaluates a read-only call without submitting it
  (\<open>simulateTransaction\<close>). The \<open>main\<close> scripts under \<open>increment\<close>,
  \<open>hello_world\<close> and \<open>events\<close> and the two \<open>deploy*Contract\<close> wrappers compose
  these calls in a fixed sequence.

  \<^bold>\<open>How it is modelled.\<close>
  \<^item> \<open>Prelude\<close>: an async function is a state transformer with an abrupt outcome,
    \<open>('s, 'a) prog = 's \<Rightarrow> (abrupt + 'a) \<times> 's\<close>; \<open>bind_p\<close> is \<open>await\<close> followed by the
    rest of the body, \<open>catch_p\<close> is \<open>try\<close>/\<open>catch\<close> (it catches thrown errors, never
    \<open>process.exit\<close>), errors are \<open>Error\<close> or \<open>TypeError\<close> with their message, and
    \<open>js_error_to_string\<close> is \<open>String(error)\<close>. The collection \<open>prog_simps\<close> evaluates
    programs.
  \<^item> \<open>Stellar\<close>: the SDK pieces the scripts call, modelled from the spec and the SDK's
    documented behaviour: addresses, key pairs, \<open>xdr.ScVal\<close> and its throwing
    accessors, the three operations, accounts, transactions, the
    \<open>TransactionBuilder\<close> chain (\<open>new_TransactionBuilder\<close>, \<open>setNetworkPassphrase\<close>,
    \<open>setTimeout\<close>, \<open>addOperation\<close>, \<open>build\<close>), signing, and the endpoint as an
    interface: \<open>'n rpc_server\<close>, a record of functions over an arbitrary network
    state \<open>'n\<close>. The world \<open>'n world\<close> holds that state, the files, both consoles, and
    the log \<open>calls\<close> of the requests sent, in order. \<open>pollTransaction\<close>/\<open>poll_loop\<close>
    is the SDK's bounded polling loop: 30 attempts by default, of which the loop
    runs 29.
  \<^item> \<open>Runtime\<close>: \<open>fs.existsSync\<close>, \<open>fs.readFileSync\<close>, \<open>process.exit\<close>, and the
    hexadecimal codec of \<open>Buffer\<close>.
  \<^item> \<open>Fake_Net\<close>: a concrete endpoint, the scripted fake client of the spec's
    section 8, which enforces sequence numbers and a minimum fee on submission and
    answers status queries from a script; it provides the witnesses.
  \<^item> \<open>Helpers\<close>, \<open>Deploy\<close>, \<open>Simulate\<close>: one definition per function of
    \<open>helpers.ts\<close>, \<open>deploy.ts\<close> and \<open>simulate_transaction.ts\<close>, with the source's
    names, parameters, guards, early returns and \<open>try\<close>/\<open>catch\<close> blocks; each
    builder chain is its own definition (\<open>helpers_build\<close>, \<open>deploy_build\<close>).
  \<^item> \<open>Drivers\<close>: the scripts \<open>increment/deploy.ts\<close>, \<open>events/deploy.ts\<close>
    (\<open>deployIncrementContract\<close>, \<open>deployEventsContract\<close>) and the three
    \<open>index.ts\<close> (\<open>main_increment\<close>, \<open>main_hello_world\<close>, \<open>main_events\<close>), built
    from the shared pieces \<open>banner\<close>, \<open>startup\<close> (\<open>Keypair.fromSecret\<close>, whose
    outcome is an input), \<open>log_value\<close> (the \<open>if (returnValue) ... else null\<close>
    logging), the two \<open>for\<close> loops calling \<open>increment\<close> (structural recursion on the
    iterations left) and \<open>print_events\<close>; \<open>node_main\<close> is the top-level \<open>main();\<close>
    whose unhandled rejection ends the process with code 1. Console output is kept as
    structured lines (\<open>out_part\<close>: literal text and interpolated values).
  \<^item> \<open>StrKey\<close>: the SDK's text form of keys, modelled from its source: base32 on digit
    lists, the checksum as the SDK computes it (a table-driven loop on a JavaScript
    number, \<open>crc_step\<close> over \<open>crcTable\<close>), proved equal to the bitwise CRC-16/XMODEM on
    \<open>16 word\<close> (\<open>crc16\<close>) with its table index always in range, \<open>encodeCheck\<close>,
    \<open>decodeCheck\<close> with its canonicity, version and checksum checks, and
    \<open>Keypair.fromSecret\<close> over an abstract ed25519 key derivation \<open>generate\<close>.
  \<^item> \<open>Config\<close>: the module top level of each \<open>index.ts\<close> (\<open>dotenv.config()\<close>, the
    \<open>?? ""\<close> defaults), the \<open>https\<close> check of \<open>new rpc.Server\<close>, and the scripts as the
    process runs them (\<open>increment_index\<close>, \<open>events_index\<close>, \<open>hello_world_index\<close>),
    from the process environment and the \<open>.env\<close> assignments to the exit code.
  \<^item> \<open>Exit_Status\<close>: the logic \<open>exits_reported\<close> (a program only appends to \<open>stderr\<close>,
    and ends the process only with code 1 after a line there), its rules for the
    combinators and every operation, and its composition with \<open>node_main\<close>.
  \<^item> \<open>Sequence_Numbers\<close>: the logic \<open>consumes a k m\<close> over the fake endpoint (no
    account's sequence number changes but \<open>a\<close>'s, which rises by at most \<open>k\<close>, and by
    exactly \<open>k\<close> when \<open>m\<close> returns), and two submissions with one key run as separate
    processes: \<open>submitStellarTransaction\<close> split at its await points into
    \<open>submit_prepare\<close> and \<open>submit_finish\<close>, and the schedule
    \<open>interleaved_submissions\<close> in which both read the account before either sends.
  \<^item> \<open>Fake_Runs\<close>: one submission to the fake endpoint in closed form
    (\<open>fake_submitStellarTransaction\<close>: account read, build with the next sequence
    number, send consuming it and the next hash, then the status queries until the
    script settles), and through it complete runs of the scripts on an endpoint that
    confirms every transaction.
  \<^item> Program logics (\<open>Prelude\<close>): \<open>writes out P Q m\<close> (on every outcome \<open>m\<close> only
    appends \<open>P\<close>-elements to a log and returns \<open>Q\<close>-values) and \<open>emits out E m\<close> (a
    successful run appends a list satisfying \<open>E\<close>) and \<open>appends_at_most out n m\<close>
    (on every outcome at most \<open>n\<close> elements), with rules for \<open>ret\<close>,
    \<open>throw\<close>, \<open>bind_p\<close>, \<open>catch_p\<close>, \<open>if\<close>, \<open>case\<close> and consequence. Each component
    proves its operations' rules (collections \<open>writes_intros\<close>, \<open>emits_intros\<close>,
    \<open>bound_intros\<close>),
    and the properties of whole scripts are derived from them step by step.

  \<^bold>\<open>What is proved.\<close> Every lemma about the scripts holds for every endpoint unless it
  names the fake endpoint, and every lemma with a hypothesis has a witness on the
  fake endpoint.
  \<^item> The poller (C1--C3): it returns exactly the \<open>SUCCESS\<close> responses that carry a
    return value; every other outcome collapses into the one error
    \<open>"Error fetching transaction"\<close>; it always returns, after at most 29 status
    queries, also when the endpoint answers \<open>NOT_FOUND\<close> forever.
  \<^item> The submission pipeline (C4--C6): its requests are sent strictly in the order
    account read, preparation, submission of the signed transaction, status queries,
    each built from the answer to the one before;
    a rejected preparation aborts it with the endpoint's own error; the status of the
    submission is never read.
  \<^item> Deployment (C7--C11): the second pipeline is the same program as the first;
    \<open>uploadWasm\<close> exits with code 1 and three error lines when the file is missing,
    and otherwise uploads exactly the file's bytes; the salt of the contract creation
    is exactly the 32 bytes of the upload hash, and a hash that does not decode to
    32 bytes is rejected before any request.
  \<^item> Simulation (C12--C15): the result on every branch, the doubled prefix of its
    error messages, that it sends only an account read and a simulation, and that
    every failure carries the prefix.
  \<^item> Across components (C16--C19, in \<open>Fake_Runs\<close> and below): the two scenarios
    of the spec's section 8 end to end, for every account, call, hash and number of
    \<open>PENDING\<close> answers (a \<open>FAILED\<close> transaction surfaces as the generic error, its
    sequence number consumed); each accepted submission consumes exactly one
    sequence number, because it reads the account right before building; and the
    events script runs on a confirming endpoint up to its listing, which receives
    exactly the events the endpoint holds for the contract the script created.
  \<^item> The scripts (C20--C24, in \<open>Drivers\<close>): the increment script never prints its
    \<open>null\<close> lines (dead branches); a completed run of it prepares exactly upload,
    creation, three increments, \<open>get_count\<close> and \<open>reset\<close> on one contract and
    simulates one \<open>get_count\<close>; the event listing's output and its crash on an event
    without topic; the requests of a completed events run, ending with the events
    query from \<open>L - 100\<close> on an endpoint whose latest ledger reads \<open>L\<close>; and a
    malformed key ends the process with exit code 1 after the banner. Both completed
    runs are witnessed end to end on the fake endpoint (\<open>demo_world\<close>). On an
    endpoint that confirms every transaction the increment script completes and
    prints exactly the fixed lines and the values the endpoint answered (C40, in
    \<open>Fake_Runs\<close>).
  \<^item> Bounds, types and interfaces (C25, C26, C28, C30, in \<open>Drivers\<close>): whatever the
    endpoint answers, the increment script sends at most 226 requests and the events
    script at most 162 (32 per submission, 2 per simulation, the two event queries);
    every transaction the increment script sends for preparation or simulation is
    well formed (\<open>tx_wf\<close>: one operation, base fee, test network, 30-second
    timeout, unsigned); the hello-world script is proved against the request contract
    \<open>D\<close> of whatever deploy function it is given.
  \<^item> The poller against a specification (C27, C29, below): on the scripted endpoint
    the poller succeeds exactly when the confirmation comes by the 29th query, and
    it refines \<open>poll_spec\<close>, a non-recursive specification of polling (the first
    answer other than \<open>NOT_FOUND\<close> among the first 29, else the 29th), in its result,
    its number of queries and the answers it consumes.

  \<^item> Keys and configuration (C31--C35, C39, in \<open>Config\<close>, from the lemmas of \<open>StrKey\<close>): a key pair
    accepted by \<open>Keypair.fromSecret\<close> returns the very string it was given as its
    secret (base32 and StrKey roundtrips in both directions), so the re-creation of
    the key pair in \<open>buildAndSendTransaction\<close> is the identity; a public key given as
    the secret is rejected; a missing URL or key ends the script with exit code 1
    after the banner, with errors that do not name the missing variable; each
    variable is read from the process environment when set there and from the
    \<open>.env\<close> file otherwise; and a seed whose
    checksum bytes do not match passes the canonicity and version checks and ends
    the script with \<open>"invalid checksum"\<close>.
  \<^item> Processes (C36--C38, in \<open>Exit_Status\<close> and \<open>Sequence_Numbers\<close>): every
    \<open>index.ts\<close> ends with status 0, or with status 1 after at least one line on
    \<open>stderr\<close>; on an endpoint that enforces sequence numbers the increment script
    consumes at most 7 of the signer's numbers, exactly 7 when it completes (the
    events script 5), and touches no other account; and two submissions with the
    same key that both read the account before either sends collide: both carry
    \<open>s + 1\<close>, the second is rejected, and its process polls it anyway.

  \<^bold>\<open>Bounds.\<close> The loops are the SDK's polling loop and the scripts' \<open>for\<close> loops
  over three calls and over the listed events; each is a structural recursion (on
  the attempts left, the iterations left, the list), so every definition is total
  and no fuel is needed. The bound of 29 status queries comes from the SDK's default
  of 30 attempts, which the scripts never override.

  \<^bold>\<open>Not modelled.\<close> The cryptography: the ed25519 derivation of a public key from
  a seed is a parameter, and signatures are recorded as the signer's public key. The
  XDR encoding and the RPC wire protocol (the endpoint is an interface). The text
  rendering of interpolated values in console lines (addresses and contract values
  are kept as values). The parsing of the \<open>.env\<close> file (its assignments are an input
  of \<open>dotenv_config\<close>) and the URL parser of \<open>rpc.Server\<close> beyond its scheme. The clock
  (time bounds are kept as the relative 30-second timeout, the sleep between polls is
  omitted), and the contracts themselves. \<open>hello_world/index.ts\<close> imports
  \<open>deployHelloWorldContract\<close> from \<open>./deploy.js\<close>, which is not in the repository;
  its script is modelled over that function as a parameter. Concurrency between
  processes is modelled by explicit schedules of their await points, not by an
  interleaving semantics of all programs.
\<close>

subsection \<open>An abstract specification of polling a scripted endpoint\<close>

text \<open>On the scripted endpoint of \<open>Fake_Net\<close>, the network's answers to status queries
  are a list, followed by \<open>NOT_FOUND\<close> forever. The specification of a poll with
  budget \<open>k\<close> (looking at most \<open>n \<ge> k\<close> answers ahead): it asks
  \<open>poll_queries n k xs\<close> times, one more than the leading \<open>NOT_FOUND\<close> answers but
  at most \<open>k\<close>, and its result is the last answer it asked for. \<open>poll_spec\<close> is this
  specification at the SDK's budget of 29 queries: the response and the number of
  queries.\<close>

definition not_found_answer :: "tx_status \<times> scval option" where
  "not_found_answer = (NOT_FOUND, None)"

definition poll_queries :: "nat \<Rightarrow> nat \<Rightarrow> (tx_status \<times> scval option) list \<Rightarrow> nat" where
  "poll_queries n k xs = min k (Suc (length (takeWhile (\<lambda>a. fst a = NOT_FOUND) (xs @ replicate n not_found_answer))))"

definition poll_answer :: "string \<Rightarrow> tx_status \<times> scval option \<Rightarrow> get_tx_response" where
  "poll_answer h a = \<lparr>gt_status = fst a, gt_txHash = h, gt_returnValue = snd a\<rparr>"

definition poll_spec :: "string \<Rightarrow> (tx_status \<times> scval option) list \<Rightarrow> get_tx_response \<times> nat" where
  "poll_spec h xs =
     (let q = poll_queries 29 29 xs in (poll_answer h ((xs @ replicate 29 not_found_answer) ! (q - 1)), q))"

subsection \<open>Cross-component lemmas on the fake endpoint\<close>

text \<open>The loop of the SDK implements the specification, for every budget.\<close>

lemma fake_poll_loop_refines:
  assumes "k \<le> n" and "fk_polls (net w) = xs"
  shows "poll_loop fake_server h k f w =
     (Inr (if k = 0 then f else Some (poll_answer h ((xs @ replicate n not_found_answer) ! (poll_queries n k xs - 1)))),
      w\<lparr>net := (net w)\<lparr>fk_polls := drop (poll_queries n k xs) xs\<rparr>,
        calls := calls w @ replicate (poll_queries n k xs) (GetTransaction h)\<rparr>)"
  using assms
proof (induction k arbitrary: n xs f w)
  case 0 then show ?case by (simp add: prog_simps poll_queries_def)
next
  case (Suc k)
  then obtain n' where n: "n = Suc n'" and kn: "k \<le> n'" by (cases n) auto
  show ?case
  proof (cases xs)
    case Nil
    let ?w1 = "w\<lparr>calls := calls w @ [GetTransaction h]\<rparr>"
    have q: "poll_queries n (Suc k) xs = Suc (poll_queries n' k [])"
      using Nil n kn by (simp add: poll_queries_def not_found_answer_def takeWhile_replicate)
    have step: "poll_loop fake_server h (Suc k) f w = poll_loop fake_server h k (Some (poll_answer h not_found_answer)) ?w1"
      using Suc.prems Nil by (simp add: prog_simps poll_answer_def not_found_answer_def)
    show ?thesis
      unfolding step q using Suc.IH [where n = n' and xs = "[]" and w = ?w1 and f = "Some (poll_answer h not_found_answer)"] kn Suc.prems Nil n
      by (simp add: poll_queries_def not_found_answer_def takeWhile_replicate min_def)
  next
    case (Cons a xs')
    let ?w1 = "w\<lparr>net := (net w)\<lparr>fk_polls := xs'\<rparr>, calls := calls w @ [GetTransaction h]\<rparr>"
    show ?thesis
    proof (cases "fst a = NOT_FOUND")
      case False
      then show ?thesis using Suc.prems Cons
        by (cases a) (simp add: prog_simps poll_answer_def poll_queries_def)
    next
      case True
      have step: "poll_loop fake_server h (Suc k) f w = poll_loop fake_server h k (Some (poll_answer h a)) ?w1"
        using Suc.prems Cons True by (cases a) (simp add: prog_simps poll_answer_def)
      have q: "poll_queries n (Suc k) xs = Suc (poll_queries n k xs')"
        using Cons True by (simp add: poll_queries_def)
      show ?thesis
        unfolding step q using Suc.IH [where n = n and xs = xs' and w = ?w1 and f = "Some (poll_answer h a)"] Suc.prems Cons
        by (auto simp: poll_queries_def nth_Cons')
    qed
  qed
qed
text \<open>On the scripted endpoint, a transaction that shows \<open>NOT_FOUND\<close> for at least as
  many queries as the loop has attempts: the loop ends on a \<open>NOT_FOUND\<close> answer.\<close>

lemma fake_poll_loop_not_found:
  assumes "fk_polls (net w) = replicate j (NOT_FOUND, None) @ rest" and "0 < k" and "k \<le> j"
  shows "result_of (poll_loop fake_server h k f) w = Inr (Some \<lparr>gt_status = NOT_FOUND, gt_txHash = h, gt_returnValue = None\<rparr>)"
  using assms
proof (induction k arbitrary: j f w)
  case 0 then show ?case by simp
next
  case (Suc k)
  then obtain j' where j: "j = Suc j'" by (cases j) auto
  show ?case
  proof (cases k)
    case 0 with Suc.prems j show ?thesis by (simp add: prog_simps)
  next
    case (Suc k')
    let ?w1 = "w\<lparr>net := (net w)\<lparr>fk_polls := replicate j' (NOT_FOUND, None) @ rest\<rparr>, calls := calls w @ [GetTransaction h]\<rparr>"
    have "poll_loop fake_server h (Suc k) f w = poll_loop fake_server h k (Some \<lparr>gt_status = NOT_FOUND, gt_txHash = h, gt_returnValue = None\<rparr>) ?w1"
      using Suc.prems j by (simp add: prog_simps)
    then show ?thesis using Suc.IH [where j = j' and w = ?w1] Suc.prems j \<open>k = Suc k'\<close> by simp
  qed
qed

lemma fake_pollTransaction_spec:
  "pollTransaction fake_server h None w =
     (Inr (Some (fst (poll_spec h (fk_polls (net w))))),
      w\<lparr>net := (net w)\<lparr>fk_polls := drop (snd (poll_spec h (fk_polls (net w)))) (fk_polls (net w))\<rparr>,
        calls := calls w @ replicate (snd (poll_spec h (fk_polls (net w)))) (GetTransaction h)\<rparr>)"
  using fake_poll_loop_refines [of 29 29 w "fk_polls (net w)" h None]
  by (simp add: pollTransaction_def DEFAULT_GET_TRANSACTION_TIMEOUT_def poll_spec_def Let_def)

subsection \<open>Sequence numbers\<close>

text \<open>C18. Because \<open>submitStellarTransaction\<close> reads the account immediately before
  building, its transaction always carries the next sequence number: on an endpoint
  that enforces sequence numbers, a submission whose preparation succeeds and whose
  fee meets the minimum is accepted, and it consumes exactly one sequence number of
  the signer, whatever the polling then reports.\<close>

theorem fresh_read_consumes_one_sequence_number:
  assumes "sst_provider p = fake_server"
    and "fk_seq (net w) (kp_public (sst_signer p)) = Some s"
    and "fk_prepare_error (net w) = None"
    and "fk_min_fee (net w) \<le> js_default BASE_FEE (sst_fee p)"
  shows "fk_seq (net (state_of (submitStellarTransaction p) w)) (kp_public (sst_signer p)) = Some (s + 1)"
  using assms
  by (simp add: submitStellarTransaction_stages fake_defs built_tx_def tx_sign_def Let_def
                fake_getPollingTransaction_seq split: prod.splits sum.splits list.splits)

theorem fresh_read_consumes_one_sequence_number_witness:
  "fk_seq (net (state_of (submitStellarTransaction scenario_params) (fake_world scenario_net))) (kp_public signer_kp)
     = Some 6"
  using fresh_read_consumes_one_sequence_number [of scenario_params "fake_world scenario_net" 5]
  by (simp add: scenario_params_def prog_simps BASE_FEE_def)

text \<open>C27. The poller's budget, exactly: on an endpoint where the transaction shows
  \<open>NOT_FOUND\<close> for \<open>j\<close> status queries and is then confirmed with a return value,
  \<open>getPollingTransaction\<close> returns the confirmed response if and only if \<open>j < 29\<close>,
  that is, when the confirmation comes by the 29th query; a confirmation on the
  30th query or later is reported as the generic error.\<close>

theorem getPollingTransaction_succeeds_within_budget:
  assumes "fk_polls (net w) = replicate j (NOT_FOUND, None) @ (SUCCESS, Some v) # rest"
  shows "result_of (getPollingTransaction fake_server h) w =
           Inr \<lparr>gt_status = SUCCESS, gt_txHash = h, gt_returnValue = Some v\<rparr> \<longleftrightarrow> j < 29"
proof (cases "j < 29")
  case True
  then show ?thesis using fake_poll_loop_settles [OF assms _ True, of h None]
    by (simp add: getPollingTransaction_unfold pollTransaction_def DEFAULT_GET_TRANSACTION_TIMEOUT_def)
next
  case False
  have "fk_polls (net w) = replicate j (NOT_FOUND, None) @ (SUCCESS, Some v) # rest" by (fact assms)
  from fake_poll_loop_not_found [OF this, of 29 h None] False
  have "result_of (poll_loop fake_server h 29 None) w = Inr (Some \<lparr>gt_status = NOT_FOUND, gt_txHash = h, gt_returnValue = None\<rparr>)"
    by simp
  then show ?thesis using False
    by (auto simp: getPollingTransaction_unfold pollTransaction_def DEFAULT_GET_TRANSACTION_TIMEOUT_def
             split: prod.splits)
qed

theorem getPollingTransaction_succeeds_within_budget_witness:
  "result_of (getPollingTransaction fake_server ''abc'') (fake_world (scenario_net\<lparr>fk_polls := replicate 28 (NOT_FOUND, None) @ [(SUCCESS, Some (ScvU32 42))]\<rparr>)) =
     Inr \<lparr>gt_status = SUCCESS, gt_txHash = ''abc'', gt_returnValue = Some (ScvU32 42)\<rparr>"
  by (rule getPollingTransaction_succeeds_within_budget [of _ 28 _ "[]", THEN iffD2]) simp_all
text \<open>C29. Refinement of the poller by the specification of polling: on the scripted
  endpoint, \<open>getPollingTransaction\<close> returns the response \<open>poll_spec\<close> computes from
  the script of answers when it is a confirmation with a return value, and the
  generic error otherwise; it sends exactly the number of status queries
  \<open>poll_spec\<close> computes, all for the same hash, and consumes exactly those answers.\<close>

theorem getPollingTransaction_refines_poll_spec:
  "getPollingTransaction fake_server h w =
     (if gt_status (fst (poll_spec h (fk_polls (net w)))) = SUCCESS \<and>
         gt_returnValue (fst (poll_spec h (fk_polls (net w)))) \<noteq> None
      then Inr (fst (poll_spec h (fk_polls (net w))))
      else Inl (Thrown (Error ''Error fetching transaction'')),
      w\<lparr>net := (net w)\<lparr>fk_polls := drop (snd (poll_spec h (fk_polls (net w)))) (fk_polls (net w))\<rparr>,
        calls := calls w @ replicate (snd (poll_spec h (fk_polls (net w)))) (GetTransaction h)\<rparr>)"
  by (simp add: getPollingTransaction_unfold fake_pollTransaction_spec)

end
